theory Spec2Isabelle
  imports Complex_Main "HOL-Library.Sublist"
begin

chapter \<open>Prospect Miner: lead identity, lead store and pipeline stages\<close>

text \<open>
  A shallow embedding of the TypeScript sources of the repository:
  \<^item> \<^verbatim>\<open>src/state/lead-service.ts\<close> (identity, the lead table and its queries),
  \<^item> \<^verbatim>\<open>src/state/database.ts\<close> (the schema and the statement wrapper),
  \<^item> \<^verbatim>\<open>src/state/run-service.ts\<close> and \<^verbatim>\<open>src/stages/base-stage.ts\<close> (run counters),
  \<^item> the stages \<^verbatim>\<open>discover\<close>, \<^verbatim>\<open>collect\<close>, \<^verbatim>\<open>filter\<close>, \<^verbatim>\<open>enrich\<close>, \<^verbatim>\<open>score\<close>,
    \<^verbatim>\<open>output\<close> and \<^verbatim>\<open>refresh\<close>.
\<close>

section \<open>JavaScript values\<close>

text \<open>
  A property of a JavaScript object read by the code holds \<^verbatim>\<open>undefined\<close>, \<^verbatim>\<open>null\<close> or
  a value. The two empty values are kept apart: the spread in \<^verbatim>\<open>upsert\<close> and the test
  \<^verbatim>\<open>lead.score !== undefined\<close> of the refresh stage tell them apart.
\<close>

datatype 'a js = Undefined | Null | Val 'a

text \<open>
  A key of a \<^verbatim>\<open>Partial<Lead>\<close> argument is absent, present and \<^verbatim>\<open>undefined\<close>, or
  present with a value.
\<close>

datatype 'a pkey = Absent | Undef | Given 'a

text \<open>\<^verbatim>\<open>{...existing, ...lead}\<close> at one key: a key that is present wins, whatever it holds.\<close>

fun spread :: "'a js \<Rightarrow> 'a pkey \<Rightarrow> 'a js" where
  "spread e Absent = e"
| "spread e Undef = Undefined"
| "spread e (Given v) = Val v"

text \<open>Reading a key of the argument object: an absent key reads as \<^verbatim>\<open>undefined\<close>.\<close>

fun readField :: "'a pkey \<Rightarrow> 'a js" where
  "readField Absent = Undefined"
| "readField Undef = Undefined"
| "readField (Given v) = Val v"

text \<open>
  \<^verbatim>\<open>sanitizeParams\<close> of the statement wrapper binds \<^verbatim>\<open>undefined\<close> as SQL NULL, and
  \<^verbatim>\<open>null\<close> is NULL already. A column read back from a row is \<^verbatim>\<open>null\<close> or a value.
\<close>

fun sanitize :: "'a js \<Rightarrow> 'a option" where
  "sanitize (Val v) = Some v"
| "sanitize Undefined = None"
| "sanitize Null = None"

fun column :: "'a option \<Rightarrow> 'a js" where
  "column None = Null"
| "column (Some v) = Val v"

section \<open>Strings\<close>

text \<open>
  Strings are ASCII strings. \<^verbatim>\<open>toLowerCase\<close> maps \<^verbatim>\<open>A-Z\<close> to \<^verbatim>\<open>a-z\<close>; \<^verbatim>\<open>trim\<close>
  removes the ASCII white space (tab, line feed, vertical tab, form feed, carriage
  return, space) at both ends.
\<close>

definition upperChars :: string where
  "upperChars = ''ABCDEFGHIJKLMNOPQRSTUVWXYZ''"

definition lowerChars :: string where
  "lowerChars = ''abcdefghijklmnopqrstuvwxyz''"

definition lowerChar :: "char \<Rightarrow> char" where
  "lowerChar c = (case map_of (zip upperChars lowerChars) c of Some d \<Rightarrow> d | None \<Rightarrow> c)"

definition toLowerCase :: "string \<Rightarrow> string" where
  "toLowerCase s = map lowerChar s"

definition isSpace :: "char \<Rightarrow> bool" where
  "isSpace c = (c \<in> set [CHR 0x09, CHR 0x0A, CHR 0x0B, CHR 0x0C, CHR 0x0D, CHR '' ''])"

definition trim :: "string \<Rightarrow> string" where
  "trim s = rev (dropWhile isSpace (rev (dropWhile isSpace s)))"

text \<open>\<^verbatim>\<open>parts.join(sep)\<close>.\<close>

fun join :: "string \<Rightarrow> string list \<Rightarrow> string" where
  "join sep [] = []"
| "join sep [x] = x"
| "join sep (x # y # ys) = x @ sep @ join sep (y # ys)"

text \<open>\<^verbatim>\<open>s || d\<close> on an optional string: \<^verbatim>\<open>undefined\<close>, \<^verbatim>\<open>null\<close> and \<^verbatim>\<open>''\<close> are falsy.\<close>

fun strOr :: "string js \<Rightarrow> string \<Rightarrow> string" where
  "strOr (Val s) d = (if s = [] then d else s)"
| "strOr Undefined d = d"
| "strOr Null d = d"

text \<open>\<^verbatim>\<open>s.includes(t)\<close>: \<open>t\<close> is a contiguous substring of \<open>s\<close>.\<close>

fun startsWith :: "string \<Rightarrow> string \<Rightarrow> bool" where
  "startsWith s [] = True"
| "startsWith [] (c # t) = False"
| "startsWith (d # s) (c # t) = (d = c \<and> startsWith s t)"

fun strIncludes :: "string \<Rightarrow> string \<Rightarrow> bool" where
  "strIncludes [] t = (t = [])"
| "strIncludes (c # s) t = (startsWith (c # s) t \<or> strIncludes s t)"

section \<open>Identity\<close>

text \<open>
  \<^verbatim>\<open>generateLeadId\<close> (lead-service.ts, lines 22-36). The SHA-256 hex digest of Node's
  \<^verbatim>\<open>crypto\<close> module is not part of the repository: it is the parameter \<open>sha256hex\<close>.
\<close>

definition generateLeadId ::
  "(string \<Rightarrow> string) \<Rightarrow> string \<Rightarrow> string js \<Rightarrow> string js \<Rightarrow> string js \<Rightarrow> string" where
  "generateLeadId sha256hex canonicalName city state country =
     (let components = join ''|''
        [trim (toLowerCase canonicalName),
         trim (toLowerCase (strOr city '''')),
         trim (toLowerCase (strOr state '''')),
         trim (toLowerCase (strOr country ''us''))]
      in take 16 (sha256hex components))"

section \<open>The lead table\<close>

text \<open>The string unions of \<^verbatim>\<open>src/state/types.ts\<close>.\<close>

datatype LeadStatus = New | Collected | Filtered | Enriched | Scored | Output | Excluded | Cooldown

datatype AngleType =
  no_website | outdated_website | low_reviews | poor_ratings | no_online_booking | founder_led

datatype ExclusionReason =
  bad_fit | duplicate_brand | competitor | manually_excluded | invalid_contact | out_of_geo
  | wrong_industry

datatype ContactResult = sent | opened | bounced_hard | bounced_soft | no_reply | replied

datatype FailureType =
  captcha_block | no_contact_page | site_timeout | bounce_hard | bounce_soft | rate_limited
  | dns_error | ssl_error | page_not_found | parse_error | unknown

text \<open>
  JavaScript numbers are IEEE 754 doubles. A finite double is the rational it denotes;
  comparison, \<^verbatim>\<open>Math.min\<close>, \<^verbatim>\<open>Math.max\<close> and \<^verbatim>\<open>Math.round\<close> are exact on these values,
  and the four arithmetic operations, which round, are built-ins (\<open>numAdd\<close>, \<open>numSub\<close>,
  \<open>numMul\<close>, \<open>numDiv\<close> below). Time stamps and the INTEGER columns are integers.
\<close>

type_synonym number = rat

text \<open>
  The JSON columns hold typed values: \<^verbatim>\<open>JSON.parse (JSON.stringify v)\<close> is \<open>v\<close>, and a key
  that is absent from the stored object is \<open>None\<close>. \<^verbatim>\<open>reviewCount\<close> and \<^verbatim>\<open>rating\<close> are
  read by the score stage through \<^verbatim>\<open>lead.sourceMetadata as any\<close>.
\<close>

record SourceMetadata =
  directories :: "string list option"
  geos :: "string list option"
  tags :: "string list option"
  originalSource :: "string option"
  discoveryRunId :: "string option"
  reviewCount :: "number option"
  rating :: "number option"

record EnrichmentData =
  emails :: "string list"
  phones :: "string list"
  socialLinks :: "(string \<times> string) list"
  hasOnlineBooking :: bool
  lastWebsiteUpdate :: "string option"
  pageTitle :: "string option"
  metaDescription :: "string option"
  technologies :: "string list option"
  employeeCount :: "number option"
  linkedinCompanyUrl :: "string option"
  linkedinEmployeeCount :: "number option"
  founderLinkedin :: "string option"

record EnrichmentFailure =
  failure_type :: FailureType
  failure_source :: string
  failure_timestamp :: int
  failure_message :: "string option"

text \<open>
  A row of the table \<^verbatim>\<open>leads\<close> (the schema in database.ts): a column without
  \<^verbatim>\<open>NOT NULL\<close> is an option, \<open>None\<close> for SQL NULL.
\<close>

record row =
  col_lead_id :: string
  col_business_name :: string
  col_canonical_name :: string
  col_address :: "string option"
  col_city :: "string option"
  col_state :: "string option"
  col_postal_code :: "string option"
  col_country :: "string option"
  col_phone :: "string option"
  col_email :: "string option"
  col_website :: "string option"
  col_first_seen_at :: int
  col_last_seen_at :: int
  col_last_contact_attempt :: "int option"
  col_last_contact_result :: "ContactResult option"
  col_excluded_reason :: "ExclusionReason option"
  col_cooldown_until :: "int option"
  col_active_angles :: "AngleType list option"
  col_exhausted_angles :: "AngleType list option"
  col_source_metadata :: "SourceMetadata option"
  col_enrichment_data :: "EnrichmentData option"
  col_enrichment_failures :: "EnrichmentFailure list option"
  col_score :: "int option"
  col_score_reasons :: "string list option"
  col_status :: "LeadStatus option"
  col_last_output_at :: "int option"
  col_created_at :: int
  col_updated_at :: int

text \<open>The object \<^verbatim>\<open>rowToLead\<close> builds: the interface \<^verbatim>\<open>Lead\<close> as it is at run time.\<close>

record Lead =
  leadId :: string
  businessName :: string
  canonicalName :: string
  address :: "string js"
  city :: "string js"
  state :: "string js"
  postalCode :: "string js"
  country :: "string js"
  phone :: "string js"
  email :: "string js"
  website :: "string js"
  firstSeenAt :: int
  lastSeenAt :: int
  lastContactAttempt :: "int js"
  lastContactResult :: "ContactResult js"
  excludedReason :: "ExclusionReason js"
  cooldownUntil :: "int js"
  activeAngles :: "AngleType list"
  exhaustedAngles :: "AngleType list"
  sourceMetadata :: SourceMetadata
  enrichmentData :: "EnrichmentData js"
  enrichmentFailures :: "EnrichmentFailure list"
  score :: "int js"
  scoreReasons :: "string list js"
  status :: "LeadStatus js"
  lastOutputAt :: "int js"
  createdAt :: int
  updatedAt :: int

text \<open>\<^verbatim>\<open>JSON.parse('{}')\<close>, the source metadata of a row whose column is NULL.\<close>

definition emptyObject :: SourceMetadata where
  "emptyObject = \<lparr>directories = None, geos = None, tags = None, originalSource = None,
     discoveryRunId = None, reviewCount = None, rating = None\<rparr>"

text \<open>\<^verbatim>\<open>JSON.parse(col || '[]')\<close>.\<close>

fun parseList :: "'a list option \<Rightarrow> 'a list" where
  "parseList None = []"
| "parseList (Some xs) = xs"

text \<open>\<^verbatim>\<open>col ? JSON.parse(col) : undefined\<close>.\<close>

fun parseOrUndefined :: "'a option \<Rightarrow> 'a js" where
  "parseOrUndefined None = Undefined"
| "parseOrUndefined (Some v) = Val v"

definition rowToLead :: "row \<Rightarrow> Lead" where
  "rowToLead r =
     \<lparr>leadId = col_lead_id r,
      businessName = col_business_name r,
      canonicalName = col_canonical_name r,
      address = column (col_address r),
      city = column (col_city r),
      state = column (col_state r),
      postalCode = column (col_postal_code r),
      country = column (col_country r),
      phone = column (col_phone r),
      email = column (col_email r),
      website = column (col_website r),
      firstSeenAt = col_first_seen_at r,
      lastSeenAt = col_last_seen_at r,
      lastContactAttempt = column (col_last_contact_attempt r),
      lastContactResult = column (col_last_contact_result r),
      excludedReason = column (col_excluded_reason r),
      cooldownUntil = column (col_cooldown_until r),
      activeAngles = parseList (col_active_angles r),
      exhaustedAngles = parseList (col_exhausted_angles r),
      sourceMetadata = (case col_source_metadata r of None \<Rightarrow> emptyObject | Some m \<Rightarrow> m),
      enrichmentData = parseOrUndefined (col_enrichment_data r),
      enrichmentFailures = parseList (col_enrichment_failures r),
      score = column (col_score r),
      scoreReasons = parseOrUndefined (col_score_reasons r),
      status = column (col_status r),
      lastOutputAt = column (col_last_output_at r),
      createdAt = col_created_at r,
      updatedAt = col_updated_at r\<rparr>"

text \<open>
  The argument of \<^verbatim>\<open>upsert\<close>, \<^verbatim>\<open>Partial<Lead> & { leadId: string }\<close>: every key but
  \<^verbatim>\<open>leadId\<close> may be absent or hold \<^verbatim>\<open>undefined\<close>.
\<close>

record PartialLead =
  p_leadId :: string
  p_businessName :: "string pkey"
  p_canonicalName :: "string pkey"
  p_address :: "string pkey"
  p_city :: "string pkey"
  p_state :: "string pkey"
  p_postalCode :: "string pkey"
  p_country :: "string pkey"
  p_phone :: "string pkey"
  p_email :: "string pkey"
  p_website :: "string pkey"
  p_firstSeenAt :: "int pkey"
  p_lastSeenAt :: "int pkey"
  p_lastContactAttempt :: "int pkey"
  p_lastContactResult :: "ContactResult pkey"
  p_excludedReason :: "ExclusionReason pkey"
  p_cooldownUntil :: "int pkey"
  p_activeAngles :: "AngleType list pkey"
  p_exhaustedAngles :: "AngleType list pkey"
  p_sourceMetadata :: "SourceMetadata pkey"
  p_enrichmentData :: "EnrichmentData pkey"
  p_enrichmentFailures :: "EnrichmentFailure list pkey"
  p_score :: "int pkey"
  p_scoreReasons :: "string list pkey"
  p_status :: "LeadStatus pkey"
  p_lastOutputAt :: "int pkey"
  p_createdAt :: "int pkey"
  p_updatedAt :: "int pkey"

text \<open>The object literal \<^verbatim>\<open>{ leadId }\<close>: every other key absent.\<close>

definition onlyId :: "string \<Rightarrow> PartialLead" where
  "onlyId i =
     \<lparr>p_leadId = i, p_businessName = Absent, p_canonicalName = Absent, p_address = Absent,
      p_city = Absent, p_state = Absent, p_postalCode = Absent, p_country = Absent,
      p_phone = Absent, p_email = Absent, p_website = Absent, p_firstSeenAt = Absent,
      p_lastSeenAt = Absent, p_lastContactAttempt = Absent, p_lastContactResult = Absent,
      p_excludedReason = Absent, p_cooldownUntil = Absent, p_activeAngles = Absent,
      p_exhaustedAngles = Absent, p_sourceMetadata = Absent, p_enrichmentData = Absent,
      p_enrichmentFailures = Absent, p_score = Absent, p_scoreReasons = Absent,
      p_status = Absent, p_lastOutputAt = Absent, p_createdAt = Absent,
      p_updatedAt = Absent\<rparr>"

text \<open>
  What the code can raise: a \<^verbatim>\<open>TypeError\<close> of the language, or the error sql.js throws
  when a statement violates a constraint of the schema.
\<close>

datatype js_error = TypeError string | SqlError string

text \<open>
  The table is the list of its rows in insertion order; \<^verbatim>\<open>lead_id\<close> is its primary key.
  A \<^verbatim>\<open>SELECT\<close> without \<^verbatim>\<open>ORDER BY\<close> returns the matching rows in that order, and no
  statement of the repository deletes a lead. Writing the database file
  (\<^verbatim>\<open>saveDatabase\<close>) is taken to succeed.
\<close>

definition getById :: "row list \<Rightarrow> string \<Rightarrow> Lead option" where
  "getById rows i = map_option rowToLead (find (\<lambda>r. col_lead_id r = i) rows)"

text \<open>\<^verbatim>\<open>UPDATE leads SET ... WHERE lead_id = ?\<close>.\<close>

definition updateWhere :: "string \<Rightarrow> (row \<Rightarrow> row) \<Rightarrow> row list \<Rightarrow> row list" where
  "updateWhere i f rows = map (\<lambda>r. if col_lead_id r = i then f r else r) rows"

text \<open>
  The existing branch of \<^verbatim>\<open>upsert\<close>: \<^verbatim>\<open>updated = {...existing, ...lead, lastSeenAt: now,
  updatedAt: now}\<close>, and the columns the \<^verbatim>\<open>UPDATE\<close> statement sets from it. The statement
  does not name \<^verbatim>\<open>first_seen_at\<close> and \<^verbatim>\<open>created_at\<close>.
\<close>

definition updatedColumns :: "int \<Rightarrow> Lead \<Rightarrow> PartialLead \<Rightarrow> string \<Rightarrow> string \<Rightarrow> row \<Rightarrow> row" where
  "updatedColumns now existing p bn cn r =
     r\<lparr>col_business_name := bn,
       col_canonical_name := cn,
       col_address := sanitize (spread (address existing) (p_address p)),
       col_city := sanitize (spread (city existing) (p_city p)),
       col_state := sanitize (spread (state existing) (p_state p)),
       col_postal_code := sanitize (spread (postalCode existing) (p_postalCode p)),
       col_country := sanitize (spread (country existing) (p_country p)),
       col_phone := sanitize (spread (phone existing) (p_phone p)),
       col_email := sanitize (spread (email existing) (p_email p)),
       col_website := sanitize (spread (website existing) (p_website p)),
       col_last_seen_at := now,
       col_last_contact_attempt :=
         sanitize (spread (lastContactAttempt existing) (p_lastContactAttempt p)),
       col_last_contact_result :=
         sanitize (spread (lastContactResult existing) (p_lastContactResult p)),
       col_excluded_reason := sanitize (spread (excludedReason existing) (p_excludedReason p)),
       col_cooldown_until := sanitize (spread (cooldownUntil existing) (p_cooldownUntil p)),
       col_active_angles := sanitize (spread (Val (activeAngles existing)) (p_activeAngles p)),
       col_exhausted_angles :=
         sanitize (spread (Val (exhaustedAngles existing)) (p_exhaustedAngles p)),
       col_source_metadata :=
         sanitize (spread (Val (sourceMetadata existing)) (p_sourceMetadata p)),
       col_enrichment_data := sanitize (spread (enrichmentData existing) (p_enrichmentData p)),
       col_enrichment_failures :=
         sanitize (spread (Val (enrichmentFailures existing)) (p_enrichmentFailures p)),
       col_score := sanitize (spread (score existing) (p_score p)),
       col_score_reasons := sanitize (spread (scoreReasons existing) (p_scoreReasons p)),
       col_status := sanitize (spread (status existing) (p_status p)),
       col_last_output_at := sanitize (spread (lastOutputAt existing) (p_lastOutputAt p)),
       col_updated_at := now\<rparr>"

text \<open>\<^verbatim>\<open>v || d\<close> for a key of the argument whose values are all truthy (arrays, objects).\<close>

fun keyOr :: "'a pkey \<Rightarrow> 'a \<Rightarrow> 'a" where
  "keyOr (Given v) d = v"
| "keyOr Absent d = d"
| "keyOr Undef d = d"

text \<open>The insert branch of \<^verbatim>\<open>upsert\<close>: the object \<^verbatim>\<open>newLead\<close> as the row it is stored as.\<close>

definition insertedRow :: "int \<Rightarrow> PartialLead \<Rightarrow> row" where
  "insertedRow now p =
     \<lparr>col_lead_id = p_leadId p,
      col_business_name = strOr (readField (p_businessName p)) '''',
      col_canonical_name = strOr (readField (p_canonicalName p)) '''',
      col_address = sanitize (readField (p_address p)),
      col_city = sanitize (readField (p_city p)),
      col_state = sanitize (readField (p_state p)),
      col_postal_code = sanitize (readField (p_postalCode p)),
      col_country = sanitize (readField (p_country p)),
      col_phone = sanitize (readField (p_phone p)),
      col_email = sanitize (readField (p_email p)),
      col_website = sanitize (readField (p_website p)),
      col_first_seen_at = now,
      col_last_seen_at = now,
      col_last_contact_attempt = sanitize (readField (p_lastContactAttempt p)),
      col_last_contact_result = sanitize (readField (p_lastContactResult p)),
      col_excluded_reason = sanitize (readField (p_excludedReason p)),
      col_cooldown_until = sanitize (readField (p_cooldownUntil p)),
      col_active_angles = Some (keyOr (p_activeAngles p) []),
      col_exhausted_angles = Some (keyOr (p_exhaustedAngles p) []),
      col_source_metadata = Some (keyOr (p_sourceMetadata p)
        (emptyObject\<lparr>directories := Some [], geos := Some [], tags := Some []\<rparr>)),
      col_enrichment_data = sanitize (readField (p_enrichmentData p)),
      col_enrichment_failures = Some (keyOr (p_enrichmentFailures p) []),
      col_score = sanitize (readField (p_score p)),
      col_score_reasons = sanitize (readField (p_scoreReasons p)),
      col_status = Some (keyOr (p_status p) New),
      col_last_output_at = sanitize (readField (p_lastOutputAt p)),
      col_created_at = now,
      col_updated_at = now\<rparr>"

text \<open>
  \<^verbatim>\<open>upsert\<close> (lead-service.ts, lines 88-242). \<^verbatim>\<open>business_name\<close> and \<^verbatim>\<open>canonical_name\<close>
  are \<^verbatim>\<open>NOT NULL\<close>: the \<^verbatim>\<open>UPDATE\<close> throws when the spread left \<^verbatim>\<open>undefined\<close> in one of
  them, and then writes nothing. The result is the new table; no caller reads the object
  the source returns.
\<close>

definition upsert :: "int \<Rightarrow> PartialLead \<Rightarrow> row list \<Rightarrow> js_error + row list" where
  "upsert now p rows =
     (case getById rows (p_leadId p) of
        Some existing \<Rightarrow>
          (case spread (Val (businessName existing)) (p_businessName p) of
             Val bn \<Rightarrow>
               (case spread (Val (canonicalName existing)) (p_canonicalName p) of
                  Val cn \<Rightarrow>
                    Inr (updateWhere (p_leadId p) (updatedColumns now existing p bn cn) rows)
                | _ \<Rightarrow> Inl (SqlError ''NOT NULL constraint failed: leads.canonical_name''))
           | _ \<Rightarrow> Inl (SqlError ''NOT NULL constraint failed: leads.business_name''))
      | None \<Rightarrow> Inr (rows @ [insertedRow now p]))"

text \<open>
  \<^verbatim>\<open>limit ? ... LIMIT ? : ...\<close>: an absent limit and the limit \<open>0\<close> are falsy and select
  without \<^verbatim>\<open>LIMIT\<close>; SQLite reads a negative \<^verbatim>\<open>LIMIT\<close> as no bound.
\<close>

fun applyLimit :: "int option \<Rightarrow> 'a list \<Rightarrow> 'a list" where
  "applyLimit None xs = xs"
| "applyLimit (Some n) xs = (if n = 0 then xs else if n < 0 then xs else take (nat n) xs)"

text \<open>
  \<^verbatim>\<open>getExpiredCooldowns\<close> (lines 270-279). The statement has no \<^verbatim>\<open>ORDER BY\<close>; its only
  condition is a range of \<^verbatim>\<open>cooldown_until\<close>, which SQLite answers by a scan of the index
  \<^verbatim>\<open>idx_leads_cooldown\<close>: the rows come in the order of \<^verbatim>\<open>cooldown_until\<close>, and in the
  order of the table where that is equal.
\<close>

definition getExpiredCooldowns :: "int \<Rightarrow> int option \<Rightarrow> row list \<Rightarrow> Lead list" where
  "getExpiredCooldowns now limit rows =
     map rowToLead (applyLimit limit
       (sort_key (\<lambda>r. case col_cooldown_until r of None \<Rightarrow> 0 | Some u \<Rightarrow> u)
          (filter (\<lambda>r. case col_cooldown_until r of None \<Rightarrow> False | Some u \<Rightarrow> u < now) rows)))"

text \<open>
  \<^verbatim>\<open>getLeadsForStage\<close> (lines 282-306). \<^verbatim>\<open>statusMap[stage]\<close> is a property lookup on an
  object literal: a name inherited from \<^verbatim>\<open>Object.prototype\<close> finds a value that is not
  an array, on which \<^verbatim>\<open>statuses.map\<close> throws. The statement has no \<^verbatim>\<open>ORDER BY\<close>; every
  stage has one predecessor status, and the rows of one status come in the order of the
  table, by a scan of the table or of the index \<^verbatim>\<open>idx_leads_status\<close>.
\<close>

definition statusMap :: "(string \<times> LeadStatus list) list" where
  "statusMap =
     [(''collect'', [New]), (''filter'', [Collected]), (''enrich'', [Filtered]),
      (''score'', [Enriched]), (''output'', [Scored])]"

definition objectPrototypeKeys :: "string list" where
  "objectPrototypeKeys =
     [''constructor'', ''__defineGetter__'', ''__defineSetter__'', ''hasOwnProperty'',
      ''__lookupGetter__'', ''__lookupSetter__'', ''isPrototypeOf'', ''propertyIsEnumerable'',
      ''toString'', ''valueOf'', ''__proto__'', ''toLocaleString'']"

definition eligible :: "int \<Rightarrow> LeadStatus list \<Rightarrow> row \<Rightarrow> bool" where
  "eligible now statuses r =
     ((case col_status r of None \<Rightarrow> False | Some s \<Rightarrow> s \<in> set statuses)
      \<and> col_excluded_reason r = None
      \<and> (case col_cooldown_until r of None \<Rightarrow> True | Some u \<Rightarrow> u < now))"

definition getLeadsForStage :: "int \<Rightarrow> string \<Rightarrow> int option \<Rightarrow> row list \<Rightarrow> js_error + Lead list" where
  "getLeadsForStage now stage limit rows =
     (case map_of statusMap stage of
        Some statuses \<Rightarrow> Inr (map rowToLead (applyLimit limit (filter (eligible now statuses) rows)))
      | None \<Rightarrow>
          if stage \<in> set objectPrototypeKeys
          then Inl (TypeError ''statuses.map is not a function'')
          else Inr [])"

text \<open>The single-statement updates of the service (lines 308-403).\<close>

definition updateStatus :: "int \<Rightarrow> string \<Rightarrow> LeadStatus \<Rightarrow> row list \<Rightarrow> row list" where
  "updateStatus now i s rows =
     updateWhere i (\<lambda>r. r\<lparr>col_status := Some s, col_updated_at := now\<rparr>) rows"

definition exclude :: "int \<Rightarrow> string \<Rightarrow> ExclusionReason \<Rightarrow> row list \<Rightarrow> row list" where
  "exclude now i reason rows =
     updateWhere i
       (\<lambda>r. r\<lparr>col_excluded_reason := Some reason, col_status := Some Excluded,
              col_updated_at := now\<rparr>) rows"

definition setCooldown :: "int \<Rightarrow> string \<Rightarrow> int \<Rightarrow> row list \<Rightarrow> row list" where
  "setCooldown now i until rows =
     updateWhere i
       (\<lambda>r. r\<lparr>col_cooldown_until := Some until, col_status := Some Cooldown,
              col_updated_at := now\<rparr>) rows"

definition updateAngles ::
  "int \<Rightarrow> string \<Rightarrow> AngleType list \<Rightarrow> AngleType list \<Rightarrow> row list \<Rightarrow> row list" where
  "updateAngles now i active exhausted rows =
     updateWhere i
       (\<lambda>r. r\<lparr>col_active_angles := Some active, col_exhausted_angles := Some exhausted,
              col_updated_at := now\<rparr>) rows"

definition updateEnrichment :: "int \<Rightarrow> string \<Rightarrow> EnrichmentData \<Rightarrow> row list \<Rightarrow> row list" where
  "updateEnrichment now i d rows =
     updateWhere i (\<lambda>r. r\<lparr>col_enrichment_data := Some d, col_updated_at := now\<rparr>) rows"

definition addEnrichmentFailure :: "int \<Rightarrow> string \<Rightarrow> EnrichmentFailure \<Rightarrow> row list \<Rightarrow> row list" where
  "addEnrichmentFailure now i failure rows =
     (case getById rows i of
        None \<Rightarrow> rows
      | Some lead \<Rightarrow>
          updateWhere i
            (\<lambda>r. r\<lparr>col_enrichment_failures := Some (enrichmentFailures lead @ [failure]),
                   col_updated_at := now\<rparr>) rows)"

definition updateScore :: "int \<Rightarrow> string \<Rightarrow> int \<Rightarrow> string list \<Rightarrow> row list \<Rightarrow> row list" where
  "updateScore now i sc reasons rows =
     updateWhere i
       (\<lambda>r. r\<lparr>col_score := Some sc, col_score_reasons := Some reasons,
              col_updated_at := now\<rparr>) rows"

definition markOutput :: "int \<Rightarrow> string \<Rightarrow> row list \<Rightarrow> row list" where
  "markOutput now i rows =
     updateWhere i
       (\<lambda>r. r\<lparr>col_status := Some Output, col_last_output_at := Some now,
              col_updated_at := now\<rparr>) rows"

section \<open>Collecting a raw record\<close>

text \<open>
  \<^verbatim>\<open>canonicalizeName\<close> (lines 39-46). \<^verbatim>\<open>\w\<close> is \<^verbatim>\<open>[A-Za-z0-9_]\<close> and \<^verbatim>\<open>\s\<close> the white
  space. After the first two replacements the string holds word characters and single
  spaces only, so \<^verbatim>\<open>\b(llc|inc|corp|ltd|co|company|the)\b\<close> matches exactly the maximal
  runs of word characters that are one of the seven tokens.
\<close>

definition isWordChar :: "char \<Rightarrow> bool" where
  "isWordChar c = (c \<in> set (upperChars @ lowerChars @ ''0123456789_''))"

fun collapseSpaces :: "bool \<Rightarrow> string \<Rightarrow> string" where
  "collapseSpaces inRun [] = []"
| "collapseSpaces inRun (c # cs) =
     (if isSpace c then (if inRun then collapseSpaces True cs else CHR '' '' # collapseSpaces True cs)
      else c # collapseSpaces False cs)"

definition legalSuffixes :: "string list" where
  "legalSuffixes = [''llc'', ''inc'', ''corp'', ''ltd'', ''co'', ''company'', ''the'']"

definition keepWord :: "string \<Rightarrow> string" where
  "keepWord w = (if w \<in> set legalSuffixes then [] else w)"

fun removeSuffixes :: "string \<Rightarrow> string \<Rightarrow> string" where
  "removeSuffixes w [] = keepWord w"
| "removeSuffixes w (c # cs) =
     (if isWordChar c then removeSuffixes (w @ [c]) cs
      else keepWord w @ c # removeSuffixes [] cs)"

definition canonicalizeName :: "string \<Rightarrow> string" where
  "canonicalizeName name =
     trim (removeSuffixes []
       (collapseSpaces False
         (filter (\<lambda>c. isWordChar c \<or> isSpace c) (toLowerCase name))))"

text \<open>
  \<^verbatim>\<open>RawBusinessData\<close> as \<^verbatim>\<open>JSON.parse\<close> returns it from the staging table: an optional key
  is absent (\<open>None\<close>) or holds a value. \<^verbatim>\<open>additionalData\<close> is never read and left out.
\<close>

record RawBusinessData =
  raw_name :: string
  raw_address :: "string option"
  raw_city :: "string option"
  raw_state :: "string option"
  raw_postalCode :: "string option"
  raw_country :: "string option"
  raw_phone :: "string option"
  raw_email :: "string option"
  raw_website :: "string option"
  raw_rating :: "number option"
  raw_reviewCount :: "number option"
  raw_categories :: "string list option"
  raw_sourceUrl :: "string option"

text \<open>Reading an optional key of a parsed object, and writing it as \<^verbatim>\<open>key: raw.key\<close>.\<close>

fun readKey :: "'a option \<Rightarrow> 'a js" where
  "readKey None = Undefined"
| "readKey (Some v) = Val v"

fun passKey :: "'a option \<Rightarrow> 'a pkey" where
  "passKey None = Undef"
| "passKey (Some v) = Given v"

text \<open>
  The key of a raw record, as \<^verbatim>\<open>createFromRaw\<close> and \<^verbatim>\<open>CollectStage.execute\<close> both compute
  it: \<^verbatim>\<open>generateLeadId(canonicalizeName(raw.name), raw.city, raw.state, raw.country)\<close>.
\<close>

definition rawLeadId :: "(string \<Rightarrow> string) \<Rightarrow> RawBusinessData \<Rightarrow> string" where
  "rawLeadId sha256hex raw =
     generateLeadId sha256hex (canonicalizeName (raw_name raw)) (readKey (raw_city raw))
       (readKey (raw_state raw)) (readKey (raw_country raw))"

text \<open>
  \<^verbatim>\<open>createFromRaw\<close> (lines 449-474): the object literal it builds, and the call of
  \<^verbatim>\<open>upsert\<close> on it. The keys \<^verbatim>\<open>address\<close> to \<^verbatim>\<open>website\<close> are always present and hold
  \<^verbatim>\<open>undefined\<close> when the raw record lacks them.
\<close>

definition rawToPartial ::
  "(string \<Rightarrow> string) \<Rightarrow> RawBusinessData \<Rightarrow> string \<Rightarrow> string \<Rightarrow> PartialLead" where
  "rawToPartial sha256hex raw source runId =
     (onlyId (rawLeadId sha256hex raw))
       \<lparr>p_businessName := Given (raw_name raw),
        p_canonicalName := Given (canonicalizeName (raw_name raw)),
        p_address := passKey (raw_address raw),
        p_city := passKey (raw_city raw),
        p_state := passKey (raw_state raw),
        p_postalCode := passKey (raw_postalCode raw),
        p_country := Given (strOr (readKey (raw_country raw)) ''US''),
        p_phone := passKey (raw_phone raw),
        p_email := passKey (raw_email raw),
        p_website := passKey (raw_website raw),
        p_sourceMetadata := Given
          \<lparr>directories = Some [source],
           geos = Some (let c = strOr (readKey (raw_city raw)) [] in
              if c = [] then [] else [c @ '', '' @ strOr (readKey (raw_state raw)) []]),
           tags = Some (case raw_categories raw of None \<Rightarrow> [] | Some cs \<Rightarrow> cs),
           originalSource = Some source,
           discoveryRunId = Some runId,
           reviewCount = None,
           rating = None\<rparr>,
        p_status := Given New\<rparr>"

definition createFromRaw ::
  "(string \<Rightarrow> string) \<Rightarrow> int \<Rightarrow> RawBusinessData \<Rightarrow> string \<Rightarrow> string \<Rightarrow> row list
     \<Rightarrow> js_error + row list" where
  "createFromRaw sha256hex now raw source runId rows =
     upsert now (rawToPartial sha256hex raw source runId) rows"

section \<open>Configuration, built-ins and the state of a stage\<close>

text \<open>
  A JavaScript value of type \<^verbatim>\<open>any\<close>: the comparison value of a filter rule, and what a
  field path reads from a lead.
\<close>

datatype jv =
  JUndefined | JNull | JBool bool | JNum number | JStr string | JArr "jv list"
  | JObj "(string \<times> jv) list"

text \<open>
  The built-ins of the language and of Node that the repository calls and does not
  define. \<open>regexTest p s\<close> is \<^verbatim>\<open>new RegExp(p).test(s)\<close>, \<open>None\<close> when the constructor
  throws; \<open>dateParse s\<close> is \<^verbatim>\<open>new Date(s).getTime()\<close>, \<open>None\<close> for \<^verbatim>\<open>NaN\<close>; \<open>toNumber\<close> is
  the conversion of a relational comparison, \<open>None\<close> for \<^verbatim>\<open>NaN\<close>; \<open>inherited v k\<close> is what
  \<^verbatim>\<open>v[k]\<close> finds on the prototype chain when \<open>k\<close> is not an own property of \<open>v\<close>.
  \<open>numAdd\<close>, \<open>numSub\<close>, \<open>numMul\<close> and \<open>numDiv\<close> are \<^verbatim>\<open>+\<close>, \<^verbatim>\<open>-\<close>, \<^verbatim>\<open>*\<close> and \<^verbatim>\<open>/\<close> on
  numbers: the exact result rounded to the nearest double.
\<close>

record builtins =
  sha256hex :: "string \<Rightarrow> string"
  regexTest :: "jv \<Rightarrow> string \<Rightarrow> bool option"
  dateParse :: "string \<Rightarrow> int option"
  numberToString :: "number \<Rightarrow> string"
  toStringJs :: "jv \<Rightarrow> string"
  toNumber :: "jv \<Rightarrow> number option"
  inherited :: "jv \<Rightarrow> string \<Rightarrow> jv"
  numAdd :: "number \<Rightarrow> number \<Rightarrow> number"
  numSub :: "number \<Rightarrow> number \<Rightarrow> number"
  numMul :: "number \<Rightarrow> number \<Rightarrow> number"
  numDiv :: "number \<Rightarrow> number \<Rightarrow> number"

text \<open>\<^verbatim>\<open>FilterRule\<close> (config/types.ts); an operator outside the union is \<open>other_operator\<close>.\<close>

datatype Operator =
  equals | not_equals | contains | not_contains | greater_than | less_than | is_null | not_null
  | regex | other_operator string

record FilterRule =
  rule_field :: string
  rule_operator :: Operator
  rule_value :: jv
  rule_reason :: ExclusionReason

text \<open>
  \<^verbatim>\<open>'csv' | 'json' | 'both'\<close>, the format of the output stage. Neither the configuration
  file nor the command line is checked, so another string can arrive: \<open>other_format\<close>.
\<close>

datatype Format = csv | json | both | other_format string

text \<open>
  The options of \<^verbatim>\<open>ProspectMinerConfig\<close> the stages read. Every weight and threshold
  the code reads is defined, and the counts of days and of hours are integers.
\<close>

record SourceConfig =
  source_name :: string
  source_type :: string
  source_enabled :: bool

record Config =
  sources :: "SourceConfig list"
  rules :: "FilterRule list"
  excludeCategories :: "string list"
  excludeKeywords :: "string list"
  defaultDays :: int
  weight_hasEmail :: number
  weight_hasPhone :: number
  weight_hasWebsite :: number
  weight_reviewCount :: number
  weight_rating :: number
  minScore :: number
  lowReviewCount :: number
  poorRatingThreshold :: number
  outdatedWebsiteDays :: number
  angleWeights :: "AngleType \<Rightarrow> number"
  output_format :: Format
  refresh_enabled :: bool
  checkIntervalHours :: int
  cooldownExpiryCheckEnabled :: bool
  signalChangeCheckEnabled :: bool
  resetExhaustedAngles :: bool
  batchSize :: nat
  maxLeadsPerRun :: int

text \<open>\<^verbatim>\<open>DEFAULT_CONFIG\<close> (config/index.ts), at the options above.\<close>

definition DEFAULT_CONFIG :: Config where
  "DEFAULT_CONFIG =
     \<lparr>sources = [], rules = [], excludeCategories = [], excludeKeywords = [],
      defaultDays = 30,
      weight_hasEmail = 30, weight_hasPhone = 20, weight_hasWebsite = 10,
      weight_reviewCount = 15, weight_rating = 15,
      minScore = 20, lowReviewCount = 10, poorRatingThreshold = 7 / 2, outdatedWebsiteDays = 365,
      angleWeights = (\<lambda>angle. case angle of
          no_website \<Rightarrow> 25 | outdated_website \<Rightarrow> 20 | low_reviews \<Rightarrow> 15
        | poor_ratings \<Rightarrow> 15 | no_online_booking \<Rightarrow> 20 | founder_led \<Rightarrow> 25),
      output_format = csv,
      refresh_enabled = True, checkIntervalHours = 24, cooldownExpiryCheckEnabled = True,
      signalChangeCheckEnabled = True, resetExhaustedAngles = False,
      batchSize = 100, maxLeadsPerRun = 500\<rparr>"

text \<open>A row of the table \<^verbatim>\<open>runs\<close>; the free-form metadata is left out.\<close>

datatype RunStatus = Running | Completed | Failed | Cancelled

record run_row =
  run_id :: string
  run_stage :: string
  started_at :: int
  completed_at :: "int option"
  run_status :: RunStatus
  leads_processed :: nat
  leads_passed :: nat
  leads_failed :: nat
  error_message :: "string option"

text \<open>A row of the staging table \<^verbatim>\<open>raw_discoveries\<close>.\<close>

record discovery =
  disc_id :: nat
  disc_run_id :: string
  disc_source :: string
  disc_raw_data :: RawBusinessData
  discovered_at :: int
  disc_processed :: bool

text \<open>
  The state a stage run works on: the three tables, the fields of the \<^verbatim>\<open>BaseStage\<close>
  instance, and the number of clock reads (\<^verbatim>\<open>Date.now()\<close>, \<^verbatim>\<open>new Date()\<close>) the modelled
  statements have made so far. The \<open>n\<close>-th read returns \<open>clock n\<close>, for a function \<open>clock\<close>
  that the stage functions take as a parameter; the reads of the logger, of the rate
  limiter and of the network collaborators, which reach neither the tables nor the
  counters, are not counted.
\<close>

record stage =
  leads :: "row list"
  discoveries :: "discovery list"
  runs :: "run_row list"
  ticks :: nat
  run :: "string option"
  processed :: nat
  passed :: nat
  failed :: nat
  errors :: "string list"

text \<open>
  A stage object as its constructor leaves it (\<^verbatim>\<open>run = null\<close>, the counters \<open>0\<close>, no
  errors), over the three tables and a clock that has been read \<open>n\<close> times.
\<close>

definition newStage :: "row list \<Rightarrow> discovery list \<Rightarrow> run_row list \<Rightarrow> nat \<Rightarrow> stage" where
  "newStage ls ds rs n =
     \<lparr>leads = ls, discoveries = ds, runs = rs, ticks = n, run = None, processed = 0, passed = 0,
      failed = 0, errors = []\<rparr>"

definition dateNow :: "(nat \<Rightarrow> int) \<Rightarrow> stage \<Rightarrow> int" where
  "dateNow clock st = clock (ticks st)"

definition tick :: "stage \<Rightarrow> stage" where
  "tick st = st\<lparr>ticks := Suc (ticks st)\<rparr>"

text \<open>
  \<^verbatim>\<open>toISOString\<close> throws a \<^verbatim>\<open>RangeError\<close> on a time outside the range of \<^verbatim>\<open>Date\<close>,
  8.64e15 milliseconds on either side of the epoch.
\<close>

definition validTime :: "int \<Rightarrow> bool" where
  "validTime t = (\<bar>t\<bar> \<le> 8640000000000000)"

text \<open>A call of a \<^verbatim>\<open>leadService\<close> method that reads the clock once.\<close>

definition onLeads :: "(nat \<Rightarrow> int) \<Rightarrow> (int \<Rightarrow> row list \<Rightarrow> row list) \<Rightarrow> stage \<Rightarrow> stage" where
  "onLeads clock f st = tick (st\<lparr>leads := f (dateNow clock st) (leads st)\<rparr>)"

text \<open>\<^verbatim>\<open>this.limit = limit || this.config.pipeline.maxLeadsPerRun\<close>.\<close>

fun stageLimit :: "Config \<Rightarrow> int option \<Rightarrow> int" where
  "stageLimit cfg None = maxLeadsPerRun cfg"
| "stageLimit cfg (Some n) = (if n = 0 then maxLeadsPerRun cfg else n)"

section \<open>Run tracking\<close>

text \<open>\<^verbatim>\<open>RunService\<close> (run-service.ts): \<^verbatim>\<open>start\<close>, \<^verbatim>\<open>complete\<close>, \<^verbatim>\<open>fail\<close>, \<^verbatim>\<open>updateProgress\<close>.\<close>

definition updateRun :: "string \<Rightarrow> (run_row \<Rightarrow> run_row) \<Rightarrow> run_row list \<Rightarrow> run_row list" where
  "updateRun i f rs = map (\<lambda>r. if run_id r = i then f r else r) rs"

definition runStart :: "int \<Rightarrow> string \<Rightarrow> string \<Rightarrow> run_row list \<Rightarrow> run_row list" where
  "runStart now i name rs =
     rs @ [\<lparr>run_id = i, run_stage = name, started_at = now, completed_at = None,
             run_status = Running, leads_processed = 0, leads_passed = 0, leads_failed = 0,
             error_message = None\<rparr>]"

definition runComplete :: "int \<Rightarrow> string \<Rightarrow> nat \<Rightarrow> nat \<Rightarrow> nat \<Rightarrow> run_row list \<Rightarrow> run_row list" where
  "runComplete now i p a f rs =
     updateRun i
       (\<lambda>r. r\<lparr>completed_at := Some now, run_status := Completed, leads_processed := p,
              leads_passed := a, leads_failed := f\<rparr>) rs"

definition runFail :: "int \<Rightarrow> string \<Rightarrow> string \<Rightarrow> nat \<Rightarrow> run_row list \<Rightarrow> run_row list" where
  "runFail now i msg p rs =
     updateRun i
       (\<lambda>r. r\<lparr>completed_at := Some now, run_status := Failed, error_message := Some msg,
              leads_processed := p\<rparr>) rs"

definition runUpdateProgress :: "string \<Rightarrow> nat \<Rightarrow> nat \<Rightarrow> nat \<Rightarrow> run_row list \<Rightarrow> run_row list" where
  "runUpdateProgress i p a f rs =
     updateRun i (\<lambda>r. r\<lparr>leads_processed := p, leads_passed := a, leads_failed := f\<rparr>) rs"

text \<open>\<^verbatim>\<open>BaseStage\<close> (base-stage.ts): \<^verbatim>\<open>updateProgress\<close>, \<^verbatim>\<open>recordError\<close>, \<^verbatim>\<open>runStage\<close>.\<close>

definition updateProgress :: "stage \<Rightarrow> stage" where
  "updateProgress st =
     (case run st of
        None \<Rightarrow> st
      | Some i \<Rightarrow> st\<lparr>runs := runUpdateProgress i (processed st) (passed st) (failed st) (runs st)\<rparr>)"

definition recordError :: "string \<Rightarrow> stage \<Rightarrow> stage" where
  "recordError message st =
     updateProgress (st\<lparr>errors := errors st @ [message], failed := failed st + 1\<rparr>)"

text \<open>
  \<^verbatim>\<open>runStage\<close>. The run id is built from the clock and four random bytes: \<open>rid\<close> is the
  function from the clock reading to the id. \<open>execute\<close> returns the state it reached and
  the message of an error thrown past it, if any; \<open>None\<close> when it does not return.
\<close>

definition runStage ::
  "(nat \<Rightarrow> int) \<Rightarrow> (int \<Rightarrow> string) \<Rightarrow> string \<Rightarrow> (stage \<Rightarrow> (string option \<times> stage) option)
     \<Rightarrow> stage \<Rightarrow> stage option" where
  "runStage clock rid name execute st =
     (let i = rid (dateNow clock st);
          st1 = tick st;
          st2 = tick (st1\<lparr>runs := runStart (dateNow clock st1) i name (runs st1), run := Some i\<rparr>)
      in case execute st2 of
           None \<Rightarrow> None
         | Some (None, st3) \<Rightarrow>
             Some (tick (st3\<lparr>runs := runComplete (dateNow clock st3) i (processed st3) (passed st3)
                                (failed st3) (runs st3)\<rparr>))
         | Some (Some message, st3) \<Rightarrow>
             Some (tick (st3\<lparr>errors := errors st3 @ [message],
                       runs := runFail (dateNow clock st3) i message (processed st3) (runs st3)\<rparr>)))"

text \<open>\<^verbatim>\<open>getRunId\<close>: \<^verbatim>\<open>this.run?.runId || 'unknown'\<close>.\<close>

definition getRunId :: "stage \<Rightarrow> string" where
  "getRunId st = (case run st of Some i \<Rightarrow> if i = [] then ''unknown'' else i | None \<Rightarrow> ''unknown'')"

text \<open>\<^verbatim>\<open>error.message\<close>.\<close>

definition errorMessage :: "js_error \<Rightarrow> string" where
  "errorMessage e = (case e of TypeError m \<Rightarrow> m | SqlError m \<Rightarrow> m)"

section \<open>The score stage\<close>

record ScoreResult =
  result_score :: int
  result_reasons :: "string list"
  result_angles :: "AngleType list"

text \<open>Truthiness of an optional string and of an optional number.\<close>

fun truthyStr :: "string js \<Rightarrow> bool" where
  "truthyStr (Val s) = (s \<noteq> [])"
| "truthyStr Undefined = False"
| "truthyStr Null = False"

text \<open>
  \<^verbatim>\<open>isOutdatedWebsite\<close> (score/index.ts, lines 188-205); \<open>now\<close> is its \<^verbatim>\<open>Date.now()\<close>, and
  \<^verbatim>\<open>24 * 60 * 60 * 1000\<close> is the constant 86400000.
\<close>

definition isOutdatedWebsite :: "builtins \<Rightarrow> Config \<Rightarrow> int \<Rightarrow> Lead \<Rightarrow> bool" where
  "isOutdatedWebsite B cfg now lead =
     (case enrichmentData lead of
        Val e \<Rightarrow>
          (case lastWebsiteUpdate e of
             Some u \<Rightarrow>
               u \<noteq> [] \<and>
               (case dateParse B u of
                  None \<Rightarrow> False
                | Some t \<Rightarrow>
                    numDiv B (numSub B (of_int now) (of_int t)) 86400000 > outdatedWebsiteDays cfg)
           | None \<Rightarrow> False)
      | _ \<Rightarrow> False)"

text \<open>The number of \<^verbatim>\<open>Date.now()\<close> calls \<^verbatim>\<open>scoreLead\<close> makes for a lead: one, in
  \<^verbatim>\<open>isOutdatedWebsite\<close>, when the lead has a website and a last-update string.\<close>

definition scoreLeadClockReads :: "Lead \<Rightarrow> nat" where
  "scoreLeadClockReads lead =
     (if truthyStr (website lead) then
        (case enrichmentData lead of
           Val e \<Rightarrow> (case lastWebsiteUpdate e of Some u \<Rightarrow> if u \<noteq> [] then 1 else 0 | None \<Rightarrow> 0)
         | _ \<Rightarrow> 0)
      else 0)"

text \<open>\<^verbatim>\<open>getReviewCount\<close>, \<^verbatim>\<open>getRating\<close>, \<^verbatim>\<open>isFounderLed\<close> (lines 207-240).\<close>

definition getReviewCount :: "Lead \<Rightarrow> number option" where
  "getReviewCount lead = reviewCount (sourceMetadata lead)"

definition getRating :: "Lead \<Rightarrow> number option" where
  "getRating lead = rating (sourceMetadata lead)"

definition isFounderLed :: "Lead \<Rightarrow> bool" where
  "isFounderLed lead =
     (case enrichmentData lead of
        Val e \<Rightarrow>
          (case founderLinkedin e of Some f \<Rightarrow> f \<noteq> [] | None \<Rightarrow> False)
          \<or> (case employeeCount e of Some n \<Rightarrow> n \<noteq> 0 \<and> n \<le> 10 | None \<Rightarrow> False)
      | _ \<Rightarrow> False)"

text \<open>
  \<^verbatim>\<open>scoreLead\<close> (lines 96-186): the score, the reasons and the angles accumulate signal
  by signal. Every \<^verbatim>\<open>score += w\<close> is an addition of doubles, \<open>numAdd\<close>; the rating bonus
  \<^verbatim>\<open>(rating / 5) * weights.rating\<close> and the review bonus \<^verbatim>\<open>reviewCount / 10\<close> round as well.
  \<^verbatim>\<open>Math.round\<close> is \<open>\<lfloor>x + 1/2\<rfloor>\<close> on the value of a double.
\<close>

record scoring =
  acc_score :: number
  acc_reasons :: "string list"
  acc_angles :: "AngleType list"

definition addScore :: "builtins \<Rightarrow> number \<Rightarrow> string \<Rightarrow> scoring \<Rightarrow> scoring" where
  "addScore B w reason a =
     a\<lparr>acc_score := numAdd B (acc_score a) w, acc_reasons := acc_reasons a @ [reason]\<rparr>"

definition addReason :: "string \<Rightarrow> scoring \<Rightarrow> scoring" where
  "addReason reason a = a\<lparr>acc_reasons := acc_reasons a @ [reason]\<rparr>"

definition addAngle :: "builtins \<Rightarrow> Config \<Rightarrow> AngleType \<Rightarrow> string \<Rightarrow> scoring \<Rightarrow> scoring" where
  "addAngle B cfg angle reason a =
     a\<lparr>acc_angles := acc_angles a @ [angle],
       acc_score := numAdd B (acc_score a) (angleWeights cfg angle),
       acc_reasons := acc_reasons a @ [reason]\<rparr>"

definition hasEnrichedList :: "(EnrichmentData \<Rightarrow> string list) \<Rightarrow> Lead \<Rightarrow> bool" where
  "hasEnrichedList sel lead = (case enrichmentData lead of Val e \<Rightarrow> sel e \<noteq> [] | _ \<Rightarrow> False)"

definition scoreEmail :: "builtins \<Rightarrow> Config \<Rightarrow> Lead \<Rightarrow> scoring \<Rightarrow> scoring" where
  "scoreEmail B cfg lead a =
     (if truthyStr (email lead) \<or> hasEnrichedList emails lead
      then addScore B (weight_hasEmail cfg) ''+email_found'' a
      else addReason ''-no_email'' a)"

definition scorePhone :: "builtins \<Rightarrow> Config \<Rightarrow> Lead \<Rightarrow> scoring \<Rightarrow> scoring" where
  "scorePhone B cfg lead a =
     (if truthyStr (phone lead) \<or> hasEnrichedList phones lead
      then addScore B (weight_hasPhone cfg) ''+phone_found'' a
      else addReason ''-no_phone'' a)"

definition scoreWebsite :: "builtins \<Rightarrow> Config \<Rightarrow> int \<Rightarrow> Lead \<Rightarrow> scoring \<Rightarrow> scoring" where
  "scoreWebsite B cfg now lead a =
     (if \<not> truthyStr (website lead) then addAngle B cfg no_website ''+no_website_angle'' a
      else let a1 = addScore B (weight_hasWebsite cfg) ''+has_website'' a
           in if isOutdatedWebsite B cfg now lead
              then addAngle B cfg outdated_website ''+outdated_website_angle'' a1
              else a1)"

definition scoreBooking :: "builtins \<Rightarrow> Config \<Rightarrow> Lead \<Rightarrow> scoring \<Rightarrow> scoring" where
  "scoreBooking B cfg lead a =
     (case enrichmentData lead of
        Val e \<Rightarrow> if \<not> hasOnlineBooking e
                 then addAngle B cfg no_online_booking ''+no_booking_angle'' a
                 else a
      | _ \<Rightarrow> a)"

definition scoreReviews :: "builtins \<Rightarrow> Config \<Rightarrow> Lead \<Rightarrow> scoring \<Rightarrow> scoring" where
  "scoreReviews B cfg lead a =
     (case getReviewCount lead of
        None \<Rightarrow> a
      | Some n \<Rightarrow>
          if n < lowReviewCount cfg then addAngle B cfg low_reviews ''+low_reviews_angle'' a
          else addScore B (min (numDiv B n 10) (weight_reviewCount cfg))
                 (''+review_count('' @ numberToString B n @ '')'') a)"

definition scoreRating :: "builtins \<Rightarrow> Config \<Rightarrow> Lead \<Rightarrow> scoring \<Rightarrow> scoring" where
  "scoreRating B cfg lead a =
     (case getRating lead of
        None \<Rightarrow> a
      | Some r \<Rightarrow>
          if r < poorRatingThreshold cfg
          then addAngle B cfg poor_ratings
                 (''+poor_rating_angle('' @ numberToString B r @ '')'') a
          else addScore B (numMul B (numDiv B r 5) (weight_rating cfg))
                 (''+good_rating('' @ numberToString B r @ '')'') a)"

definition scoreFounder :: "builtins \<Rightarrow> Config \<Rightarrow> Lead \<Rightarrow> scoring \<Rightarrow> scoring" where
  "scoreFounder B cfg lead a =
     (if isFounderLed lead then addAngle B cfg founder_led ''+founder_led_angle'' a else a)"

definition scoreLead :: "builtins \<Rightarrow> Config \<Rightarrow> int \<Rightarrow> Lead \<Rightarrow> ScoreResult" where
  "scoreLead B cfg now lead =
     (let a = scoreFounder B cfg lead
                (scoreRating B cfg lead
                  (scoreReviews B cfg lead
                    (scoreBooking B cfg lead
                      (scoreWebsite B cfg now lead
                        (scorePhone B cfg lead
                          (scoreEmail B cfg lead
                            \<lparr>acc_score = 0, acc_reasons = [], acc_angles = []\<rparr>))))))
      in \<lparr>result_score = min 100 (max 0 (\<lfloor>acc_score a + 1 / 2\<rfloor>)),
          result_reasons = acc_reasons a,
          result_angles = acc_angles a\<rparr>)"

text \<open>
  The body of the loop of \<^verbatim>\<open>ScoreStage.execute\<close> (lines 36-87) for one lead. No statement
  of the \<^verbatim>\<open>try\<close> block throws in this model, so the \<^verbatim>\<open>catch\<close> is never entered. The two
  \<^verbatim>\<open>continue\<close> branches skip the progress update at the end of the body. The end of the
  cooldown, \<^verbatim>\<open>Date.now() + cooldownDays * 24 * 60 * 60 * 1000\<close>, is computed in doubles,
  from the left; the configured number of days is an integer, so every intermediate
  value is an integer and \<open>\<lfloor>_\<rfloor>\<close> reads the result as the integer the column stores.
\<close>

definition scoreOne :: "builtins \<Rightarrow> Config \<Rightarrow> (nat \<Rightarrow> int) \<Rightarrow> Lead \<Rightarrow> stage \<Rightarrow> stage" where
  "scoreOne B cfg clock lead st0 =
     (let st = st0\<lparr>processed := processed st0 + 1\<rparr>;
          result = scoreLead B cfg (dateNow clock st) lead;
          st1 = st\<lparr>ticks := ticks st + scoreLeadClockReads lead\<rparr>
      in if of_int (result_score result) < minScore cfg then
           (onLeads clock (\<lambda>t. exclude t (leadId lead) bad_fit) st1)
             \<lparr>failed := failed st1 + 1\<rparr>
         else
           let active = filter (\<lambda>angle. angle \<notin> set (exhaustedAngles lead)) (result_angles result)
           in if active = [] then
                (let cooldownUntil =
                       \<lfloor>numAdd B (of_int (dateNow clock st1))
                          (numMul B (numMul B (numMul B (numMul B (of_int (defaultDays cfg)) 24) 60)
                             60) 1000)\<rfloor>;
                     st2 = tick st1
                 in (onLeads clock (\<lambda>t. setCooldown t (leadId lead) cooldownUntil) st2)
                      \<lparr>failed := failed st2 + 1\<rparr>)
              else
                (let st2 = onLeads clock
                       (\<lambda>t. updateScore t (leadId lead) (result_score result) (result_reasons result))
                       st1;
                     st3 = onLeads clock
                       (\<lambda>t. updateAngles t (leadId lead) active (exhaustedAngles lead)) st2;
                     st4 = onLeads clock (\<lambda>t. updateStatus t (leadId lead) Scored) st3;
                     st5 = st4\<lparr>passed := passed st4 + 1\<rparr>
                 in if processed st5 mod 100 = 0 then updateProgress st5 else st5))"

fun scoreLoop :: "builtins \<Rightarrow> Config \<Rightarrow> (nat \<Rightarrow> int) \<Rightarrow> Lead list \<Rightarrow> stage \<Rightarrow> stage" where
  "scoreLoop B cfg clock [] st = st"
| "scoreLoop B cfg clock (lead # rest) st = scoreLoop B cfg clock rest (scoreOne B cfg clock lead st)"

text \<open>\<^verbatim>\<open>ScoreStage.execute\<close> with \<open>limit\<close> the argument of the constructor.\<close>

definition scoreExecute ::
  "builtins \<Rightarrow> Config \<Rightarrow> (nat \<Rightarrow> int) \<Rightarrow> int option \<Rightarrow> stage \<Rightarrow> string option \<times> stage" where
  "scoreExecute B cfg clock limit st =
     (case getLeadsForStage (dateNow clock st) ''score'' (Some (stageLimit cfg limit)) (leads st) of
        Inl e \<Rightarrow> (Some (errorMessage e), tick st)
      | Inr ls \<Rightarrow> (None, scoreLoop B cfg clock ls (tick st)))"

section \<open>The filter stage\<close>

text \<open>The string each member of a union is at run time.\<close>

fun statusName :: "LeadStatus \<Rightarrow> string" where
  "statusName New = ''new''"
| "statusName Collected = ''collected''"
| "statusName Filtered = ''filtered''"
| "statusName Enriched = ''enriched''"
| "statusName Scored = ''scored''"
| "statusName Output = ''output''"
| "statusName Excluded = ''excluded''"
| "statusName Cooldown = ''cooldown''"

fun angleName :: "AngleType \<Rightarrow> string" where
  "angleName no_website = ''no_website''"
| "angleName outdated_website = ''outdated_website''"
| "angleName low_reviews = ''low_reviews''"
| "angleName poor_ratings = ''poor_ratings''"
| "angleName no_online_booking = ''no_online_booking''"
| "angleName founder_led = ''founder_led''"

fun reasonName :: "ExclusionReason \<Rightarrow> string" where
  "reasonName bad_fit = ''bad_fit''"
| "reasonName duplicate_brand = ''duplicate_brand''"
| "reasonName competitor = ''competitor''"
| "reasonName manually_excluded = ''manually_excluded''"
| "reasonName invalid_contact = ''invalid_contact''"
| "reasonName out_of_geo = ''out_of_geo''"
| "reasonName wrong_industry = ''wrong_industry''"

fun contactResultName :: "ContactResult \<Rightarrow> string" where
  "contactResultName sent = ''sent''"
| "contactResultName opened = ''opened''"
| "contactResultName bounced_hard = ''bounced_hard''"
| "contactResultName bounced_soft = ''bounced_soft''"
| "contactResultName no_reply = ''no_reply''"
| "contactResultName replied = ''replied''"

fun failureTypeName :: "FailureType \<Rightarrow> string" where
  "failureTypeName captcha_block = ''captcha_block''"
| "failureTypeName no_contact_page = ''no_contact_page''"
| "failureTypeName site_timeout = ''site_timeout''"
| "failureTypeName bounce_hard = ''bounce_hard''"
| "failureTypeName bounce_soft = ''bounce_soft''"
| "failureTypeName rate_limited = ''rate_limited''"
| "failureTypeName dns_error = ''dns_error''"
| "failureTypeName ssl_error = ''ssl_error''"
| "failureTypeName page_not_found = ''page_not_found''"
| "failureTypeName parse_error = ''parse_error''"
| "failureTypeName unknown = ''unknown''"

text \<open>
  The lead as the object the field paths of the rules address. A key of a parsed JSON
  object that is absent is no property of it.
\<close>

fun jsTo :: "('a \<Rightarrow> jv) \<Rightarrow> 'a js \<Rightarrow> jv" where
  "jsTo f (Val v) = f v"
| "jsTo f Undefined = JUndefined"
| "jsTo f Null = JNull"

fun optKey :: "string \<Rightarrow> ('a \<Rightarrow> jv) \<Rightarrow> 'a option \<Rightarrow> (string \<times> jv) list" where
  "optKey k f None = []"
| "optKey k f (Some v) = [(k, f v)]"

definition strings :: "string list \<Rightarrow> jv" where
  "strings xs = JArr (map JStr xs)"

definition intNum :: "int \<Rightarrow> jv" where
  "intNum n = JNum (of_int n)"

definition metadataToJv :: "SourceMetadata \<Rightarrow> jv" where
  "metadataToJv m =
     JObj (optKey ''directories'' strings (directories m) @ optKey ''geos'' strings (geos m)
       @ optKey ''tags'' strings (tags m) @ optKey ''originalSource'' JStr (originalSource m)
       @ optKey ''discoveryRunId'' JStr (discoveryRunId m)
       @ optKey ''reviewCount'' JNum (reviewCount m) @ optKey ''rating'' JNum (rating m))"

definition enrichmentToJv :: "EnrichmentData \<Rightarrow> jv" where
  "enrichmentToJv e =
     JObj ([(''emails'', strings (emails e)), (''phones'', strings (phones e)),
            (''socialLinks'', JObj (map (\<lambda>(k, v). (k, JStr v)) (socialLinks e))),
            (''hasOnlineBooking'', JBool (hasOnlineBooking e))]
       @ optKey ''lastWebsiteUpdate'' JStr (lastWebsiteUpdate e)
       @ optKey ''pageTitle'' JStr (pageTitle e)
       @ optKey ''metaDescription'' JStr (metaDescription e)
       @ optKey ''technologies'' strings (technologies e)
       @ optKey ''employeeCount'' JNum (employeeCount e)
       @ optKey ''linkedinCompanyUrl'' JStr (linkedinCompanyUrl e)
       @ optKey ''linkedinEmployeeCount'' JNum (linkedinEmployeeCount e)
       @ optKey ''founderLinkedin'' JStr (founderLinkedin e))"

definition failureToJv :: "EnrichmentFailure \<Rightarrow> jv" where
  "failureToJv f =
     JObj ([(''type'', JStr (failureTypeName (failure_type f))),
            (''source'', JStr (failure_source f)),
            (''timestamp'', intNum (failure_timestamp f))]
       @ optKey ''message'' JStr (failure_message f))"

definition leadToJv :: "Lead \<Rightarrow> jv" where
  "leadToJv l =
     JObj [(''leadId'', JStr (leadId l)),
           (''businessName'', JStr (businessName l)),
           (''canonicalName'', JStr (canonicalName l)),
           (''address'', jsTo JStr (address l)),
           (''city'', jsTo JStr (city l)),
           (''state'', jsTo JStr (state l)),
           (''postalCode'', jsTo JStr (postalCode l)),
           (''country'', jsTo JStr (country l)),
           (''phone'', jsTo JStr (phone l)),
           (''email'', jsTo JStr (email l)),
           (''website'', jsTo JStr (website l)),
           (''firstSeenAt'', intNum (firstSeenAt l)),
           (''lastSeenAt'', intNum (lastSeenAt l)),
           (''lastContactAttempt'', jsTo intNum (lastContactAttempt l)),
           (''lastContactResult'', jsTo (\<lambda>c. JStr (contactResultName c)) (lastContactResult l)),
           (''excludedReason'', jsTo (\<lambda>r. JStr (reasonName r)) (excludedReason l)),
           (''cooldownUntil'', jsTo intNum (cooldownUntil l)),
           (''activeAngles'', strings (map angleName (activeAngles l))),
           (''exhaustedAngles'', strings (map angleName (exhaustedAngles l))),
           (''sourceMetadata'', metadataToJv (sourceMetadata l)),
           (''enrichmentData'', jsTo enrichmentToJv (enrichmentData l)),
           (''enrichmentFailures'', JArr (map failureToJv (enrichmentFailures l))),
           (''score'', jsTo intNum (score l)),
           (''scoreReasons'', jsTo strings (scoreReasons l)),
           (''status'', jsTo (\<lambda>s. JStr (statusName s)) (status l)),
           (''lastOutputAt'', jsTo intNum (lastOutputAt l)),
           (''createdAt'', intNum (createdAt l)),
           (''updatedAt'', intNum (updatedAt l))]"

text \<open>\<^verbatim>\<open>field.split('.')\<close>.\<close>

fun splitDots :: "string \<Rightarrow> string \<Rightarrow> string list" where
  "splitDots part [] = [part]"
| "splitDots part (c # cs) =
     (if c = CHR ''.'' then part # splitDots [] cs else splitDots (part @ [c]) cs)"

text \<open>An array index as a property name: a decimal numeral without a leading zero.\<close>

definition digitValue :: "char \<Rightarrow> nat option" where
  "digitValue c = map_of (zip ''0123456789'' [0 ..< 10]) c"

fun parseDigits :: "nat \<Rightarrow> string \<Rightarrow> nat option" where
  "parseDigits n [] = Some n"
| "parseDigits n (c # cs) =
     (case digitValue c of None \<Rightarrow> None | Some d \<Rightarrow> parseDigits (10 * n + d) cs)"

fun parseIndex :: "string \<Rightarrow> nat option" where
  "parseIndex [] = None"
| "parseIndex (c # cs) = (if c = CHR ''0'' \<and> cs \<noteq> [] then None else parseDigits 0 (c # cs))"

text \<open>
  \<^verbatim>\<open>value[part]\<close> on a value that is neither \<^verbatim>\<open>null\<close> nor \<^verbatim>\<open>undefined\<close>: an own property
  of an object, an element or the length of an array or a string, and the prototype
  chain for every other name.
\<close>

definition getProp :: "builtins \<Rightarrow> jv \<Rightarrow> string \<Rightarrow> jv" where
  "getProp B v k =
     (case v of
        JObj kvs \<Rightarrow> (case map_of kvs k of Some x \<Rightarrow> x | None \<Rightarrow> inherited B v k)
      | JArr xs \<Rightarrow>
          if k = ''length'' then JNum (of_nat (length xs))
          else (case parseIndex k of
                  Some n \<Rightarrow> if n < length xs then xs ! n else inherited B v k
                | None \<Rightarrow> inherited B v k)
      | JStr s \<Rightarrow>
          if k = ''length'' then JNum (of_nat (length s))
          else (case parseIndex k of
                  Some n \<Rightarrow> if n < length s then JStr [s ! n] else inherited B v k
                | None \<Rightarrow> inherited B v k)
      | _ \<Rightarrow> inherited B v k)"

text \<open>\<^verbatim>\<open>getFieldValue\<close> (filter/index.ts, lines 157-168).\<close>

fun walkPath :: "builtins \<Rightarrow> jv \<Rightarrow> string list \<Rightarrow> jv" where
  "walkPath B v [] = v"
| "walkPath B v (part # parts) =
     (if v = JNull \<or> v = JUndefined then JNull else walkPath B (getProp B v part) parts)"

definition getFieldValue :: "builtins \<Rightarrow> Lead \<Rightarrow> string \<Rightarrow> jv" where
  "getFieldValue B lead fld = walkPath B (leadToJv lead) (splitDots [] fld)"

text \<open>
  \<^verbatim>\<open>a === b\<close> between a value read from the lead and the value of a rule: primitives
  compare by value; an object or an array of the lead is never the object of the rule.
\<close>

fun strictEquals :: "jv \<Rightarrow> jv \<Rightarrow> bool" where
  "strictEquals JUndefined JUndefined = True"
| "strictEquals JNull JNull = True"
| "strictEquals (JBool a) (JBool b) = (a = b)"
| "strictEquals (JNum a) (JNum b) = (a = b)"
| "strictEquals (JStr a) (JStr b) = (a = b)"
| "strictEquals a b = False"

text \<open>\<^verbatim>\<open>String(v)\<close>, and the number \<^verbatim>\<open>n > v\<close> compares a number with.\<close>

definition stringOf :: "builtins \<Rightarrow> jv \<Rightarrow> string" where
  "stringOf B v =
     (case v of
        JStr s \<Rightarrow> s
      | JNull \<Rightarrow> ''null''
      | JUndefined \<Rightarrow> ''undefined''
      | JBool b \<Rightarrow> (if b then ''true'' else ''false'')
      | JNum n \<Rightarrow> numberToString B n
      | _ \<Rightarrow> toStringJs B v)"

definition numberOf :: "builtins \<Rightarrow> jv \<Rightarrow> number option" where
  "numberOf B v =
     (case v of
        JNum n \<Rightarrow> Some n
      | JNull \<Rightarrow> Some 0
      | JUndefined \<Rightarrow> None
      | JBool b \<Rightarrow> Some (if b then 1 else 0)
      | _ \<Rightarrow> toNumber B v)"

text \<open>\<^verbatim>\<open>evaluateRule\<close> (lines 113-155).\<close>

definition evaluateRule :: "builtins \<Rightarrow> Lead \<Rightarrow> FilterRule \<Rightarrow> bool" where
  "evaluateRule B lead rule =
     (let v = getFieldValue B lead (rule_field rule) in
      case rule_operator rule of
        equals \<Rightarrow> strictEquals v (rule_value rule)
      | not_equals \<Rightarrow> \<not> strictEquals v (rule_value rule)
      | contains \<Rightarrow>
          (case v of
             JStr s \<Rightarrow> strIncludes (toLowerCase s) (toLowerCase (stringOf B (rule_value rule)))
           | _ \<Rightarrow> False)
      | not_contains \<Rightarrow>
          (case v of
             JStr s \<Rightarrow> \<not> strIncludes (toLowerCase s) (toLowerCase (stringOf B (rule_value rule)))
           | _ \<Rightarrow> False)
      | greater_than \<Rightarrow>
          (case v of
             JNum n \<Rightarrow> (case numberOf B (rule_value rule) of Some m \<Rightarrow> n > m | None \<Rightarrow> False)
           | _ \<Rightarrow> False)
      | less_than \<Rightarrow>
          (case v of
             JNum n \<Rightarrow> (case numberOf B (rule_value rule) of Some m \<Rightarrow> n < m | None \<Rightarrow> False)
           | _ \<Rightarrow> False)
      | is_null \<Rightarrow> v = JNull \<or> v = JUndefined
      | not_null \<Rightarrow> v \<noteq> JNull \<and> v \<noteq> JUndefined
      | regex \<Rightarrow>
          (case v of
             JStr s \<Rightarrow> (case regexTest B (rule_value rule) s of Some b \<Rightarrow> b | None \<Rightarrow> False)
           | _ \<Rightarrow> False)
      | other_operator name \<Rightarrow> False)"

text \<open>
  \<^verbatim>\<open>evaluateLead\<close> (lines 76-111): three loops that return at the first match.
  \<open>excludeCategories\<close> is the \<^verbatim>\<open>Set\<close> of the lower-cased categories and \<open>excludeKeywords\<close>
  the list of the lower-cased keywords, as \<^verbatim>\<open>execute\<close> builds them.
\<close>

fun categoryLoop :: "string list \<Rightarrow> string list \<Rightarrow> ExclusionReason option" where
  "categoryLoop cats [] = None"
| "categoryLoop cats (category # rest) =
     (if toLowerCase category \<in> set cats then Some bad_fit else categoryLoop cats rest)"

fun keywordLoop :: "string \<Rightarrow> string list \<Rightarrow> ExclusionReason option" where
  "keywordLoop lowerName [] = None"
| "keywordLoop lowerName (keyword # rest) =
     (if strIncludes lowerName keyword then Some bad_fit else keywordLoop lowerName rest)"

fun ruleLoop :: "builtins \<Rightarrow> Lead \<Rightarrow> FilterRule list \<Rightarrow> ExclusionReason option" where
  "ruleLoop B lead [] = None"
| "ruleLoop B lead (rule # rest) =
     (if evaluateRule B lead rule then Some (rule_reason rule) else ruleLoop B lead rest)"

definition evaluateLead ::
  "builtins \<Rightarrow> Lead \<Rightarrow> FilterRule list \<Rightarrow> string list \<Rightarrow> string list \<Rightarrow> ExclusionReason option" where
  "evaluateLead B lead rs cats kws =
     (case excludedReason lead of
        Val reason \<Rightarrow> Some reason
      | _ \<Rightarrow>
          (case categoryLoop cats (parseList (tags (sourceMetadata lead))) of
             Some reason \<Rightarrow> Some reason
           | None \<Rightarrow>
               (case keywordLoop (toLowerCase (businessName lead)) kws of
                  Some reason \<Rightarrow> Some reason
                | None \<Rightarrow> ruleLoop B lead rs)))"

text \<open>
  The body of the loop of \<^verbatim>\<open>FilterStage.execute\<close> (lines 38-67) for one lead. The clock
  is read only when the lead carries a non-zero \<^verbatim>\<open>cooldownUntil\<close>. The log entry of a lead
  in cooldown converts \<^verbatim>\<open>cooldownUntil\<close> to an ISO string, which throws on a time out of
  range; the \<^verbatim>\<open>catch\<close> of the loop passes the error to \<^verbatim>\<open>recordError\<close>.
\<close>

definition filterOne :: "builtins \<Rightarrow> Config \<Rightarrow> (nat \<Rightarrow> int) \<Rightarrow> Lead \<Rightarrow> stage \<Rightarrow> stage" where
  "filterOne B cfg clock lead st0 =
     (let st = st0\<lparr>processed := processed st0 + 1\<rparr>;
          st1 =
            (case evaluateLead B lead (rules cfg) (map toLowerCase (excludeCategories cfg))
                    (map toLowerCase (excludeKeywords cfg)) of
               Some reason \<Rightarrow>
                 (onLeads clock (\<lambda>t. exclude t (leadId lead) reason) st)\<lparr>failed := failed st + 1\<rparr>
             | None \<Rightarrow>
                 (case cooldownUntil lead of
                    Val u \<Rightarrow>
                      if u = 0 then
                        (onLeads clock (\<lambda>t. updateStatus t (leadId lead) Filtered) st)
                          \<lparr>passed := passed st + 1\<rparr>
                      else if u > dateNow clock st then
                        (if validTime u then (tick st)\<lparr>failed := failed st + 1\<rparr>
                         else recordError ''Invalid time value'' (tick st))
                      else
                        (onLeads clock (\<lambda>t. updateStatus t (leadId lead) Filtered) (tick st))
                          \<lparr>passed := passed st + 1\<rparr>
                  | _ \<Rightarrow>
                      (onLeads clock (\<lambda>t. updateStatus t (leadId lead) Filtered) st)
                        \<lparr>passed := passed st + 1\<rparr>))
      in if processed st1 mod 100 = 0 then updateProgress st1 else st1)"

fun filterLoop :: "builtins \<Rightarrow> Config \<Rightarrow> (nat \<Rightarrow> int) \<Rightarrow> Lead list \<Rightarrow> stage \<Rightarrow> stage" where
  "filterLoop B cfg clock [] st = st"
| "filterLoop B cfg clock (lead # rest) st =
     filterLoop B cfg clock rest (filterOne B cfg clock lead st)"

definition filterExecute ::
  "builtins \<Rightarrow> Config \<Rightarrow> (nat \<Rightarrow> int) \<Rightarrow> int option \<Rightarrow> stage \<Rightarrow> string option \<times> stage" where
  "filterExecute B cfg clock limit st =
     (case getLeadsForStage (dateNow clock st) ''filter'' (Some (stageLimit cfg limit)) (leads st) of
        Inl e \<Rightarrow> (Some (errorMessage e), tick st)
      | Inr ls \<Rightarrow> (None, filterLoop B cfg clock ls (tick st)))"

section \<open>The refresh stage\<close>

text \<open>\<^verbatim>\<open>Object.keys(lead.enrichmentData).length\<close>.\<close>

definition enrichmentKeys :: "EnrichmentData \<Rightarrow> nat" where
  "enrichmentKeys e = (case enrichmentToJv e of JObj kvs \<Rightarrow> length kvs | _ \<Rightarrow> 0)"

text \<open>
  The status \<^verbatim>\<open>processExpiredCooldowns\<close> chooses (refresh/index.ts, lines 71-82): two
  \<^verbatim>\<open>if\<close> statements that overwrite the initial \<^verbatim>\<open>'collected'\<close>.
\<close>

definition reentryStatus :: "Lead \<Rightarrow> LeadStatus" where
  "reentryStatus lead =
     (let s1 = (case enrichmentData lead of
                  Val e \<Rightarrow> if enrichmentKeys e > 0 then Enriched else Collected
                | _ \<Rightarrow> Collected)
      in if score lead \<noteq> Undefined then Enriched else s1)"

text \<open>
  The body of the loop of \<^verbatim>\<open>processExpiredCooldowns\<close> (lines 61-97) for one lead; an
  error thrown by \<^verbatim>\<open>upsert\<close> goes to \<^verbatim>\<open>recordError\<close>.
\<close>

definition expiredOne :: "Config \<Rightarrow> (nat \<Rightarrow> int) \<Rightarrow> Lead \<Rightarrow> stage \<Rightarrow> stage" where
  "expiredOne cfg clock lead st0 =
     (let st = st0\<lparr>processed := processed st0 + 1\<rparr> in
      case upsert (dateNow clock st) ((onlyId (leadId lead))\<lparr>p_cooldownUntil := Undef\<rparr>) (leads st) of
        Inl e \<Rightarrow> recordError (errorMessage e) (tick st)
      | Inr rows \<Rightarrow>
          (let st1 = tick (st\<lparr>leads := rows\<rparr>);
               st2 = (if resetExhaustedAngles cfg
                      then onLeads clock (\<lambda>t. updateAngles t (leadId lead) [] []) st1
                      else st1);
               st3 = onLeads clock (\<lambda>t. updateStatus t (leadId lead) (reentryStatus lead)) st2
           in st3\<lparr>passed := passed st3 + 1\<rparr>))"

fun expiredLoop :: "Config \<Rightarrow> (nat \<Rightarrow> int) \<Rightarrow> Lead list \<Rightarrow> stage \<Rightarrow> stage" where
  "expiredLoop cfg clock [] st = st"
| "expiredLoop cfg clock (lead # rest) st = expiredLoop cfg clock rest (expiredOne cfg clock lead st)"

definition processExpiredCooldowns :: "Config \<Rightarrow> (nat \<Rightarrow> int) \<Rightarrow> int option \<Rightarrow> stage \<Rightarrow> stage" where
  "processExpiredCooldowns cfg clock limit st =
     expiredLoop cfg clock
       (getExpiredCooldowns (dateNow clock st) (Some (stageLimit cfg limit)) (leads st)) (tick st)"

text \<open>
  \<^verbatim>\<open>processSignalChanges\<close> (lines 102-154). \<^verbatim>\<open>checkSignalChanges\<close> returns \<^verbatim>\<open>false\<close> on
  every path. The statement always has a \<^verbatim>\<open>LIMIT\<close>, \<^verbatim>\<open>this.limit || 100\<close>, and no
  \<^verbatim>\<open>ORDER BY\<close>: SQLite answers \<^verbatim>\<open>status IN ('output', 'cooldown')\<close> by the index
  \<^verbatim>\<open>idx_leads_status\<close>, one status after the other in the order of the index, so the rows
  in \<^verbatim>\<open>cooldown\<close> come first and the rows in \<^verbatim>\<open>output\<close> after them, each group in the order
  of the table. The cutoff time is computed in doubles, from the left.
\<close>

definition checkSignalChanges :: "Lead \<Rightarrow> bool" where
  "checkSignalChanges lead = False"

definition signalOne :: "(nat \<Rightarrow> int) \<Rightarrow> Lead \<Rightarrow> stage \<Rightarrow> stage" where
  "signalOne clock lead st0 =
     (let st = st0\<lparr>processed := processed st0 + 1\<rparr> in
      if checkSignalChanges lead then
        (case upsert (dateNow clock st) ((onlyId (leadId lead))\<lparr>p_cooldownUntil := Undef\<rparr>)
                (leads st) of
           Inl e \<Rightarrow> recordError (errorMessage e) (tick st)
         | Inr rows \<Rightarrow>
             (let st1 = onLeads clock (\<lambda>t. updateStatus t (leadId lead) Filtered)
                          (tick (st\<lparr>leads := rows\<rparr>))
              in st1\<lparr>passed := passed st1 + 1\<rparr>))
      else
        (case upsert (dateNow clock st) (onlyId (leadId lead)) (leads st) of
           Inl e \<Rightarrow> recordError (errorMessage e) (tick st)
         | Inr rows \<Rightarrow> tick (st\<lparr>leads := rows\<rparr>)))"

fun signalLoop :: "(nat \<Rightarrow> int) \<Rightarrow> Lead list \<Rightarrow> stage \<Rightarrow> stage" where
  "signalLoop clock [] st = st"
| "signalLoop clock (lead # rest) st = signalLoop clock rest (signalOne clock lead st)"

definition processSignalChanges ::
  "builtins \<Rightarrow> Config \<Rightarrow> (nat \<Rightarrow> int) \<Rightarrow> int option \<Rightarrow> stage \<Rightarrow> stage" where
  "processSignalChanges B cfg clock limit st =
     (let cutoffTime =
            numSub B (of_int (dateNow clock st))
              (numMul B (numMul B (numMul B (of_int (checkIntervalHours cfg)) 60) 60) 1000);
          n = (if stageLimit cfg limit = 0 then 100 else stageLimit cfg limit);
          matching =
            filter (\<lambda>r. col_status r = Some Cooldown \<and> of_int (col_updated_at r) < cutoffTime)
              (leads st)
            @ filter (\<lambda>r. col_status r = Some Output \<and> of_int (col_updated_at r) < cutoffTime)
                (leads st)
      in signalLoop clock (map rowToLead (if n < 0 then matching else take (nat n) matching))
           (tick st))"

text \<open>\<^verbatim>\<open>RefreshStage.execute\<close> (lines 20-47).\<close>

definition refreshExecute ::
  "builtins \<Rightarrow> Config \<Rightarrow> (nat \<Rightarrow> int) \<Rightarrow> int option \<Rightarrow> stage \<Rightarrow> stage" where
  "refreshExecute B cfg clock limit st =
     (if \<not> refresh_enabled cfg then st
      else
        let st1 = (if cooldownExpiryCheckEnabled cfg then processExpiredCooldowns cfg clock limit st
                   else st)
        in if signalChangeCheckEnabled cfg then processSignalChanges B cfg clock limit st1 else st1)"

section \<open>The collect stage\<close>

text \<open>
  \<^verbatim>\<open>getUnprocessed\<close> and \<^verbatim>\<open>markProcessedBulk\<close> of the staging table
  (raw-discovery-service.ts). \<^verbatim>\<open>ORDER BY discovered_at ASC\<close> keeps rows with equal time
  stamps in insertion order.
\<close>

definition getUnprocessed :: "string option \<Rightarrow> int option \<Rightarrow> discovery list \<Rightarrow> discovery list" where
  "getUnprocessed runId limit ds =
     applyLimit limit
       (sort_key discovered_at
         (filter (\<lambda>d. \<not> disc_processed d
                    \<and> (case runId of None \<Rightarrow> True | Some i \<Rightarrow> i = [] \<or> disc_run_id d = i)) ds))"

definition markProcessedBulk :: "nat list \<Rightarrow> discovery list \<Rightarrow> discovery list" where
  "markProcessedBulk ids ds =
     map (\<lambda>d. if disc_id d \<in> set ids then d\<lparr>disc_processed := True\<rparr> else d) ds"

text \<open>
  \<^verbatim>\<open>chunk\<close> (utils.ts, lines 34-40). With \<open>size = 0\<close> the loop variable never advances: on
  a list that is not empty the function does not return.
\<close>

function chunkBy :: "nat \<Rightarrow> 'a list \<Rightarrow> 'a list list" where
  "chunkBy n xs = (if xs = [] then [] else take (Suc n) xs # chunkBy n (drop (Suc n) xs))"
  by pat_completeness auto
termination
  by (relation "measure (\<lambda>(n, xs). length xs)") auto

fun chunk :: "'a list \<Rightarrow> nat \<Rightarrow> 'a list list option" where
  "chunk xs 0 = (if xs = [] then Some [] else None)"
| "chunk xs (Suc n) = Some (chunkBy n xs)"

text \<open>
  The body of the inner loop of \<^verbatim>\<open>CollectStage.execute\<close> (lines 145-180) for one staged
  record, on the stage, the set \<^verbatim>\<open>seenIds\<close> and the list \<^verbatim>\<open>processedIds\<close> of the batch. An
  error thrown by \<^verbatim>\<open>createFromRaw\<close> is caught by the loop's own handler.
\<close>

definition collectOne ::
  "builtins \<Rightarrow> (nat \<Rightarrow> int) \<Rightarrow> discovery \<Rightarrow> stage \<times> string list \<times> nat list
     \<Rightarrow> stage \<times> string list \<times> nat list" where
  "collectOne B clock d acc =
     (case acc of (st0, seenIds, processedIds) \<Rightarrow>
        let st = st0\<lparr>processed := processed st0 + 1\<rparr>;
            raw = disc_raw_data d;
            i = rawLeadId (sha256hex B) raw
        in if i \<in> set seenIds then (st, seenIds, processedIds @ [disc_id d])
           else
             (case createFromRaw (sha256hex B) (dateNow clock st) raw (disc_source d) (getRunId st)
                     (leads st) of
                Inl e \<Rightarrow>
                  ((tick st)\<lparr>failed := failed st + 1\<rparr>, seenIds @ [i], processedIds @ [disc_id d])
              | Inr rows \<Rightarrow>
                  (let st1 = onLeads clock (\<lambda>t. updateStatus t i Collected) (tick (st\<lparr>leads := rows\<rparr>))
                   in (st1\<lparr>passed := passed st1 + 1\<rparr>, seenIds @ [i], processedIds @ [disc_id d]))))"

fun collectBatch ::
  "builtins \<Rightarrow> (nat \<Rightarrow> int) \<Rightarrow> discovery list \<Rightarrow> stage \<times> string list \<times> nat list
     \<Rightarrow> stage \<times> string list \<times> nat list" where
  "collectBatch B clock [] acc = acc"
| "collectBatch B clock (d # rest) acc = collectBatch B clock rest (collectOne B clock d acc)"

fun collectBatches ::
  "builtins \<Rightarrow> (nat \<Rightarrow> int) \<Rightarrow> discovery list list \<Rightarrow> stage \<times> string list \<Rightarrow> stage \<times> string list" where
  "collectBatches B clock [] acc = acc"
| "collectBatches B clock (batch # rest) acc =
     (case acc of (st, seenIds) \<Rightarrow>
        (case collectBatch B clock batch (st, seenIds, []) of
           (st1, seenIds1, processedIds) \<Rightarrow>
             collectBatches B clock rest
               (updateProgress (st1\<lparr>discoveries := markProcessedBulk processedIds (discoveries st1)\<rparr>),
                seenIds1)))"

text \<open>\<^verbatim>\<open>CollectStage.execute\<close> (lines 127-192), with the arguments of the constructor.\<close>

definition collectExecute ::
  "builtins \<Rightarrow> Config \<Rightarrow> (nat \<Rightarrow> int) \<Rightarrow> string option \<Rightarrow> int option \<Rightarrow> stage
     \<Rightarrow> (string option \<times> stage) option" where
  "collectExecute B cfg clock runId limit st =
     (let ds = getUnprocessed runId (Some (stageLimit cfg limit)) (discoveries st) in
      if ds = [] then Some (None, st)
      else
        (case chunk ds (batchSize cfg) of
           None \<Rightarrow> None
         | Some batches \<Rightarrow> Some (None, fst (collectBatches B clock batches (st, [])))))"

section \<open>The enrich stage\<close>

text \<open>
  What \<^verbatim>\<open>scrapeWebsite\<close> returns: \<^verbatim>\<open>null\<close>, after recording the failure the fetch reported
  if it reported one, or the data extracted from the pages. Fetching and extraction are
  the parameter \<open>scrape\<close>, a function of the normalized URL and the lead id.
\<close>

record WebsiteData =
  w_emails :: "string list"
  w_phones :: "string list"
  w_hasOnlineBooking :: bool
  w_pageTitle :: "string option"
  w_socialLinks :: "(string \<times> string) list option"

datatype scraped = NoData "(FailureType \<times> string option) option" | Data WebsiteData

text \<open>\<^verbatim>\<open>normalizeUrl\<close> (utils.ts, lines 70-79).\<close>

definition normalizeUrl :: "string \<Rightarrow> string" where
  "normalizeUrl url =
     (if url = [] then []
      else let n = trim (toLowerCase url);
               n1 = (if \<not> startsWith n ''http://'' \<and> \<not> startsWith n ''https://''
                     then ''https://'' @ n else n)
           in rev (dropWhile (\<lambda>c. c = CHR ''/'') (rev n1)))"

text \<open>\<^verbatim>\<open>[...new Set(xs)]\<close>: the first occurrence of each element, in order.\<close>

fun addAll :: "'a list \<Rightarrow> 'a list \<Rightarrow> 'a list" where
  "addAll acc [] = acc"
| "addAll acc (x # xs) = addAll (if x \<in> set acc then acc else acc @ [x]) xs"

text \<open>\<^verbatim>\<open>Object.assign(target, source)\<close> on string maps.\<close>

fun assign :: "(string \<times> string) list \<Rightarrow> (string \<times> string) list \<Rightarrow> (string \<times> string) list" where
  "assign target [] = target"
| "assign target ((k, v) # rest) =
     assign (if k \<in> fst ` set target
             then map (\<lambda>(k', v'). if k' = k then (k, v) else (k', v')) target
             else target @ [(k, v)]) rest"

definition emptyEnrichment :: EnrichmentData where
  "emptyEnrichment =
     \<lparr>emails = [], phones = [], socialLinks = [], hasOnlineBooking = False,
      lastWebsiteUpdate = None, pageTitle = None, metaDescription = None, technologies = None,
      employeeCount = None, linkedinCompanyUrl = None, linkedinEmployeeCount = None,
      founderLinkedin = None\<rparr>"

text \<open>The merge of the scraped data into the enrichment data (enrich/index.ts, lines 103-112).\<close>

definition mergeWebsiteData :: "EnrichmentData \<Rightarrow> WebsiteData \<Rightarrow> EnrichmentData" where
  "mergeWebsiteData e w =
     e\<lparr>emails := addAll [] (emails e @ w_emails w),
       phones := addAll [] (phones e @ w_phones w),
       hasOnlineBooking := (hasOnlineBooking e \<or> w_hasOnlineBooking w),
       pageTitle := (case w_pageTitle w of
                       Some t \<Rightarrow> if t = [] then pageTitle e else Some t
                     | None \<Rightarrow> pageTitle e),
       socialLinks := (case w_socialLinks w of
                         Some links \<Rightarrow> assign (socialLinks e) links
                       | None \<Rightarrow> socialLinks e)\<rparr>"

text \<open>
  \<^verbatim>\<open>enrichLead\<close> (lines 85-135). The result carries the error an \<^verbatim>\<open>upsert\<close> threw, with
  the state at that point.
\<close>

definition promote ::
  "(nat \<Rightarrow> int) \<Rightarrow> PartialLead \<Rightarrow> js_error option \<times> stage \<Rightarrow> js_error option \<times> stage" where
  "promote clock p res =
     (case res of
        (Some e, st) \<Rightarrow> (Some e, st)
      | (None, st) \<Rightarrow>
          (case upsert (dateNow clock st) p (leads st) of
             Inl e \<Rightarrow> (Some e, tick st)
           | Inr rows \<Rightarrow> (None, tick (st\<lparr>leads := rows\<rparr>))))"

definition enrichLead ::
  "(string \<Rightarrow> string \<Rightarrow> scraped) \<Rightarrow> (nat \<Rightarrow> int) \<Rightarrow> Lead \<Rightarrow> stage \<Rightarrow> js_error option \<times> stage" where
  "enrichLead scrape clock lead st =
     (let e0 = (case enrichmentData lead of Val e \<Rightarrow> e | _ \<Rightarrow> emptyEnrichment);
          url = normalizeUrl (strOr (website lead) []);
          (e1, st1) =
            (if truthyStr (website lead) then
               (case scrape url (leadId lead) of
                  NoData None \<Rightarrow> (e0, st)
                | NoData (Some (ft, msg)) \<Rightarrow>
                    (e0, onLeads clock
                           (\<lambda>t. addEnrichmentFailure t (leadId lead)
                                  \<lparr>failure_type = ft, failure_source = url,
                                   failure_timestamp = dateNow clock st, failure_message = msg\<rparr>)
                           (tick st))
                | Data w \<Rightarrow> (mergeWebsiteData e0 w, st))
             else (e0, st));
          st2 = onLeads clock (\<lambda>t. updateEnrichment t (leadId lead) e1) st1;
          r1 = (case emails e1 of
                  e # es \<Rightarrow>
                    if \<not> truthyStr (email lead)
                    then promote clock ((onlyId (leadId lead))\<lparr>p_email := Given e\<rparr>) (None, st2)
                    else (None, st2)
                | [] \<Rightarrow> (None, st2));
          r2 = (case phones e1 of
                  ph # phs \<Rightarrow>
                    if \<not> truthyStr (phone lead)
                    then promote clock ((onlyId (leadId lead))\<lparr>p_phone := Given ph\<rparr>) r1
                    else r1
                | [] \<Rightarrow> r1)
      in case r2 of
           (Some e, st3) \<Rightarrow> (Some e, st3)
         | (None, st3) \<Rightarrow> (None, onLeads clock (\<lambda>t. updateStatus t (leadId lead) Enriched) st3))"

text \<open>The body of the loop of \<^verbatim>\<open>EnrichStage.execute\<close> (lines 53-76) for one lead.\<close>

definition enrichOne ::
  "(string \<Rightarrow> string \<Rightarrow> scraped) \<Rightarrow> (nat \<Rightarrow> int) \<Rightarrow> Lead \<Rightarrow> stage \<Rightarrow> stage" where
  "enrichOne scrape clock lead st0 =
     (let st = st0\<lparr>processed := processed st0 + 1\<rparr>;
          st1 =
            (case enrichLead scrape clock lead st of
               (None, st') \<Rightarrow> st'\<lparr>passed := passed st' + 1\<rparr>
             | (Some e, st') \<Rightarrow>
                 (let st'' = onLeads clock
                        (\<lambda>t. addEnrichmentFailure t (leadId lead)
                               \<lparr>failure_type = unknown, failure_source = ''website'',
                                failure_timestamp = dateNow clock st',
                                failure_message = Some (errorMessage e)\<rparr>)
                        (tick st')
                  in st''\<lparr>failed := failed st'' + 1\<rparr>))
      in if processed st1 mod 10 = 0 then updateProgress st1 else st1)"

fun enrichLoop ::
  "(string \<Rightarrow> string \<Rightarrow> scraped) \<Rightarrow> (nat \<Rightarrow> int) \<Rightarrow> Lead list \<Rightarrow> stage \<Rightarrow> stage" where
  "enrichLoop scrape clock [] st = st"
| "enrichLoop scrape clock (lead # rest) st =
     enrichLoop scrape clock rest (enrichOne scrape clock lead st)"

definition enrichExecute ::
  "(string \<Rightarrow> string \<Rightarrow> scraped) \<Rightarrow> Config \<Rightarrow> (nat \<Rightarrow> int) \<Rightarrow> int option \<Rightarrow> stage
     \<Rightarrow> (string option \<times> stage) option" where
  "enrichExecute scrape cfg clock limit st =
     (case getLeadsForStage (dateNow clock st) ''enrich'' (Some (stageLimit cfg limit)) (leads st) of
        Inl e \<Rightarrow> Some (Some (errorMessage e), tick st)
      | Inr ls \<Rightarrow> Some (None, enrichLoop scrape clock ls (tick st)))"

section \<open>The output stage\<close>

text \<open>\<^verbatim>\<open>lead.score || 0\<close>.\<close>

fun scoreOrZero :: "int js \<Rightarrow> int" where
  "scoreOrZero (Val n) = n"
| "scoreOrZero Undefined = 0"
| "scoreOrZero Null = 0"

text \<open>
  The constructor (output/index.ts, lines 20-25): \<^verbatim>\<open>minScore || ...thresholds.minScore\<close> and
  \<^verbatim>\<open>format || this.config.output.format\<close>; the number 0 and the empty string are falsy.
\<close>

fun outputMinScore :: "Config \<Rightarrow> number option \<Rightarrow> number" where
  "outputMinScore cfg None = minScore cfg"
| "outputMinScore cfg (Some m) = (if m = 0 then minScore cfg else m)"

fun outputFormat :: "Config \<Rightarrow> Format option \<Rightarrow> Format" where
  "outputFormat cfg None = output_format cfg"
| "outputFormat cfg (Some f) = (if f = other_format [] then output_format cfg else f)"

text \<open>
  The file system, behind \<^verbatim>\<open>fs.existsSync\<close>, \<^verbatim>\<open>fs.mkdirSync\<close> and \<^verbatim>\<open>fs.writeFileSync\<close>: each
  field is the message of the error the call throws, if it throws. \<open>fs_writeCsv date ls\<close>
  stands for \<^verbatim>\<open>writeCsv\<close> on the leads \<open>ls\<close>, the file name built from the time \<open>date\<close>;
  \<open>fs_writeJson date exportedAt runId ls\<close> stands for \<^verbatim>\<open>writeJson\<close>, whose metadata carry
  the time \<open>exportedAt\<close> and the id of the run.
\<close>

record filesystem =
  fs_mkdir :: "string option"
  fs_writeCsv :: "int \<Rightarrow> Lead list \<Rightarrow> string option"
  fs_writeJson :: "int \<Rightarrow> int \<Rightarrow> string \<Rightarrow> Lead list \<Rightarrow> string option"

text \<open>
  The body of the loop over the exported leads (output/index.ts, lines 71-86). The end
  of the cooldown is computed as in the score stage.
\<close>

definition outputOne :: "builtins \<Rightarrow> Config \<Rightarrow> (nat \<Rightarrow> int) \<Rightarrow> Lead \<Rightarrow> stage \<Rightarrow> stage" where
  "outputOne B cfg clock lead st0 =
     (let st = st0\<lparr>processed := processed st0 + 1\<rparr>;
          st1 = onLeads clock (\<lambda>t. markOutput t (leadId lead)) st;
          cooldownUntil =
            \<lfloor>numAdd B (of_int (dateNow clock st1))
               (numMul B (numMul B (numMul B (numMul B (of_int (defaultDays cfg)) 24) 60) 60)
                  1000)\<rfloor>;
          st2 = onLeads clock (\<lambda>t. setCooldown t (leadId lead) cooldownUntil) (tick st1)
      in st2\<lparr>passed := passed st2 + 1\<rparr>)"

fun outputLoop :: "builtins \<Rightarrow> Config \<Rightarrow> (nat \<Rightarrow> int) \<Rightarrow> Lead list \<Rightarrow> stage \<Rightarrow> stage" where
  "outputLoop B cfg clock [] st = st"
| "outputLoop B cfg clock (lead # rest) st =
     outputLoop B cfg clock rest (outputOne B cfg clock lead st)"

text \<open>
  \<^verbatim>\<open>OutputStage.execute\<close> (lines 27-92), with the arguments of the constructor. The clock
  is read by \<^verbatim>\<open>getLeadsForStage\<close>, by \<^verbatim>\<open>timestampString()\<close>, by \<^verbatim>\<open>formatDate(Date.now())\<close>
  and, when a JSON file is written, by the \<^verbatim>\<open>new Date()\<close> of \<^verbatim>\<open>writeJson\<close>; the three
  conversions to an ISO string throw on a time out of range. An error thrown here leaves
  \<^verbatim>\<open>execute\<close>.
\<close>

definition outputExecute ::
  "builtins \<Rightarrow> filesystem \<Rightarrow> Config \<Rightarrow> (nat \<Rightarrow> int) \<Rightarrow> int option \<Rightarrow> Format option
     \<Rightarrow> number option \<Rightarrow> stage \<Rightarrow> (string option \<times> stage) option" where
  "outputExecute B fs cfg clock limit formatArg minScoreArg st =
     (case getLeadsForStage (dateNow clock st) ''output'' (Some (stageLimit cfg limit)) (leads st) of
        Inl e \<Rightarrow> Some (Some (errorMessage e), tick st)
      | Inr allLeads \<Rightarrow>
          (let ls = filter (\<lambda>lead. of_int (scoreOrZero (score lead)) \<ge> outputMinScore cfg minScoreArg)
                      allLeads;
               st1 = tick st
           in if ls = [] then Some (None, st1)
              else
                (let st2 = tick st1 in
                 if \<not> validTime (dateNow clock st1) then Some (Some ''Invalid time value'', st2)
                 else
                   (case fs_mkdir fs of
                      Some message \<Rightarrow> Some (Some message, st2)
                    | None \<Rightarrow>
                        (let date = dateNow clock st2;
                             st3 = tick st2;
                             fmt = outputFormat cfg formatArg
                         in if \<not> validTime date then Some (Some ''Invalid time value'', st3)
                            else
                              (case (if fmt = csv \<or> fmt = both then fs_writeCsv fs date ls
                                     else None) of
                                 Some message \<Rightarrow> Some (Some message, st3)
                               | None \<Rightarrow>
                                   if fmt = json \<or> fmt = both then
                                     (let st4 = tick st3 in
                                      if \<not> validTime (dateNow clock st3)
                                      then Some (Some ''Invalid time value'', st4)
                                      else
                                        (case fs_writeJson fs date (dateNow clock st3)
                                                (getRunId st3) ls of
                                           Some message \<Rightarrow> Some (Some message, st4)
                                         | None \<Rightarrow> Some (None, outputLoop B cfg clock ls st4)))
                                   else Some (None, outputLoop B cfg clock ls st3)))))))"

section \<open>The discover stage\<close>

text \<open>
  \<^verbatim>\<open>addBulk\<close> of the staging table: one clock read for the whole batch, and the next free
  id for each row.
\<close>

definition nextId :: "discovery list \<Rightarrow> nat" where
  "nextId ds = Suc (fold max (map disc_id ds) 0)"

fun addBulk :: "int \<Rightarrow> string \<Rightarrow> string \<Rightarrow> RawBusinessData list \<Rightarrow> discovery list \<Rightarrow> discovery list" where
  "addBulk now runId source [] ds = ds"
| "addBulk now runId source (item # items) ds =
     addBulk now runId source items
       (ds @ [\<lparr>disc_id = nextId ds, disc_run_id = runId, disc_source = source,
               disc_raw_data = item, discovered_at = now, disc_processed = False\<rparr>])"

text \<open>
  What a source handler produces: the records its generator yields, and the message of
  the error it ends with, if it ends with one.
\<close>

type_synonym produced = "RawBusinessData list \<times> string option"

text \<open>
  The state of the loop over one source (discover/index.ts, lines 76-93): the stage,
  the pending \<^verbatim>\<open>batch\<close> and \<^verbatim>\<open>totalDiscovered\<close>.
\<close>

definition flushBatch ::
  "(nat \<Rightarrow> int) \<Rightarrow> string \<Rightarrow> stage \<times> RawBusinessData list \<times> nat \<Rightarrow> stage \<times> RawBusinessData list \<times> nat" where
  "flushBatch clock source acc =
     (case acc of (st, batch, totalDiscovered) \<Rightarrow>
        (let st1 = tick (st\<lparr>discoveries :=
                      addBulk (dateNow clock st) (getRunId st) source batch (discoveries st)\<rparr>)
         in (st1\<lparr>passed := passed st1 + length batch\<rparr>, [], totalDiscovered + length batch)))"

text \<open>\<open>limit\<close> is \<^verbatim>\<open>this.limit\<close>; the loop stops at a \<^verbatim>\<open>break\<close>, and then the generator is not
  resumed and its error never surfaces. The result says whether the loop consumed the
  whole sequence.\<close>

fun discoverItems ::
  "Config \<Rightarrow> (nat \<Rightarrow> int) \<Rightarrow> string \<Rightarrow> int \<Rightarrow> RawBusinessData list
     \<Rightarrow> stage \<times> RawBusinessData list \<times> nat \<Rightarrow> bool \<times> stage \<times> RawBusinessData list \<times> nat" where
  "discoverItems cfg clock source limit [] acc = (True, acc)"
| "discoverItems cfg clock source limit (business # rest) acc =
     (case acc of (st0, batch0, totalDiscovered0) \<Rightarrow>
        let st = st0\<lparr>processed := processed st0 + 1\<rparr>;
            batch = batch0 @ [business];
            acc1 = (if length batch \<ge> batchSize cfg
                    then (case flushBatch clock source (st, batch, totalDiscovered0) of
                            (s, b, t) \<Rightarrow> (updateProgress s, b, t))
                    else (st, batch, totalDiscovered0))
        in case acc1 of (st1, batch1, totalDiscovered1) \<Rightarrow>
             if limit \<noteq> 0 \<and> int (totalDiscovered1 + length batch1) \<ge> limit then (False, acc1)
             else discoverItems cfg clock source limit rest acc1)"

definition discoverSource ::
  "Config \<Rightarrow> (nat \<Rightarrow> int) \<Rightarrow> string \<Rightarrow> int \<Rightarrow> produced \<Rightarrow> stage \<times> nat \<Rightarrow> stage \<times> nat" where
  "discoverSource cfg clock source limit items acc =
     (case acc of (st, totalDiscovered) \<Rightarrow>
        (case discoverItems cfg clock source limit (fst items) (st, [], totalDiscovered) of
           (finished, st1, batch, totalDiscovered1) \<Rightarrow>
             (case (finished, snd items) of
                (True, Some message) \<Rightarrow> (recordError message st1, totalDiscovered1)
              | _ \<Rightarrow>
                  if batch \<noteq> [] then
                    (case flushBatch clock source (st1, batch, totalDiscovered1) of (s, b, t) \<Rightarrow> (s, t))
                  else (st1, totalDiscovered1))))"

text \<open>
  The loop over the sources (lines 57-106). \<open>handlers\<close> is the registry of source
  handlers by source type; a handler is called with the source and the remaining limit.
\<close>

fun discoverSources ::
  "Config \<Rightarrow> (nat \<Rightarrow> int) \<Rightarrow> (string \<Rightarrow> (SourceConfig \<Rightarrow> int option \<Rightarrow> produced) option) \<Rightarrow> int
     \<Rightarrow> SourceConfig list \<Rightarrow> stage \<times> nat \<Rightarrow> stage \<times> nat" where
  "discoverSources cfg clock handlers limit [] acc = acc"
| "discoverSources cfg clock handlers limit (source # rest) acc =
     (case acc of (st, totalDiscovered) \<Rightarrow>
        if limit \<noteq> 0 \<and> int totalDiscovered \<ge> limit then acc
        else
          (case handlers (source_type source) of
             None \<Rightarrow> discoverSources cfg clock handlers limit rest acc
           | Some handler \<Rightarrow>
               discoverSources cfg clock handlers limit rest
                 (discoverSource cfg clock (source_name source) limit
                    (handler source (if limit \<noteq> 0 then Some (limit - int totalDiscovered) else None))
                    acc)))"

text \<open>\<^verbatim>\<open>DiscoverStage.execute\<close> (lines 39-109), with the arguments of the constructor.\<close>

definition discoverExecute ::
  "Config \<Rightarrow> (nat \<Rightarrow> int) \<Rightarrow> (string \<Rightarrow> (SourceConfig \<Rightarrow> int option \<Rightarrow> produced) option)
     \<Rightarrow> string option \<Rightarrow> int option \<Rightarrow> stage \<Rightarrow> (string option \<times> stage) option" where
  "discoverExecute cfg clock handlers sourceName limit st =
     (let selected = filter
            (\<lambda>s. source_enabled s
                 \<and> (case sourceName of
                       None \<Rightarrow> True
                     | Some n \<Rightarrow> n = [] \<or> source_name s = n)) (sources cfg)
      in if selected = [] then Some (None, st)
         else Some (None, fst (discoverSources cfg clock handlers (stageLimit cfg limit) selected
                                 (st, 0))))"

section \<open>Properties of identity\<close>



section \<open>Properties of the lead table\<close>

lemma find_updateWhere:
  assumes "\<And>r. col_lead_id (f r) = col_lead_id r"
  shows "find (\<lambda>r. col_lead_id r = i) (updateWhere j f rows)
       = map_option (\<lambda>r. if col_lead_id r = j then f r else r) (find (\<lambda>r. col_lead_id r = i) rows)"
  by (induction rows) (auto simp: updateWhere_def assms)

lemma ids_updateWhere:
  assumes "\<And>r. col_lead_id (f r) = col_lead_id r"
  shows "map col_lead_id (updateWhere j f rows) = map col_lead_id rows"
  by (induction rows) (auto simp: updateWhere_def assms)

lemma others_updateWhere:
  "r \<in> set (updateWhere j f rows) \<Longrightarrow> col_lead_id r \<noteq> j \<Longrightarrow>(\<And>r. col_lead_id (f r) = col_lead_id r) \<Longrightarrow> r \<in> set rows"
  by (auto simp: updateWhere_def split: if_splits)

lemma updatedColumns_keeps:
  "col_lead_id (updatedColumns now e p bn cn r) = col_lead_id r"
  "col_first_seen_at (updatedColumns now e p bn cn r) = col_first_seen_at r"
  "col_created_at (updatedColumns now e p bn cn r) = col_created_at r"
  "col_last_seen_at (updatedColumns now e p bn cn r) = now"
  "col_updated_at (updatedColumns now e p bn cn r) = now"
  by (simp_all add: updatedColumns_def)

lemma getById_Some:
  "getById rows i = Some l \<Longrightarrow> \<exists>r. find (\<lambda>r. col_lead_id r = i) rows = Some r \<and> l = rowToLead r \<and> col_lead_id r = i"
  by (auto simp: getById_def find_Some_iff)

lemma rowToLead_sel:
  "leadId (rowToLead r) = col_lead_id r"
  "firstSeenAt (rowToLead r) = col_first_seen_at r"
  "createdAt (rowToLead r) = col_created_at r"
  "lastSeenAt (rowToLead r) = col_last_seen_at r"
  "updatedAt (rowToLead r) = col_updated_at r"
  "status (rowToLead r) = column (col_status r)"
  "excludedReason (rowToLead r) = column (col_excluded_reason r)"
  "cooldownUntil (rowToLead r) = column (col_cooldown_until r)"
  "email (rowToLead r) = column (col_email r)"
  "phone (rowToLead r) = column (col_phone r)"
  "website (rowToLead r) = column (col_website r)"
  "score (rowToLead r) = column (col_score r)"
  "enrichmentData (rowToLead r) = parseOrUndefined (col_enrichment_data r)"
  "businessName (rowToLead r) = col_business_name r"
  "canonicalName (rowToLead r) = col_canonical_name r"
  by (simp_all add: rowToLead_def)

lemma upsert_existing_ok:
  assumes "getById rows (p_leadId p) = Some existing"
    and "upsert now p rows = Inr rows'"
  shows "map col_lead_id rows' = map col_lead_id rows"
    and "\<exists>l'. getById rows' (p_leadId p) = Some l' \<and> firstSeenAt l' = firstSeenAt existing
          \<and> createdAt l' = createdAt existing \<and> lastSeenAt l' = now \<and> updatedAt l' = now"
    and "\<forall>r \<in> set rows'. col_lead_id r \<noteq> p_leadId p \<longrightarrow> r \<in> set rows"
proof -
  from assms(1) obtain r0 where r0: "find (\<lambda>r. col_lead_id r = p_leadId p) rows = Some r0"
    "existing = rowToLead r0" "col_lead_id r0 = p_leadId p"
    using getById_Some by blast
  from assms obtain bn cn where
    rows': "rows' = updateWhere (p_leadId p) (updatedColumns now existing p bn cn) rows"
    by (auto simp: upsert_def split: js.splits)
  show "map col_lead_id rows' = map col_lead_id rows"
    unfolding rows' by (rule ids_updateWhere) (rule updatedColumns_keeps)
  have "find (\<lambda>r. col_lead_id r = p_leadId p) rows' = Some (updatedColumns now existing p bn cn r0)"
    unfolding rows' by (simp add: find_updateWhere updatedColumns_keeps r0)
  then show "\<exists>l'. getById rows' (p_leadId p) = Some l' \<and> firstSeenAt l' = firstSeenAt existing
          \<and> createdAt l' = createdAt existing \<and> lastSeenAt l' = now \<and> updatedAt l' = now"
    by (simp add: getById_def rowToLead_sel updatedColumns_keeps r0)
  show "\<forall>r \<in> set rows'. col_lead_id r \<noteq> p_leadId p \<longrightarrow> r \<in> set rows"
    unfolding rows' using others_updateWhere updatedColumns_keeps(1) by blast
qed

lemma upsert_existing_total:
  assumes "getById rows (p_leadId p) = Some existing"
  shows "(\<exists>rows'. upsert now p rows = Inr rows') \<longleftrightarrow> (p_businessName p \<noteq> Undef \<and> p_canonicalName p \<noteq> Undef)"
  using assms by (cases "p_businessName p"; cases "p_canonicalName p") (simp_all add: upsert_def)

lemma find_snoc:
  "find P xs = None \<Longrightarrow> P x \<Longrightarrow> find P (xs @ [x]) = Some x"
  by (induction xs) (auto split: if_splits)

lemma find_None_ids:
  "find (\<lambda>r. col_lead_id r = i) rows = None \<Longrightarrow> i \<notin> set (map col_lead_id rows)"
  by (induction rows) (auto split: if_splits)

lemma insertedRow_sel:
  "col_lead_id (insertedRow now p) = p_leadId p"
  "col_first_seen_at (insertedRow now p) = now"
  "col_created_at (insertedRow now p) = now"
  "col_last_seen_at (insertedRow now p) = now"
  "col_updated_at (insertedRow now p) = now"
  by (simp_all add: insertedRow_def)

lemma upsert_new:
  assumes "getById rows (p_leadId p) = None"
  shows "upsert now p rows = Inr (rows @ [insertedRow now p])"
  using assms by (simp add: upsert_def)

lemma upsert_present:
  assumes "upsert now p rows = Inr rows'"
  shows "\<exists>l. getById rows' (p_leadId p) = Some l"
proof (cases "getById rows (p_leadId p)")
  case None
  then have "find (\<lambda>r. col_lead_id r = p_leadId p) rows = None"
    by (simp add: getById_def)
  with None assms show ?thesis
    by (auto simp: upsert_new getById_def find_snoc insertedRow_sel)
next
  case (Some existing)
  from upsert_existing_ok(2) [OF Some assms] show ?thesis by blast
qed

lemma upsert_distinct:
  assumes "upsert now p rows = Inr rows'" and "distinct (map col_lead_id rows)"
  shows "distinct (map col_lead_id rows')"
proof (cases "getById rows (p_leadId p)")
  case None
  then have "find (\<lambda>r. col_lead_id r = p_leadId p) rows = None"
    by (simp add: getById_def)
  then have "p_leadId p \<notin> set (map col_lead_id rows)" by (rule find_None_ids)
  with None assms show ?thesis
    by (auto simp: upsert_new insertedRow_sel)
next
  case (Some existing)
  from upsert_existing_ok(1) [OF Some assms(1)] assms(2) show ?thesis by simp
qed

lemma one_row:
  "distinct (map col_lead_id rows) \<Longrightarrow> find (\<lambda>r. col_lead_id r = i) rows = Some r
     \<Longrightarrow> length (filter (\<lambda>r. col_lead_id r = i) rows) = 1"
proof (induction rows)
  case Nil
  then show ?case by simp
next
  case (Cons a rows)
  show ?case
  proof (cases "col_lead_id a = i")
    case True
    with Cons.prems have "i \<notin> col_lead_id ` set rows" by auto
    then have "filter (\<lambda>r. col_lead_id r = i) rows = []"
      by (auto simp: filter_empty_conv)
    with True show ?thesis by simp
  next
    case False
    with Cons show ?thesis by auto
  qed
qed

lemma createFromRaw_total:
  "\<exists>rows'. createFromRaw H now raw src rn rows = Inr rows'"
  by (cases "getById rows (rawLeadId H raw)")
     (simp_all add: createFromRaw_def rawToPartial_def upsert_def onlyId_def)

section \<open>Properties of the service calls of a stage\<close>

lemma stage_ops [simp]:
  "leads (tick st) = leads st" "ticks (tick st) = Suc (ticks st)"
  "processed (tick st) = processed st" "passed (tick st) = passed st" "failed (tick st) = failed st"
  "runs (tick st) = runs st" "run (tick st) = run st"
  "leads (onLeads clock f st) = f (clock (ticks st)) (leads st)"
  "ticks (onLeads clock f st) = Suc (ticks st)"
  "processed (onLeads clock f st) = processed st" "passed (onLeads clock f st) = passed st"
  "failed (onLeads clock f st) = failed st"
  "runs (onLeads clock f st) = runs st" "run (onLeads clock f st) = run st"
  "leads (updateProgress st) = leads st" "ticks (updateProgress st) = ticks st"
  "processed (updateProgress st) = processed st" "passed (updateProgress st) = passed st"
  "failed (updateProgress st) = failed st" "run (updateProgress st) = run st"
  by (simp_all add: tick_def onLeads_def dateNow_def updateProgress_def split: option.splits)

lemma find_other_updateWhere:
  "j \<noteq> i \<Longrightarrow> (\<And>r. col_lead_id (f r) = col_lead_id r) \<Longrightarrow>
     find (\<lambda>r. col_lead_id r = j) (updateWhere i f rows) = find (\<lambda>r. col_lead_id r = j) rows"
  by (induction rows) (auto simp: updateWhere_def)

lemma find_same_updateWhere:
  "(\<And>r. col_lead_id (f r) = col_lead_id r) \<Longrightarrow>
     find (\<lambda>r. col_lead_id r = i) (updateWhere i f rows)
       = map_option f (find (\<lambda>r. col_lead_id r = i) rows)"
  by (induction rows) (auto simp: updateWhere_def)

lemma service_ids [simp]:
  "map col_lead_id (updateStatus t i s rows) = map col_lead_id rows"
  "map col_lead_id (exclude t i reason rows) = map col_lead_id rows"
  "map col_lead_id (setCooldown t i u rows) = map col_lead_id rows"
  "map col_lead_id (updateAngles t i a e rows) = map col_lead_id rows"
  "map col_lead_id (updateEnrichment t i d rows) = map col_lead_id rows"
  "map col_lead_id (updateScore t i sc rs rows) = map col_lead_id rows"
  "map col_lead_id (markOutput t i rows) = map col_lead_id rows"
  by (simp_all add: updateStatus_def exclude_def setCooldown_def updateAngles_def
      updateEnrichment_def updateScore_def markOutput_def ids_updateWhere)

lemma service_other [simp]:
  assumes "j \<noteq> i"
  shows "find (\<lambda>r. col_lead_id r = j) (updateStatus t i s rows) = find (\<lambda>r. col_lead_id r = j) rows"
  "find (\<lambda>r. col_lead_id r = j) (exclude t i reason rows) = find (\<lambda>r. col_lead_id r = j) rows"
  "find (\<lambda>r. col_lead_id r = j) (setCooldown t i u rows) = find (\<lambda>r. col_lead_id r = j) rows"
  "find (\<lambda>r. col_lead_id r = j) (updateAngles t i a e rows) = find (\<lambda>r. col_lead_id r = j) rows"
  "find (\<lambda>r. col_lead_id r = j) (updateEnrichment t i d rows) = find (\<lambda>r. col_lead_id r = j) rows"
  "find (\<lambda>r. col_lead_id r = j) (updateScore t i sc rs rows) = find (\<lambda>r. col_lead_id r = j) rows"
  "find (\<lambda>r. col_lead_id r = j) (markOutput t i rows) = find (\<lambda>r. col_lead_id r = j) rows"
  using assms
  by (simp_all add: updateStatus_def exclude_def setCooldown_def updateAngles_def
      updateEnrichment_def updateScore_def markOutput_def find_other_updateWhere)

lemma service_same [simp]:
  "find (\<lambda>r. col_lead_id r = i) (updateStatus t i s rows)
     = map_option (\<lambda>r. r\<lparr>col_status := Some s, col_updated_at := t\<rparr>)
         (find (\<lambda>r. col_lead_id r = i) rows)"
  "find (\<lambda>r. col_lead_id r = i) (exclude t i reason rows)
     = map_option (\<lambda>r. r\<lparr>col_excluded_reason := Some reason, col_status := Some Excluded,
          col_updated_at := t\<rparr>) (find (\<lambda>r. col_lead_id r = i) rows)"
  "find (\<lambda>r. col_lead_id r = i) (setCooldown t i u rows)
     = map_option (\<lambda>r. r\<lparr>col_cooldown_until := Some u, col_status := Some Cooldown,
          col_updated_at := t\<rparr>) (find (\<lambda>r. col_lead_id r = i) rows)"
  "find (\<lambda>r. col_lead_id r = i) (updateAngles t i a e rows)
     = map_option (\<lambda>r. r\<lparr>col_active_angles := Some a, col_exhausted_angles := Some e,
          col_updated_at := t\<rparr>) (find (\<lambda>r. col_lead_id r = i) rows)"
  "find (\<lambda>r. col_lead_id r = i) (updateEnrichment t i d rows)
     = map_option (\<lambda>r. r\<lparr>col_enrichment_data := Some d, col_updated_at := t\<rparr>)
         (find (\<lambda>r. col_lead_id r = i) rows)"
  "find (\<lambda>r. col_lead_id r = i) (updateScore t i sc rs rows)
     = map_option (\<lambda>r. r\<lparr>col_score := Some sc, col_score_reasons := Some rs,
          col_updated_at := t\<rparr>) (find (\<lambda>r. col_lead_id r = i) rows)"
  "find (\<lambda>r. col_lead_id r = i) (markOutput t i rows)
     = map_option (\<lambda>r. r\<lparr>col_status := Some Output, col_last_output_at := Some t,
          col_updated_at := t\<rparr>) (find (\<lambda>r. col_lead_id r = i) rows)"
  by (simp_all add: updateStatus_def exclude_def setCooldown_def updateAngles_def
      updateEnrichment_def updateScore_def markOutput_def find_same_updateWhere)

lemma applyLimit_subset: "set (applyLimit limit xs) \<subseteq> set xs"
  by (cases limit) (auto dest: in_set_takeD)

lemma column_simps:
  "column x = Null \<longleftrightarrow> x = None"
  "column x = Val v \<longleftrightarrow> x = Some v"
  "column x \<noteq> Undefined"
  by (cases x; simp)+

text \<open>
  C4. Every lead \<^verbatim>\<open>getLeadsForStage\<close> returns has its status in the predecessor set of
  the stage, no exclusion reason, and a cooldown that is null or earlier than the current
  time; the call returns for every stage name that is not a member of
  \<^verbatim>\<open>Object.prototype\<close>; and for the stage \<^verbatim>\<open>filter\<close> no row excluded as \<^verbatim>\<open>bad_fit\<close> is
  returned, whatever its status.
\<close>

theorem getLeadsForStage_only_eligible:
  "(getLeadsForStage now stage limit rows = Inr ls \<longrightarrow>
      (\<forall>l \<in> set ls.
          (\<exists>statuses s. map_of statusMap stage = Some statuses \<and> s \<in> set statuses
             \<and> status l = Val s)
          \<and> excludedReason l = Null
          \<and> (cooldownUntil l = Null \<or> (\<exists>u. cooldownUntil l = Val u \<and> u < now))))
   \<and> (stage \<notin> set objectPrototypeKeys \<longrightarrow> (\<exists>ls. getLeadsForStage now stage limit rows = Inr ls))
   \<and> (\<exists>ls. getLeadsForStage now ''filter'' limit rows = Inr ls
         \<and> (\<forall>l \<in> set ls. excludedReason l \<noteq> Val bad_fit)
         \<and> (\<forall>r \<in> set rows. col_excluded_reason r = Some bad_fit \<longrightarrow> rowToLead r \<notin> set ls))"
proof (intro conjI impI)
  assume a: "getLeadsForStage now stage limit rows = Inr ls"
  show "\<forall>l \<in> set ls.
          (\<exists>statuses s. map_of statusMap stage = Some statuses \<and> s \<in> set statuses
             \<and> status l = Val s)
          \<and> excludedReason l = Null
          \<and> (cooldownUntil l = Null \<or> (\<exists>u. cooldownUntil l = Val u \<and> u < now))"
  proof
    fix l assume l: "l \<in> set ls"
    from a obtain statuses where m: "map_of statusMap stage = Some statuses"
      and ls: "ls = map rowToLead (applyLimit limit (filter (eligible now statuses) rows))"
      using l by (auto simp: getLeadsForStage_def split: option.splits if_splits)
    from l ls obtain r where r: "l = rowToLead r" "eligible now statuses r"
      using applyLimit_subset by fastforce
    from r(2) obtain s where s: "col_status r = Some s" "s \<in> set statuses"
      by (auto simp: eligible_def split: option.splits)
    from r(2) have e: "col_excluded_reason r = None" by (simp add: eligible_def)
    from r(2) have c: "col_cooldown_until r = None \<or> (\<exists>u. col_cooldown_until r = Some u \<and> u < now)"
      by (auto simp: eligible_def split: option.splits)
    show "(\<exists>statuses s. map_of statusMap stage = Some statuses \<and> s \<in> set statuses
             \<and> status l = Val s)
          \<and> excludedReason l = Null
          \<and> (cooldownUntil l = Null \<or> (\<exists>u. cooldownUntil l = Val u \<and> u < now))"
      using m s e c by (auto simp: r(1) rowToLead_sel)
  qed
next
  assume "stage \<notin> set objectPrototypeKeys"
  then show "\<exists>ls. getLeadsForStage now stage limit rows = Inr ls"
    by (simp add: getLeadsForStage_def split: option.splits)
next
  let ?ls = "map rowToLead (applyLimit limit (filter (eligible now [Collected]) rows))"
  have g: "getLeadsForStage now ''filter'' limit rows = Inr ?ls"
    by (simp add: getLeadsForStage_def statusMap_def)
  have n: "excludedReason l = Null" if "l \<in> set ?ls" for l
  proof -
    from that obtain r where "l = rowToLead r" "eligible now [Collected] r"
      using applyLimit_subset by fastforce
    then show ?thesis by (simp add: eligible_def rowToLead_sel)
  qed
  have 1: "\<forall>l \<in> set ?ls. excludedReason l \<noteq> Val bad_fit"
    using n by simp
  have 2: "\<forall>r \<in> set rows. col_excluded_reason r = Some bad_fit \<longrightarrow> rowToLead r \<notin> set ?ls"
  proof (intro ballI impI notI)
    fix r assume "col_excluded_reason r = Some bad_fit" "rowToLead r \<in> set ?ls"
    with n [of "rowToLead r"] show False by (simp add: rowToLead_sel)
  qed
  from g 1 2 show "\<exists>ls. getLeadsForStage now ''filter'' limit rows = Inr ls
         \<and> (\<forall>l \<in> set ls. excludedReason l \<noteq> Val bad_fit)
         \<and> (\<forall>r \<in> set rows. col_excluded_reason r = Some bad_fit \<longrightarrow> rowToLead r \<notin> set ls)"
    by blast
qed

theorem getLeadsForStage_only_eligible_witness:
  "getLeadsForStage 2000 ''filter'' None
     [(insertedRow 1000 (onlyId ''a''))\<lparr>col_status := Some Collected\<rparr>,
      (insertedRow 1000 (onlyId ''b''))\<lparr>col_status := Some Collected,
         col_excluded_reason := Some bad_fit\<rparr>,
      (insertedRow 1000 (onlyId ''c''))\<lparr>col_status := Some Collected,
         col_cooldown_until := Some 5000\<rparr>]
     = Inr [rowToLead ((insertedRow 1000 (onlyId ''a''))\<lparr>col_status := Some Collected\<rparr>)]
   \<and> status (rowToLead ((insertedRow 1000 (onlyId ''a''))\<lparr>col_status := Some Collected\<rparr>))
       = Val Collected
   \<and> excludedReason (rowToLead ((insertedRow 1000 (onlyId ''a''))\<lparr>col_status := Some Collected\<rparr>))
       = Null
   \<and> cooldownUntil (rowToLead ((insertedRow 1000 (onlyId ''a''))\<lparr>col_status := Some Collected\<rparr>))
       = Null
   \<and> rowToLead ((insertedRow 1000 (onlyId ''b''))\<lparr>col_status := Some Collected,
         col_excluded_reason := Some bad_fit\<rparr>)
       \<notin> set [rowToLead ((insertedRow 1000 (onlyId ''a''))\<lparr>col_status := Some Collected\<rparr>)]"
proof -
  let ?a = "(insertedRow 1000 (onlyId ''a''))\<lparr>col_status := Some Collected\<rparr>"
  let ?b = "(insertedRow 1000 (onlyId ''b''))\<lparr>col_status := Some Collected,
         col_excluded_reason := Some bad_fit\<rparr>"
  let ?c = "(insertedRow 1000 (onlyId ''c''))\<lparr>col_status := Some Collected,
         col_cooldown_until := Some 5000\<rparr>"
  have g: "getLeadsForStage 2000 ''filter'' None [?a, ?b, ?c] = Inr [rowToLead ?a]"
    by (simp add: getLeadsForStage_def statusMap_def eligible_def insertedRow_def onlyId_def)
  note t = getLeadsForStage_only_eligible [of 2000 "''filter''" None "[?a, ?b, ?c]" "[rowToLead ?a]"]
  from t g have 1: "\<forall>l \<in> set [rowToLead ?a].
          (\<exists>statuses s. map_of statusMap ''filter'' = Some statuses \<and> s \<in> set statuses
             \<and> status l = Val s)
          \<and> excludedReason l = Null
          \<and> (cooldownUntil l = Null \<or> (\<exists>u. cooldownUntil l = Val u \<and> u < 2000))"
    by blast
  from t g have 2: "rowToLead ?b \<notin> set [rowToLead ?a]"
    by (auto simp: insertedRow_def onlyId_def)
  from 1 have 3: "excludedReason (rowToLead ?a) = Null" by simp
  have 4: "status (rowToLead ?a) = Val Collected" "cooldownUntil (rowToLead ?a) = Null"
    by (simp_all add: rowToLead_def insertedRow_def onlyId_def)
  from g 2 3 4 show ?thesis by blast
qed

lemma rawToPartial_sel:
  "p_leadId (rawToPartial H raw src rn) = rawLeadId H raw"
  "p_businessName (rawToPartial H raw src rn) = Given (raw_name raw)"
  "p_canonicalName (rawToPartial H raw src rn) = Given (canonicalizeName (raw_name raw))"
  "p_email (rawToPartial H raw src rn) = passKey (raw_email raw)"
  "p_phone (rawToPartial H raw src rn) = passKey (raw_phone raw)"
  "p_website (rawToPartial H raw src rn) = passKey (raw_website raw)"
  "p_status (rawToPartial H raw src rn) = Given New"
  "p_excludedReason (rawToPartial H raw src rn) = Absent"
  "p_cooldownUntil (rawToPartial H raw src rn) = Absent"
  "p_score (rawToPartial H raw src rn) = Absent"
  "p_enrichmentData (rawToPartial H raw src rn) = Absent"
  by (simp_all add: rawToPartial_def onlyId_def)

lemma createFromRaw_twice:
  assumes "distinct (map col_lead_id rows)"
  shows "\<exists>rows1 rows2 l1 l2. createFromRaw H t1 raw s1 r1 rows = Inr rows1
          \<and> createFromRaw H t2 raw s2 r2 rows1 = Inr rows2
          \<and> length (filter (\<lambda>r. col_lead_id r = rawLeadId H raw) rows2) = 1
          \<and> getById rows1 (rawLeadId H raw) = Some l1
          \<and> getById rows2 (rawLeadId H raw) = Some l2
          \<and> firstSeenAt l2 = firstSeenAt l1 \<and> createdAt l2 = createdAt l1
          \<and> lastSeenAt l2 = t2 \<and> updatedAt l2 = t2"
proof -
  obtain rows1 where c1: "createFromRaw H t1 raw s1 r1 rows = Inr rows1"
    using createFromRaw_total by blast
  obtain rows2 where c2: "createFromRaw H t2 raw s2 r2 rows1 = Inr rows2"
    using createFromRaw_total by blast
  define p1 where "p1 = rawToPartial H raw s1 r1"
  define p2 where "p2 = rawToPartial H raw s2 r2"
  have p1: "createFromRaw H t1 raw s1 r1 rows = upsert t1 p1 rows" "p_leadId p1 = rawLeadId H raw"
    by (simp_all add: p1_def createFromRaw_def rawToPartial_sel)
  have p2: "createFromRaw H t2 raw s2 r2 rows1 = upsert t2 p2 rows1" "p_leadId p2 = rawLeadId H raw"
    by (simp_all add: p2_def createFromRaw_def rawToPartial_sel)
  from c1 p1 have u1: "upsert t1 p1 rows = Inr rows1" by simp
  from c2 p2 have u2: "upsert t2 p2 rows1 = Inr rows2" by simp
  from upsert_present [OF u1] p1(2) obtain l1 where l1: "getById rows1 (rawLeadId H raw) = Some l1"
    by auto
  then have l1': "getById rows1 (p_leadId p2) = Some l1" by (simp add: p2(2))
  from upsert_existing_ok(2) [OF l1' u2] obtain l2 where
    l2: "getById rows2 (rawLeadId H raw) = Some l2" "firstSeenAt l2 = firstSeenAt l1"
      "createdAt l2 = createdAt l1" "lastSeenAt l2 = t2" "updatedAt l2 = t2"
    by (auto simp: p2(2))
  have d: "distinct (map col_lead_id rows2)"
    using upsert_distinct [OF u2 upsert_distinct [OF u1 assms]] .
  from l2(1) obtain r where "find (\<lambda>r. col_lead_id r = rawLeadId H raw) rows2 = Some r"
    by (auto simp: getById_def)
  with d have "length (filter (\<lambda>r. col_lead_id r = rawLeadId H raw) rows2) = 1"
    by (rule one_row)
  with c1 c2 l1 l2 show ?thesis by blast
qed

text \<open>
  C3 (amended). \<^verbatim>\<open>upsert\<close> on a \<^verbatim>\<open>leadId\<close> that exists never adds a row and never changes
  \<^verbatim>\<open>firstSeenAt\<close> and \<^verbatim>\<open>createdAt\<close>. It sets \<^verbatim>\<open>lastSeenAt\<close> and \<^verbatim>\<open>updatedAt\<close> to the
  current time unless the argument carries \<^verbatim>\<open>businessName\<close> or \<^verbatim>\<open>canonicalName\<close> as
  \<^verbatim>\<open>undefined\<close>: then the \<^verbatim>\<open>NOT NULL\<close> constraint makes the statement throw and nothing is
  written. \<^verbatim>\<open>createFromRaw\<close> passes both names, so collecting the same raw record twice
  leaves exactly one row for its key, with the first-seen and created time stamps of the
  first collection and the last-seen and updated time stamps of the second.
\<close>

theorem upsert_existing_touch:
  "(getById rows (p_leadId p) = Some existing \<longrightarrow>
      (p_businessName p \<noteq> Undef \<and> p_canonicalName p \<noteq> Undef \<longrightarrow>
         (\<exists>rows' l'. upsert now p rows = Inr rows'
             \<and> map col_lead_id rows' = map col_lead_id rows
             \<and> getById rows' (p_leadId p) = Some l'
             \<and> firstSeenAt l' = firstSeenAt existing \<and> createdAt l' = createdAt existing
             \<and> lastSeenAt l' = now \<and> updatedAt l' = now))
      \<and> (p_businessName p = Undef \<or> p_canonicalName p = Undef \<longrightarrow>
           (\<exists>e. upsert now p rows = Inl e)))
   \<and> (distinct (map col_lead_id rows) \<longrightarrow>
       (\<exists>rows1 rows2 l1 l2. createFromRaw H t1 raw s1 r1 rows = Inr rows1
          \<and> createFromRaw H t2 raw s2 r2 rows1 = Inr rows2
          \<and> length (filter (\<lambda>r. col_lead_id r = rawLeadId H raw) rows2) = 1
          \<and> getById rows1 (rawLeadId H raw) = Some l1
          \<and> getById rows2 (rawLeadId H raw) = Some l2
          \<and> firstSeenAt l2 = firstSeenAt l1 \<and> createdAt l2 = createdAt l1
          \<and> lastSeenAt l2 = t2 \<and> updatedAt l2 = t2))"
proof (intro conjI impI)
  assume e: "getById rows (p_leadId p) = Some existing"
    and n: "p_businessName p \<noteq> Undef \<and> p_canonicalName p \<noteq> Undef"
  with upsert_existing_total [OF e, of now] obtain rows' where u: "upsert now p rows = Inr rows'"
    by blast
  from upsert_existing_ok(1,2) [OF e u] u
  show "\<exists>rows' l'. upsert now p rows = Inr rows'
             \<and> map col_lead_id rows' = map col_lead_id rows
             \<and> getById rows' (p_leadId p) = Some l'
             \<and> firstSeenAt l' = firstSeenAt existing \<and> createdAt l' = createdAt existing
             \<and> lastSeenAt l' = now \<and> updatedAt l' = now"
    by blast
next
  assume e: "getById rows (p_leadId p) = Some existing"
    and n: "p_businessName p = Undef \<or> p_canonicalName p = Undef"
  from upsert_existing_total [OF e, of now] n have "\<nexists>rows'. upsert now p rows = Inr rows'"
    by auto
  then show "\<exists>e. upsert now p rows = Inl e"
    by (cases "upsert now p rows") auto
next
  assume "distinct (map col_lead_id rows)"
  then show "\<exists>rows1 rows2 l1 l2. createFromRaw H t1 raw s1 r1 rows = Inr rows1
          \<and> createFromRaw H t2 raw s2 r2 rows1 = Inr rows2
          \<and> length (filter (\<lambda>r. col_lead_id r = rawLeadId H raw) rows2) = 1
          \<and> getById rows1 (rawLeadId H raw) = Some l1
          \<and> getById rows2 (rawLeadId H raw) = Some l2
          \<and> firstSeenAt l2 = firstSeenAt l1 \<and> createdAt l2 = createdAt l1
          \<and> lastSeenAt l2 = t2 \<and> updatedAt l2 = t2"
    by (rule createFromRaw_twice)
qed

text \<open>
  C3 as stated fails: the lead \<^verbatim>\<open>a\<close> exists, and \<^verbatim>\<open>upsert({leadId: 'a', businessName:
  undefined})\<close> throws instead of setting \<^verbatim>\<open>lastSeenAt\<close> and \<^verbatim>\<open>updatedAt\<close>.
\<close>

theorem upsert_undefined_name_counterexample:
  "getById [insertedRow 1000 ((onlyId ''a'')\<lparr>p_businessName := Given ''Acme''\<rparr>)] ''a''
     = Some (rowToLead (insertedRow 1000 ((onlyId ''a'')\<lparr>p_businessName := Given ''Acme''\<rparr>)))
   \<and> upsert 2000 ((onlyId ''a'')\<lparr>p_businessName := Undef\<rparr>)
        [insertedRow 1000 ((onlyId ''a'')\<lparr>p_businessName := Given ''Acme''\<rparr>)]
     = Inl (SqlError ''NOT NULL constraint failed: leads.business_name'')"
  by (simp add: getById_def upsert_def insertedRow_def onlyId_def rowToLead_def)

theorem upsert_existing_touch_witness:
  "getById [insertedRow 1000 ((onlyId ''a'')\<lparr>p_businessName := Given ''Acme''\<rparr>)] ''a''
     = Some (rowToLead (insertedRow 1000 ((onlyId ''a'')\<lparr>p_businessName := Given ''Acme''\<rparr>)))
   \<and> (\<exists>rows' l'. upsert 2000 ((onlyId ''a'')\<lparr>p_email := Given ''info@acme.test''\<rparr>)
            [insertedRow 1000 ((onlyId ''a'')\<lparr>p_businessName := Given ''Acme''\<rparr>)] = Inr rows'
         \<and> map col_lead_id rows' = [''a'']
         \<and> getById rows' ''a'' = Some l'
         \<and> firstSeenAt l' = 1000 \<and> createdAt l' = 1000
         \<and> lastSeenAt l' = 2000 \<and> updatedAt l' = 2000)
   \<and> distinct (map col_lead_id ([] :: row list))
   \<and> (\<exists>rows1 rows2 l1 l2.
         createFromRaw (\<lambda>s. s) 1000
           \<lparr>raw_name = ''Acme Plumbing LLC'', raw_address = None, raw_city = Some ''Austin'',
            raw_state = Some ''TX'', raw_postalCode = None, raw_country = None, raw_phone = None,
            raw_email = None, raw_website = None, raw_rating = None, raw_reviewCount = None,
            raw_categories = None, raw_sourceUrl = None\<rparr> ''yelp'' ''run1'' [] = Inr rows1
         \<and> createFromRaw (\<lambda>s. s) 2000
           \<lparr>raw_name = ''Acme Plumbing LLC'', raw_address = None, raw_city = Some ''Austin'',
            raw_state = Some ''TX'', raw_postalCode = None, raw_country = None, raw_phone = None,
            raw_email = None, raw_website = None, raw_rating = None, raw_reviewCount = None,
            raw_categories = None, raw_sourceUrl = None\<rparr> ''yelp'' ''run2'' rows1 = Inr rows2
         \<and> length rows2 = 1
         \<and> getById rows2 (col_lead_id (hd rows2)) = Some l2
         \<and> getById rows1 (col_lead_id (hd rows2)) = Some l1
         \<and> firstSeenAt l2 = firstSeenAt l1 \<and> createdAt l2 = createdAt l1
         \<and> lastSeenAt l2 = 2000 \<and> updatedAt l2 = 2000)"
proof -
  let ?r0 = "insertedRow 1000 ((onlyId ''a'')\<lparr>p_businessName := Given ''Acme''\<rparr>)"
  let ?p0 = "(onlyId ''a'')\<lparr>p_email := Given ''info@acme.test''\<rparr>"
  let ?raw = "\<lparr>raw_name = ''Acme Plumbing LLC'', raw_address = None, raw_city = Some ''Austin'',
            raw_state = Some ''TX'', raw_postalCode = None, raw_country = None, raw_phone = None,
            raw_email = None, raw_website = None, raw_rating = None, raw_reviewCount = None,
            raw_categories = None, raw_sourceUrl = None\<rparr>"
  have g: "getById [?r0] ''a'' = Some (rowToLead ?r0)"
    by (simp add: getById_def insertedRow_def onlyId_def)
  have f: "p_leadId ?p0 = ''a''" "p_businessName ?p0 \<noteq> Undef" "p_canonicalName ?p0 \<noteq> Undef"
    "map col_lead_id [?r0] = [''a'']"
    "firstSeenAt (rowToLead ?r0) = 1000" "createdAt (rowToLead ?r0) = 1000"
    by (simp_all add: onlyId_def insertedRow_def rowToLead_def)
  have g': "getById [?r0] (p_leadId ?p0) = Some (rowToLead ?r0)"
    using g by (simp only: f(1))
  note t1 = upsert_existing_touch [of "[?r0]" ?p0 "rowToLead ?r0" 2000, THEN conjunct1, rule_format,
      OF g', THEN conjunct1, rule_format, OF conjI [OF f(2) f(3)]]
  have 1: "\<exists>rows' l'. upsert 2000 ?p0 [?r0] = Inr rows'
         \<and> map col_lead_id rows' = [''a'']
         \<and> getById rows' ''a'' = Some l'
         \<and> firstSeenAt l' = 1000 \<and> createdAt l' = 1000
         \<and> lastSeenAt l' = 2000 \<and> updatedAt l' = 2000"
    by (rule t1 [unfolded f])
  have d: "distinct (map col_lead_id ([] :: row list))" by simp
  note t2 = upsert_existing_touch [of "[]" ?p0 "rowToLead ?r0" 2000 "\<lambda>s. s" 1000 ?raw
      "''yelp''" "''run1''" 2000 "''yelp''" "''run2''", THEN conjunct2, rule_format, OF d]
  then obtain rows1 rows2 l1 l2 where c:
    "createFromRaw (\<lambda>s. s) 1000 ?raw ''yelp'' ''run1'' [] = Inr rows1"
    "createFromRaw (\<lambda>s. s) 2000 ?raw ''yelp'' ''run2'' rows1 = Inr rows2"
    "length (filter (\<lambda>r. col_lead_id r = rawLeadId (\<lambda>s. s) ?raw) rows2) = 1"
    "getById rows1 (rawLeadId (\<lambda>s. s) ?raw) = Some l1"
    "getById rows2 (rawLeadId (\<lambda>s. s) ?raw) = Some l2"
    "firstSeenAt l2 = firstSeenAt l1" "createdAt l2 = createdAt l1"
    "lastSeenAt l2 = 2000" "updatedAt l2 = 2000"
    by blast
  from c(1) have r1: "rows1 = [insertedRow 1000 (rawToPartial (\<lambda>s. s) ?raw ''yelp'' ''run1'')]"
    by (simp add: createFromRaw_def upsert_def getById_def)
  have i: "getById rows1 (p_leadId (rawToPartial (\<lambda>s. s) ?raw ''yelp'' ''run2''))
      = Some (rowToLead (insertedRow 1000 (rawToPartial (\<lambda>s. s) ?raw ''yelp'' ''run1'')))"
    by (simp add: r1 getById_def insertedRow_sel rawToPartial_sel)
  from c(2) have "map col_lead_id rows2 = map col_lead_id rows1"
    unfolding createFromRaw_def using upsert_existing_ok(1) [OF i] by blast
  then have len: "length rows2 = 1" and h: "col_lead_id (hd rows2) = rawLeadId (\<lambda>s. s) ?raw"
    by (cases rows2; simp add: r1 insertedRow_sel rawToPartial_sel)+
  have c4: "getById rows1 (col_lead_id (hd rows2)) = Some l1"
    and c5: "getById rows2 (col_lead_id (hd rows2)) = Some l2"
    using c(4,5) by (simp_all only: h)
  have 2: "\<exists>rows1 rows2 l1 l2.
         createFromRaw (\<lambda>s. s) 1000 ?raw ''yelp'' ''run1'' [] = Inr rows1
         \<and> createFromRaw (\<lambda>s. s) 2000 ?raw ''yelp'' ''run2'' rows1 = Inr rows2
         \<and> length rows2 = 1
         \<and> getById rows2 (col_lead_id (hd rows2)) = Some l2
         \<and> getById rows1 (col_lead_id (hd rows2)) = Some l1
         \<and> firstSeenAt l2 = firstSeenAt l1 \<and> createdAt l2 = createdAt l1
         \<and> lastSeenAt l2 = 2000 \<and> updatedAt l2 = 2000"
    apply (rule exI [of _ rows1], rule exI [of _ rows2], rule exI [of _ l1], rule exI [of _ l2])
    using c(1,2) len c5 c4 c(6-9) by (intro conjI)
  show ?thesis
    using g 1 d 2 by (intro conjI)
qed

section \<open>Properties of the score stage\<close>

lemma scoreOne_row:
  assumes "find (\<lambda>r. col_lead_id r = leadId lead) (leads st) = Some r0"
  shows "\<exists>r'. find (\<lambda>r. col_lead_id r = leadId lead) (leads (scoreOne B cfg clock lead st)) = Some r'
    \<and> (let result = scoreLead B cfg (clock (ticks st)) lead;
            active = filter (\<lambda>angle. angle \<notin> set (exhaustedAngles lead)) (result_angles result)
        in if of_int (result_score result) < minScore cfg
           then col_status r' = Some Excluded \<and> col_excluded_reason r' = Some bad_fit
           else if active = []
           then col_status r' = Some Cooldown \<and> col_excluded_reason r' = col_excluded_reason r0
             \<and> col_cooldown_until r'
                 = Some \<lfloor>numAdd B (of_int (clock (ticks st + scoreLeadClockReads lead)))
                     (numMul B (numMul B (numMul B (numMul B (of_int (defaultDays cfg)) 24) 60)
                        60) 1000)\<rfloor>
           else col_status r' = Some Scored \<and> col_excluded_reason r' = col_excluded_reason r0
             \<and> col_score r' = Some (result_score result) \<and> col_active_angles r' = Some active)"
  using assms by (simp add: scoreOne_def Let_def dateNow_def)

lemma scoreOne_other:
  "j \<noteq> leadId lead \<Longrightarrow>
     find (\<lambda>r. col_lead_id r = j) (leads (scoreOne B cfg clock lead st))
       = find (\<lambda>r. col_lead_id r = j) (leads st)"
  by (simp add: scoreOne_def Let_def dateNow_def)

lemma scoreOne_ticks: "ticks st \<le> ticks (scoreOne B cfg clock lead st)"
  by (simp add: scoreOne_def Let_def dateNow_def)

lemma scoreLoop_other:
  "j \<notin> leadId ` set ls \<Longrightarrow>
     find (\<lambda>r. col_lead_id r = j) (leads (scoreLoop B cfg clock ls st))
       = find (\<lambda>r. col_lead_id r = j) (leads st)"
  by (induction ls arbitrary: st) (auto simp: scoreOne_other)

lemma scoreLoop_row:
  assumes "distinct (map leadId ls)" and "lead \<in> set ls"
    and "find (\<lambda>r. col_lead_id r = leadId lead) (leads st) = Some r0"
  shows "\<exists>n r'. ticks st \<le> n
    \<and> find (\<lambda>r. col_lead_id r = leadId lead) (leads (scoreLoop B cfg clock ls st)) = Some r'
    \<and> (let result = scoreLead B cfg (clock n) lead;
            active = filter (\<lambda>angle. angle \<notin> set (exhaustedAngles lead)) (result_angles result)
        in if of_int (result_score result) < minScore cfg
           then col_status r' = Some Excluded \<and> col_excluded_reason r' = Some bad_fit
           else if active = []
           then col_status r' = Some Cooldown \<and> col_excluded_reason r' = col_excluded_reason r0
             \<and> col_cooldown_until r'
                 = Some \<lfloor>numAdd B (of_int (clock (n + scoreLeadClockReads lead)))
                     (numMul B (numMul B (numMul B (numMul B (of_int (defaultDays cfg)) 24) 60)
                        60) 1000)\<rfloor>
           else col_status r' = Some Scored \<and> col_excluded_reason r' = col_excluded_reason r0
             \<and> col_score r' = Some (result_score result) \<and> col_active_angles r' = Some active)"
    (is "\<exists>n r'. _ \<and> _ \<and> ?O n r'")
  using assms
proof (induction ls arbitrary: st)
  case Nil
  then show ?case by simp
next
  case (Cons a ls)
  show ?case
  proof (cases "lead = a")
    case True
    from scoreOne_row [OF Cons.prems(3), of B cfg clock] obtain r' where
      r': "find (\<lambda>r. col_lead_id r = leadId lead) (leads (scoreOne B cfg clock lead st)) = Some r'"
        "?O (ticks st) r'"
      by blast
    from Cons.prems(1) True have "leadId lead \<notin> leadId ` set ls" by auto
    then have "find (\<lambda>r. col_lead_id r = leadId lead)
        (leads (scoreLoop B cfg clock ls (scoreOne B cfg clock lead st))) = Some r'"
      using r'(1) by (simp add: scoreLoop_other)
    then have "find (\<lambda>r. col_lead_id r = leadId lead)
        (leads (scoreLoop B cfg clock (a # ls) st)) = Some r'"
      using True by simp
    with r'(2) show ?thesis
      by (intro exI [of _ "ticks st"] exI [of _ r'] conjI) simp_all
  next
    case False
    with Cons.prems have in_ls: "lead \<in> set ls" by auto
    with Cons.prems(1) have ne: "leadId lead \<noteq> leadId a"
      by (auto simp: image_iff)
    from Cons.prems(3) ne
    have f: "find (\<lambda>r. col_lead_id r = leadId lead) (leads (scoreOne B cfg clock a st)) = Some r0"
      by (simp add: scoreOne_other)
    from Cons.prems(1) have d: "distinct (map leadId ls)" by simp
    from Cons.IH [OF d in_ls f] obtain n r' where
      n: "ticks (scoreOne B cfg clock a st) \<le> n"
      and r': "find (\<lambda>r. col_lead_id r = leadId lead)
         (leads (scoreLoop B cfg clock ls (scoreOne B cfg clock a st))) = Some r'"
      and o: "?O n r'"
      by blast
    from n scoreOne_ticks [of st B cfg clock a] have "ticks st \<le> n"
      by (rule order_trans [rotated])
    with r' o show ?thesis
      by (intro exI [of _ n] exI [of _ r'] conjI) simp_all
  qed
qed

lemma find_distinct:
  "distinct (map col_lead_id rows) \<Longrightarrow> r \<in> set rows
     \<Longrightarrow> find (\<lambda>x. col_lead_id x = col_lead_id r) rows = Some r"
  by (induction rows) (auto simp: image_iff)

lemma distinct_applyLimit:
  "distinct (map f xs) \<Longrightarrow> distinct (map f (applyLimit limit xs))"
  by (cases limit) (auto simp: distinct_take take_map [symmetric] simp del: take_map)

lemma selected_rows:
  assumes "getLeadsForStage now stage limit rows = Inr ls" and "lead \<in> set ls"
  shows "\<exists>r. r \<in> set rows \<and> lead = rowToLead r \<and> col_excluded_reason r = None"
proof -
  from assms obtain statuses where
    ls: "ls = map rowToLead (applyLimit limit (filter (eligible now statuses) rows))"
    by (auto simp: getLeadsForStage_def split: option.splits if_splits)
  with assms(2) obtain r where "lead = rowToLead r" "r \<in> set rows" "eligible now statuses r"
    using applyLimit_subset by fastforce
  then show ?thesis by (auto simp: eligible_def)
qed

lemma selected_distinct:
  assumes "getLeadsForStage now stage limit rows = Inr ls" and "distinct (map col_lead_id rows)"
  shows "distinct (map leadId ls)"
proof -
  have m: "map leadId (map rowToLead xs) = map col_lead_id xs" for xs
    by (simp add: rowToLead_sel)
  from assms(1) consider statuses where
    "ls = map rowToLead (applyLimit limit (filter (eligible now statuses) rows))" | "ls = []"
    by (auto simp: getLeadsForStage_def split: option.splits if_splits)
  then show ?thesis
  proof cases
    case 1
    from assms(2) have "distinct (map col_lead_id (filter (eligible now statuses) rows))"
      by (rule distinct_map_filter)
    then show ?thesis unfolding 1 m by (rule distinct_applyLimit)
  next
    case 2
    then show ?thesis by simp
  qed
qed

text \<open>
  C2. In a run of the score stage over a table with unique keys, every selected lead ends
  in one of three ways, decided by the result \<^verbatim>\<open>scoreLead\<close> computes for it at the clock
  reading \<open>clock n\<close> of its turn, in the arithmetic of doubles: excluded with reason
  \<^verbatim>\<open>bad_fit\<close> when the score is below the minimum; in cooldown, and not excluded, when
  the score passes and no angle is left after removing the exhausted ones, until the sum
  of the next clock reading and \<open>defaultDays\<close> days in milliseconds as the code computes
  it; and in status \<^verbatim>\<open>scored\<close>, with the score and the active angles stored, otherwise.
  The three branches exclude each other, so a lead reaches \<^verbatim>\<open>scored\<close> only with a passing
  score and an active angle.
\<close>

theorem scoreExecute_outcomes:
  assumes "distinct (map col_lead_id (leads st))"
    and "getLeadsForStage (clock (ticks st)) ''score'' (Some (stageLimit cfg limit)) (leads st)
           = Inr ls"
    and "lead \<in> set ls"
  shows "fst (scoreExecute B cfg clock limit st) = None
    \<and> (\<exists>n l'. ticks st \<le> n
        \<and> getById (leads (snd (scoreExecute B cfg clock limit st))) (leadId lead) = Some l'
        \<and> (let result = scoreLead B cfg (clock n) lead;
                active = filter (\<lambda>angle. angle \<notin> set (exhaustedAngles lead)) (result_angles result)
            in if of_int (result_score result) < minScore cfg
               then status l' = Val Excluded \<and> excludedReason l' = Val bad_fit
               else if active = []
               then status l' = Val Cooldown \<and> excludedReason l' = Null
                 \<and> cooldownUntil l'
                     = Val \<lfloor>numAdd B (of_int (clock (n + scoreLeadClockReads lead)))
                     (numMul B (numMul B (numMul B (numMul B (of_int (defaultDays cfg)) 24) 60)
                        60) 1000)\<rfloor>
               else status l' = Val Scored \<and> excludedReason l' = Null
                 \<and> score l' = Val (result_score result) \<and> activeAngles l' = active))"
proof -
  have e: "scoreExecute B cfg clock limit st = (None, scoreLoop B cfg clock ls (tick st))"
    using assms(2) by (simp add: scoreExecute_def dateNow_def)
  from selected_rows [OF assms(2,3)] obtain r0 where
    r0: "r0 \<in> set (leads st)" "lead = rowToLead r0" "col_excluded_reason r0 = None"
    by blast
  from find_distinct [OF assms(1) r0(1)]
  have f: "find (\<lambda>r. col_lead_id r = leadId lead) (leads (tick st)) = Some r0"
    by (simp add: r0(2) rowToLead_sel)
  from scoreLoop_row [OF selected_distinct [OF assms(2,1)] assms(3) f, of B cfg clock]
  obtain n r' where n: "ticks (tick st) \<le> n"
    and r': "find (\<lambda>r. col_lead_id r = leadId lead) (leads (scoreLoop B cfg clock ls (tick st)))
        = Some r'"
    and o: "let result = scoreLead B cfg (clock n) lead;
            active = filter (\<lambda>angle. angle \<notin> set (exhaustedAngles lead)) (result_angles result)
        in if of_int (result_score result) < minScore cfg
           then col_status r' = Some Excluded \<and> col_excluded_reason r' = Some bad_fit
           else if active = []
           then col_status r' = Some Cooldown \<and> col_excluded_reason r' = col_excluded_reason r0
             \<and> col_cooldown_until r'
                 = Some \<lfloor>numAdd B (of_int (clock (n + scoreLeadClockReads lead)))
                     (numMul B (numMul B (numMul B (numMul B (of_int (defaultDays cfg)) 24) 60)
                        60) 1000)\<rfloor>
           else col_status r' = Some Scored \<and> col_excluded_reason r' = col_excluded_reason r0
             \<and> col_score r' = Some (result_score result) \<and> col_active_angles r' = Some active"
    by blast
  have g: "getById (leads (snd (scoreExecute B cfg clock limit st))) (leadId lead)
      = Some (rowToLead r')"
    by (simp add: e getById_def r')
  have "ticks st \<le> n" using n by simp
  moreover from o r0(3) have
    "let result = scoreLead B cfg (clock n) lead;
         active = filter (\<lambda>angle. angle \<notin> set (exhaustedAngles lead)) (result_angles result)
     in if of_int (result_score result) < minScore cfg
        then status (rowToLead r') = Val Excluded \<and> excludedReason (rowToLead r') = Val bad_fit
        else if active = []
        then status (rowToLead r') = Val Cooldown \<and> excludedReason (rowToLead r') = Null
          \<and> cooldownUntil (rowToLead r')
              = Val \<lfloor>numAdd B (of_int (clock (n + scoreLeadClockReads lead)))
                     (numMul B (numMul B (numMul B (numMul B (of_int (defaultDays cfg)) 24) 60)
                        60) 1000)\<rfloor>
        else status (rowToLead r') = Val Scored \<and> excludedReason (rowToLead r') = Null
          \<and> score (rowToLead r') = Val (result_score result)
          \<and> activeAngles (rowToLead r') = active"
    by (simp add: Let_def rowToLead_def)
  ultimately show ?thesis
    using e g by (intro conjI exI [of _ n] exI [of _ "rowToLead r'"]) simp_all
qed

text \<open>
  Three instances, one for each branch, at the default configuration and with the
  arithmetic exact, as the arithmetic of doubles is on the small integers that occur. The
  lead \<^verbatim>\<open>a\<close> has no contact data and no website: its score is 25, the angle \<^verbatim>\<open>no_website\<close> is
  active, and it is scored. The lead \<^verbatim>\<open>b\<close> has only a website: its score is 10, below the
  minimum 20, and it is excluded. The lead \<^verbatim>\<open>c\<close> is as \<^verbatim>\<open>a\<close>, with \<^verbatim>\<open>no_website\<close> exhausted:
  it goes into cooldown for 30 days, 2592000000 milliseconds.
\<close>

theorem scoreExecute_outcomes_witness:
  "\<forall>B clock.
     distinct (map col_lead_id [(insertedRow 1000 (onlyId ''a''))\<lparr>col_status := Some Enriched\<rparr>])
   \<and> getLeadsForStage (clock 0) ''score'' (Some (stageLimit DEFAULT_CONFIG None))
        [(insertedRow 1000 (onlyId ''a''))\<lparr>col_status := Some Enriched\<rparr>]
       = Inr [rowToLead ((insertedRow 1000 (onlyId ''a''))\<lparr>col_status := Some Enriched\<rparr>)]
   \<and> (\<exists>l'. getById (leads (snd (scoreExecute
            (B\<lparr>numAdd := (+), numSub := (-), numMul := (*), numDiv := (/)\<rparr>)
            DEFAULT_CONFIG clock None
            (newStage [(insertedRow 1000 (onlyId ''a''))\<lparr>col_status := Some Enriched\<rparr>] [] [] 0))))
          ''a'' = Some l'
        \<and> status l' = Val Scored \<and> excludedReason l' = Null \<and> score l' = Val 25
        \<and> activeAngles l' = [no_website])
   \<and> getLeadsForStage (clock 0) ''score'' (Some (stageLimit DEFAULT_CONFIG None))
        [(insertedRow 1000 (onlyId ''b''))
           \<lparr>col_status := Some Enriched, col_website := Some ''b.test''\<rparr>]
       = Inr [rowToLead ((insertedRow 1000 (onlyId ''b''))
           \<lparr>col_status := Some Enriched, col_website := Some ''b.test''\<rparr>)]
   \<and> (\<exists>l'. getById (leads (snd (scoreExecute
            (B\<lparr>numAdd := (+), numSub := (-), numMul := (*), numDiv := (/)\<rparr>)
            DEFAULT_CONFIG clock None
            (newStage [(insertedRow 1000 (onlyId ''b''))
               \<lparr>col_status := Some Enriched, col_website := Some ''b.test''\<rparr>] [] [] 0))))
          ''b'' = Some l'
        \<and> status l' = Val Excluded \<and> excludedReason l' = Val bad_fit)
   \<and> getLeadsForStage (clock 0) ''score'' (Some (stageLimit DEFAULT_CONFIG None))
        [(insertedRow 1000 (onlyId ''c''))
           \<lparr>col_status := Some Enriched, col_exhausted_angles := Some [no_website]\<rparr>]
       = Inr [rowToLead ((insertedRow 1000 (onlyId ''c''))
           \<lparr>col_status := Some Enriched, col_exhausted_angles := Some [no_website]\<rparr>)]
   \<and> (\<exists>n l'. getById (leads (snd (scoreExecute
            (B\<lparr>numAdd := (+), numSub := (-), numMul := (*), numDiv := (/)\<rparr>)
            DEFAULT_CONFIG clock None
            (newStage [(insertedRow 1000 (onlyId ''c''))
               \<lparr>col_status := Some Enriched, col_exhausted_angles := Some [no_website]\<rparr>]
               [] [] 0))))
          ''c'' = Some l'
        \<and> status l' = Val Cooldown \<and> excludedReason l' = Null
        \<and> cooldownUntil l' = Val (clock n + 2592000000))"
proof (intro allI)
  fix B :: builtins and clock :: "nat \<Rightarrow> int"
  define X where "X = B\<lparr>numAdd := (+), numSub := (-), numMul := (*), numDiv := (/)\<rparr>"
  have X: "numAdd X = (+)" "numSub X = (-)" "numMul X = (*)" "numDiv X = (/)"
    by (simp_all add: X_def)
  have fl: "\<lfloor>(51::rat) / 2\<rfloor> = 25" "\<lfloor>(21::rat) / 2\<rfloor> = 10"
    by (simp_all add: floor_eq_iff)
  have cf: "minScore DEFAULT_CONFIG = 20" "defaultDays DEFAULT_CONFIG = 30"
    by (simp_all add: DEFAULT_CONFIG_def)
  note score_defs = scoreLead_def scoreEmail_def scorePhone_def scoreWebsite_def scoreBooking_def
    scoreReviews_def scoreRating_def scoreFounder_def isFounderLed_def getReviewCount_def
    getRating_def hasEnrichedList_def addScore_def addReason_def addAngle_def isOutdatedWebsite_def
    rowToLead_def insertedRow_def onlyId_def DEFAULT_CONFIG_def emptyObject_def
  define ra where "ra = (insertedRow 1000 (onlyId ''a''))\<lparr>col_status := Some Enriched\<rparr>"
  define sa where "sa = newStage [ra] [] [] 0"
  have da: "distinct (map col_lead_id (leads sa))"
    by (simp add: sa_def newStage_def)
  have ga0: "getLeadsForStage (clock 0) ''score'' (Some (stageLimit DEFAULT_CONFIG None)) [ra]
      = Inr [rowToLead ra]"
    by (simp add: ra_def getLeadsForStage_def statusMap_def eligible_def insertedRow_def
        onlyId_def DEFAULT_CONFIG_def)
  have ga: "getLeadsForStage (clock (ticks sa)) ''score'' (Some (stageLimit DEFAULT_CONFIG None))
      (leads sa) = Inr [rowToLead ra]"
    using ga0 by (simp add: sa_def newStage_def)
  have ma: "rowToLead ra \<in> set [rowToLead ra]" by simp
  have ia: "leadId (rowToLead ra) = ''a''" "exhaustedAngles (rowToLead ra) = []"
    by (simp_all add: ra_def rowToLead_def insertedRow_def onlyId_def)
  have sca: "scoreLead X DEFAULT_CONFIG t (rowToLead ra)
      = \<lparr>result_score = 25, result_reasons = [''-no_email'', ''-no_phone'', ''+no_website_angle''],
         result_angles = [no_website]\<rparr>" for t
    by (simp add: ra_def score_defs X fl)
  from scoreExecute_outcomes [where st = sa and clock = clock and cfg = DEFAULT_CONFIG
      and limit = None and B = X and ls = "[rowToLead ra]" and lead = "rowToLead ra", OF da ga ma]
  obtain na la where
    la: "getById (leads (snd (scoreExecute X DEFAULT_CONFIG clock None sa))) ''a'' = Some la"
    and oa: "status la = Val Scored \<and> excludedReason la = Null \<and> score la = Val 25
        \<and> activeAngles la = [no_website]"
    unfolding ia sca cf by (auto simp: Let_def)
  have 1: "\<exists>l'. getById (leads (snd (scoreExecute X DEFAULT_CONFIG clock None sa))) ''a'' = Some l'
        \<and> status l' = Val Scored \<and> excludedReason l' = Null \<and> score l' = Val 25
        \<and> activeAngles l' = [no_website]"
    using la oa by (intro exI [of _ la] conjI) simp_all
  define rb where "rb = (insertedRow 1000 (onlyId ''b''))
      \<lparr>col_status := Some Enriched, col_website := Some ''b.test''\<rparr>"
  define sb where "sb = newStage [rb] [] [] 0"
  have db: "distinct (map col_lead_id (leads sb))"
    by (simp add: sb_def newStage_def)
  have gb0: "getLeadsForStage (clock 0) ''score'' (Some (stageLimit DEFAULT_CONFIG None)) [rb]
      = Inr [rowToLead rb]"
    by (simp add: rb_def getLeadsForStage_def statusMap_def eligible_def insertedRow_def
        onlyId_def DEFAULT_CONFIG_def)
  have gb: "getLeadsForStage (clock (ticks sb)) ''score'' (Some (stageLimit DEFAULT_CONFIG None))
      (leads sb) = Inr [rowToLead rb]"
    using gb0 by (simp add: sb_def newStage_def)
  have mb: "rowToLead rb \<in> set [rowToLead rb]" by simp
  have ib: "leadId (rowToLead rb) = ''b''" "exhaustedAngles (rowToLead rb) = []"
    by (simp_all add: rb_def rowToLead_def insertedRow_def onlyId_def)
  have scb: "scoreLead X DEFAULT_CONFIG t (rowToLead rb)
      = \<lparr>result_score = 10, result_reasons = [''-no_email'', ''-no_phone'', ''+has_website''],
         result_angles = []\<rparr>" for t
    by (simp add: rb_def score_defs X fl)
  from scoreExecute_outcomes [where st = sb and clock = clock and cfg = DEFAULT_CONFIG
      and limit = None and B = X and ls = "[rowToLead rb]" and lead = "rowToLead rb", OF db gb mb]
  obtain nb lb where
    lb: "getById (leads (snd (scoreExecute X DEFAULT_CONFIG clock None sb))) ''b'' = Some lb"
    and ob: "status lb = Val Excluded \<and> excludedReason lb = Val bad_fit"
    unfolding ib scb cf by (auto simp: Let_def)
  have 2: "\<exists>l'. getById (leads (snd (scoreExecute X DEFAULT_CONFIG clock None sb))) ''b'' = Some l'
        \<and> status l' = Val Excluded \<and> excludedReason l' = Val bad_fit"
    using lb ob by (intro exI [of _ lb] conjI) simp_all
  define rc where "rc = (insertedRow 1000 (onlyId ''c''))
      \<lparr>col_status := Some Enriched, col_exhausted_angles := Some [no_website]\<rparr>"
  define sc where "sc = newStage [rc] [] [] 0"
  have dc: "distinct (map col_lead_id (leads sc))"
    by (simp add: sc_def newStage_def)
  have gc0: "getLeadsForStage (clock 0) ''score'' (Some (stageLimit DEFAULT_CONFIG None)) [rc]
      = Inr [rowToLead rc]"
    by (simp add: rc_def getLeadsForStage_def statusMap_def eligible_def insertedRow_def
        onlyId_def DEFAULT_CONFIG_def)
  have gc: "getLeadsForStage (clock (ticks sc)) ''score'' (Some (stageLimit DEFAULT_CONFIG None))
      (leads sc) = Inr [rowToLead rc]"
    using gc0 by (simp add: sc_def newStage_def)
  have mc: "rowToLead rc \<in> set [rowToLead rc]" by simp
  have ic: "leadId (rowToLead rc) = ''c''" "exhaustedAngles (rowToLead rc) = [no_website]"
    "scoreLeadClockReads (rowToLead rc) = 0"
    by (simp_all add: rc_def rowToLead_def insertedRow_def onlyId_def scoreLeadClockReads_def)
  have scc: "scoreLead X DEFAULT_CONFIG t (rowToLead rc)
      = \<lparr>result_score = 25, result_reasons = [''-no_email'', ''-no_phone'', ''+no_website_angle''],
         result_angles = [no_website]\<rparr>" for t
    by (simp add: rc_def score_defs X fl)
  have days: "\<lfloor>numAdd X (of_int t)
      (numMul X (numMul X (numMul X (numMul X (of_int (defaultDays DEFAULT_CONFIG)) 24) 60) 60)
         1000)\<rfloor> = t + 2592000000" for t
    by (simp add: X cf)
  from scoreExecute_outcomes [where st = sc and clock = clock and cfg = DEFAULT_CONFIG
      and limit = None and B = X and ls = "[rowToLead rc]" and lead = "rowToLead rc", OF dc gc mc]
  obtain nc lc where
    lc: "getById (leads (snd (scoreExecute X DEFAULT_CONFIG clock None sc))) ''c'' = Some lc"
    and oc: "status lc = Val Cooldown \<and> excludedReason lc = Null
        \<and> cooldownUntil lc = Val (clock nc + 2592000000)"
    unfolding ic scc days by (auto simp: Let_def cf)
  have 3: "\<exists>n l'. getById (leads (snd (scoreExecute X DEFAULT_CONFIG clock None sc))) ''c'' = Some l'
        \<and> status l' = Val Cooldown \<and> excludedReason l' = Null
        \<and> cooldownUntil l' = Val (clock n + 2592000000)"
    using lc oc by (intro exI [of _ nc] exI [of _ lc] conjI) simp_all
  have da0: "distinct (map col_lead_id [ra])" by simp
  from da0 [unfolded ra_def] ga0 [unfolded ra_def] 1 [unfolded sa_def ra_def X_def]
    gb0 [unfolded rb_def] 2 [unfolded sb_def rb_def X_def]
    gc0 [unfolded rc_def] 3 [unfolded sc_def rc_def X_def]
  show "distinct (map col_lead_id [(insertedRow 1000 (onlyId ''a''))\<lparr>col_status := Some Enriched\<rparr>])
   \<and> getLeadsForStage (clock 0) ''score'' (Some (stageLimit DEFAULT_CONFIG None))
        [(insertedRow 1000 (onlyId ''a''))\<lparr>col_status := Some Enriched\<rparr>]
       = Inr [rowToLead ((insertedRow 1000 (onlyId ''a''))\<lparr>col_status := Some Enriched\<rparr>)]
   \<and> (\<exists>l'. getById (leads (snd (scoreExecute
            (B\<lparr>numAdd := (+), numSub := (-), numMul := (*), numDiv := (/)\<rparr>)
            DEFAULT_CONFIG clock None
            (newStage [(insertedRow 1000 (onlyId ''a''))\<lparr>col_status := Some Enriched\<rparr>] [] [] 0))))
          ''a'' = Some l'
        \<and> status l' = Val Scored \<and> excludedReason l' = Null \<and> score l' = Val 25
        \<and> activeAngles l' = [no_website])
   \<and> getLeadsForStage (clock 0) ''score'' (Some (stageLimit DEFAULT_CONFIG None))
        [(insertedRow 1000 (onlyId ''b''))
           \<lparr>col_status := Some Enriched, col_website := Some ''b.test''\<rparr>]
       = Inr [rowToLead ((insertedRow 1000 (onlyId ''b''))
           \<lparr>col_status := Some Enriched, col_website := Some ''b.test''\<rparr>)]
   \<and> (\<exists>l'. getById (leads (snd (scoreExecute
            (B\<lparr>numAdd := (+), numSub := (-), numMul := (*), numDiv := (/)\<rparr>)
            DEFAULT_CONFIG clock None
            (newStage [(insertedRow 1000 (onlyId ''b''))
               \<lparr>col_status := Some Enriched, col_website := Some ''b.test''\<rparr>] [] [] 0))))
          ''b'' = Some l'
        \<and> status l' = Val Excluded \<and> excludedReason l' = Val bad_fit)
   \<and> getLeadsForStage (clock 0) ''score'' (Some (stageLimit DEFAULT_CONFIG None))
        [(insertedRow 1000 (onlyId ''c''))
           \<lparr>col_status := Some Enriched, col_exhausted_angles := Some [no_website]\<rparr>]
       = Inr [rowToLead ((insertedRow 1000 (onlyId ''c''))
           \<lparr>col_status := Some Enriched, col_exhausted_angles := Some [no_website]\<rparr>)]
   \<and> (\<exists>n l'. getById (leads (snd (scoreExecute
            (B\<lparr>numAdd := (+), numSub := (-), numMul := (*), numDiv := (/)\<rparr>)
            DEFAULT_CONFIG clock None
            (newStage [(insertedRow 1000 (onlyId ''c''))
               \<lparr>col_status := Some Enriched, col_exhausted_angles := Some [no_website]\<rparr>]
               [] [] 0))))
          ''c'' = Some l'
        \<and> status l' = Val Cooldown \<and> excludedReason l' = Null
        \<and> cooldownUntil l' = Val (clock n + 2592000000))"
    by (intro conjI)
qed

section \<open>Properties of the filter stage\<close>







section \<open>Properties of the refresh stage\<close>

lemma reentryStatus_row: "reentryStatus (rowToLead r) = Enriched"
  by (cases "col_score r") (simp_all add: reentryStatus_def rowToLead_def)

text \<open>
  C7 does not hold of the code. \<^verbatim>\<open>rowToLead\<close> copies the column \<^verbatim>\<open>score\<close>, which is a
  number or \<^verbatim>\<open>null\<close> and never \<^verbatim>\<open>undefined\<close>, so the test \<^verbatim>\<open>lead.score !== undefined\<close>
  succeeds for every lead read from the table and the sweep always chooses \<^verbatim>\<open>enriched\<close>.
  The lead \<^verbatim>\<open>a\<close> below is in cooldown until 1500, with no enrichment data and no score;
  the sweep at time 2000 clears its cooldown and leaves it in \<^verbatim>\<open>enriched\<close>, where the claim
  says \<^verbatim>\<open>collected\<close>.
\<close>

theorem expired_sweep_never_collected:
  "reentryStatus (rowToLead r) = Enriched
   \<and> enrichmentData (rowToLead ((insertedRow 1000 (onlyId ''a''))
         \<lparr>col_status := Some Cooldown, col_cooldown_until := Some 1500\<rparr>)) = Undefined
   \<and> score (rowToLead ((insertedRow 1000 (onlyId ''a''))
         \<lparr>col_status := Some Cooldown, col_cooldown_until := Some 1500\<rparr>)) = Null
   \<and> map_option (\<lambda>l. (status l, cooldownUntil l, enrichmentData l, score l))
        (getById
          (leads (processExpiredCooldowns DEFAULT_CONFIG (\<lambda>n. 2000 + int n) None
             (newStage [(insertedRow 1000 (onlyId ''a''))
                \<lparr>col_status := Some Cooldown, col_cooldown_until := Some 1500\<rparr>] [] [] 0)))
          ''a'')
       = Some (Val Enriched, Null, Undefined, Null)"
proof -
  let ?r = "(insertedRow 1000 (onlyId ''a''))
         \<lparr>col_status := Some Cooldown, col_cooldown_until := Some 1500\<rparr>"
  have g: "getExpiredCooldowns 2000 (Some 500) [?r] = [rowToLead ?r]"
    by (simp add: getExpiredCooldowns_def insertedRow_def onlyId_def)
  have i: "leadId (rowToLead ?r) = ''a''"
    by (simp add: rowToLead_def insertedRow_def onlyId_def)
  have u: "upsert 2001 ((onlyId ''a'')\<lparr>p_cooldownUntil := Undef\<rparr>) [?r]
      = Inr [updatedColumns 2001 (rowToLead ?r) ((onlyId ''a'')\<lparr>p_cooldownUntil := Undef\<rparr>)
               [] [] ?r]"
    by (simp add: upsert_def getById_def updateWhere_def insertedRow_def onlyId_def rowToLead_def)
  have l: "maxLeadsPerRun DEFAULT_CONFIG = 500" "resetExhaustedAngles DEFAULT_CONFIG = False"
    by (simp_all add: DEFAULT_CONFIG_def)
  have p: "leads (processExpiredCooldowns DEFAULT_CONFIG (\<lambda>n. 2000 + int n) None
             (newStage [?r] [] [] 0))
      = updateStatus 2002 ''a'' Enriched
          [updatedColumns 2001 (rowToLead ?r) ((onlyId ''a'')\<lparr>p_cooldownUntil := Undef\<rparr>)
                 [] [] ?r]"
    by (simp add: processExpiredCooldowns_def newStage_def dateNow_def l g
        expiredOne_def i u tick_def onLeads_def reentryStatus_row)
  have "map_option (\<lambda>l. (status l, cooldownUntil l, enrichmentData l, score l))
        (getById
          (leads (processExpiredCooldowns DEFAULT_CONFIG (\<lambda>n. 2000 + int n) None
             (newStage [?r] [] [] 0))) ''a'')
       = Some (Val Enriched, Null, Undefined, Null)"
    unfolding p
    by (simp add: updateStatus_def updateWhere_def
        getById_def updatedColumns_def rowToLead_def insertedRow_def onlyId_def)
  moreover have "enrichmentData (rowToLead ?r) = Undefined" "score (rowToLead ?r) = Null"
    by (simp_all add: rowToLead_def insertedRow_def onlyId_def)
  ultimately show ?thesis
    using reentryStatus_row [of r] by (intro conjI)
qed

section \<open>Properties of the collect stage\<close>

lemma getById_updateStatus:
  "getById rows i = Some l \<Longrightarrow>
     map_option status (getById (updateStatus t i s rows) i) = Some (Val s)"
  by (auto simp: getById_def rowToLead_def)

lemma collectOne_leads:
  assumes "rawLeadId (sha256hex B) (disc_raw_data d) \<notin> set seen"
  shows "\<exists>rows. createFromRaw (sha256hex B) (clock (ticks st)) (disc_raw_data d) (disc_source d)
             (getRunId (st\<lparr>processed := processed st + 1\<rparr>)) (leads st) = Inr rows
         \<and> leads (fst (collectOne B clock d (st, seen, ps)))
             = updateStatus (clock (Suc (ticks st))) (rawLeadId (sha256hex B) (disc_raw_data d))
                 Collected rows"
proof -
  obtain rows where r: "createFromRaw (sha256hex B) (clock (ticks st)) (disc_raw_data d)
      (disc_source d) (getRunId (st\<lparr>processed := processed st + 1\<rparr>)) (leads st) = Inr rows"
    using createFromRaw_total by blast
  with assms show ?thesis
    by (simp add: collectOne_def Let_def dateNow_def)
qed

lemma collectOne_status:
  assumes "rawLeadId (sha256hex B) (disc_raw_data d) \<notin> set seen"
  shows "map_option status
           (getById (leads (fst (collectOne B clock d (st, seen, ps))))
              (rawLeadId (sha256hex B) (disc_raw_data d))) = Some (Val Collected)"
proof -
  from collectOne_leads [OF assms] obtain rows where
    r: "createFromRaw (sha256hex B) (clock (ticks st)) (disc_raw_data d) (disc_source d)
             (getRunId (st\<lparr>processed := processed st + 1\<rparr>)) (leads st) = Inr rows"
    and l: "leads (fst (collectOne B clock d (st, seen, ps)))
             = updateStatus (clock (Suc (ticks st))) (rawLeadId (sha256hex B) (disc_raw_data d))
                 Collected rows"
    by blast
  from r have "\<exists>l. getById rows (rawLeadId (sha256hex B) (disc_raw_data d)) = Some l"
    using upsert_present [of "clock (ticks st)"
        "rawToPartial (sha256hex B) (disc_raw_data d) (disc_source d)
           (getRunId (st\<lparr>processed := processed st + 1\<rparr>))" "leads st" rows]
    by (simp add: createFromRaw_def rawToPartial_sel)
  then show ?thesis
    unfolding l using getById_updateStatus by blast
qed

lemma chunk_single: "0 < n \<Longrightarrow> chunk [x] n = Some [[x]]"
  by (cases n) simp_all

lemma collectExecute_single:
  assumes "discoveries st = [d]" "\<not> disc_processed d" "0 < batchSize cfg"
  shows "\<exists>st'. collectExecute B cfg clock None limit st = Some (None, st')
           \<and> leads st' = leads (fst (collectOne B clock d (st, [], [])))"
proof -
  have g: "getUnprocessed None (Some (stageLimit cfg limit)) (discoveries st) = [d]"
    using assms(1,2) by (cases "stageLimit cfg limit") (simp_all add: getUnprocessed_def)
  obtain st1 seen1 ps1 where c: "collectOne B clock d (st, [], []) = (st1, seen1, ps1)"
    by (cases "collectOne B clock d (st, [], [])") auto
  show ?thesis
    by (simp add: collectExecute_def g chunk_single [OF assms(3)] c)
qed

text \<open>
  C5 does not hold of the code. \<^verbatim>\<open>CollectStage.execute\<close> calls \<^verbatim>\<open>updateStatus(leadId,
  'collected')\<close> after every \<^verbatim>\<open>createFromRaw\<close>, also when the lead already existed: the first
  staged record of a run that names a lead leaves it in \<^verbatim>\<open>collected\<close>, whatever its status
  was. Below, a lead that is \<^verbatim>\<open>scored\<close> with score 45 is staged once more; after the run of
  the collect stage it is \<^verbatim>\<open>collected\<close>, with its score still 45, which is a move from
  \<^verbatim>\<open>scored\<close> back to \<^verbatim>\<open>collected\<close> outside the back-edges the claim lists.
\<close>

theorem recollect_moves_status_back:
  "map_option status
     (getById (leads (fst (collectOne B clock d (st, [], ps))))
        (rawLeadId (sha256hex B) (disc_raw_data d))) = Some (Val Collected)
   \<and> map_option (\<lambda>l. (status l, score l))
       (getById
          [(insertedRow 1000
              (onlyId (rawLeadId (sha256hex B)
                 \<lparr>raw_name = ''Acme Plumbing'', raw_address = None, raw_city = Some ''Austin'',
                  raw_state = Some ''TX'', raw_postalCode = None, raw_country = None,
                  raw_phone = None, raw_email = None, raw_website = None, raw_rating = None,
                  raw_reviewCount = None, raw_categories = None, raw_sourceUrl = None\<rparr>)))
             \<lparr>col_business_name := ''Acme Plumbing'', col_canonical_name := ''acme plumbing'',
              col_status := Some Scored, col_score := Some 45\<rparr>]
          (rawLeadId (sha256hex B)
             \<lparr>raw_name = ''Acme Plumbing'', raw_address = None, raw_city = Some ''Austin'',
              raw_state = Some ''TX'', raw_postalCode = None, raw_country = None,
              raw_phone = None, raw_email = None, raw_website = None, raw_rating = None,
              raw_reviewCount = None, raw_categories = None, raw_sourceUrl = None\<rparr>))
       = Some (Val Scored, Val 45)
   \<and> map_option
        (\<lambda>s. map_option (\<lambda>l. (status l, score l))
           (getById (leads s)
              (rawLeadId (sha256hex B)
                 \<lparr>raw_name = ''Acme Plumbing'', raw_address = None, raw_city = Some ''Austin'',
                  raw_state = Some ''TX'', raw_postalCode = None, raw_country = None,
                  raw_phone = None, raw_email = None, raw_website = None, raw_rating = None,
                  raw_reviewCount = None, raw_categories = None, raw_sourceUrl = None\<rparr>)))
        (runStage clock rid ''collect'' (collectExecute B DEFAULT_CONFIG clock None None)
           (newStage
              [(insertedRow 1000
                  (onlyId (rawLeadId (sha256hex B)
                     \<lparr>raw_name = ''Acme Plumbing'', raw_address = None, raw_city = Some ''Austin'',
                      raw_state = Some ''TX'', raw_postalCode = None, raw_country = None,
                      raw_phone = None, raw_email = None, raw_website = None, raw_rating = None,
                      raw_reviewCount = None, raw_categories = None, raw_sourceUrl = None\<rparr>)))
                 \<lparr>col_business_name := ''Acme Plumbing'', col_canonical_name := ''acme plumbing'',
                  col_status := Some Scored, col_score := Some 45\<rparr>]
              [\<lparr>disc_id = 1, disc_run_id = ''r0'', disc_source = ''yelp'',
                disc_raw_data =
                  \<lparr>raw_name = ''Acme Plumbing'', raw_address = None, raw_city = Some ''Austin'',
                   raw_state = Some ''TX'', raw_postalCode = None, raw_country = None,
                   raw_phone = None, raw_email = None, raw_website = None, raw_rating = None,
                   raw_reviewCount = None, raw_categories = None, raw_sourceUrl = None\<rparr>,
                discovered_at = 900, disc_processed = False\<rparr>]
              [] 0))
       = Some (Some (Val Collected, Val 45))"
proof -
  define raw0 where "raw0 = \<lparr>raw_name = ''Acme Plumbing'', raw_address = None, raw_city = Some ''Austin'',
      raw_state = Some ''TX'', raw_postalCode = None, raw_country = None,
      raw_phone = None, raw_email = None, raw_website = None, raw_rating = None,
      raw_reviewCount = None, raw_categories = None, raw_sourceUrl = None\<rparr>"
  define i0 where "i0 = rawLeadId (sha256hex B) raw0"
  define r0 where "r0 = (insertedRow 1000 (onlyId i0))
      \<lparr>col_business_name := ''Acme Plumbing'', col_canonical_name := ''acme plumbing'',
       col_status := Some Scored, col_score := Some 45\<rparr>"
  define d0 where "d0 = \<lparr>disc_id = 1, disc_run_id = ''r0'', disc_source = ''yelp'', disc_raw_data = raw0,
      discovered_at = 900, disc_processed = False\<rparr>"
  define st0 where "st0 = newStage [r0] [d0] [] 0"
  define st2 where "st2 = tick ((tick st0)\<lparr>runs := runStart (dateNow clock (tick st0))
      (rid (dateNow clock st0)) ''collect'' (runs (tick st0)), run := Some (rid (dateNow clock st0))\<rparr>)"
  have a: "map_option status
     (getById (leads (fst (collectOne B clock d (st, [], ps))))
        (rawLeadId (sha256hex B) (disc_raw_data d))) = Some (Val Collected)"
    by (rule collectOne_status) simp
  have b: "map_option (\<lambda>l. (status l, score l)) (getById [r0] i0) = Some (Val Scored, Val 45)"
    by (simp add: r0_def getById_def insertedRow_def onlyId_def rowToLead_def)
  have ds: "discoveries st2 = [d0]" "\<not> disc_processed d0" "0 < batchSize DEFAULT_CONFIG"
    "leads st2 = [r0]" "disc_raw_data d0 = raw0" "disc_source d0 = ''yelp''"
    by (simp_all add: st2_def st0_def d0_def newStage_def tick_def DEFAULT_CONFIG_def)
  from collectExecute_single [OF ds(1,2,3), of B clock None] obtain st' where
    e: "collectExecute B DEFAULT_CONFIG clock None None st2 = Some (None, st')"
    and l: "leads st' = leads (fst (collectOne B clock d0 (st2, [], [])))"
    by blast
  have ns: "rawLeadId (sha256hex B) (disc_raw_data d0) \<notin> set []" by simp
  from collectOne_leads [OF ns, of clock st2 "[]"] obtain rows where
    c: "createFromRaw (sha256hex B) (clock (ticks st2)) raw0 ''yelp''
          (getRunId (st2\<lparr>processed := processed st2 + 1\<rparr>)) [r0] = Inr rows"
    and l2: "leads (fst (collectOne B clock d0 (st2, [], [])))
          = updateStatus (clock (Suc (ticks st2))) i0 Collected rows"
    unfolding ds i0_def by blast
  have g: "getById [r0] i0 = Some (rowToLead r0)"
    by (simp add: r0_def getById_def insertedRow_def onlyId_def)
  have ri: "col_lead_id r0 = i0" by (simp add: r0_def insertedRow_def onlyId_def)
  have rn: "raw_name raw0 = ''Acme Plumbing''" by (simp add: raw0_def)
  from c have rows: "rows = [updatedColumns (clock (ticks st2)) (rowToLead r0)
        (rawToPartial (sha256hex B) raw0 ''yelp'' (getRunId (st2\<lparr>processed := processed st2 + 1\<rparr>)))
        ''Acme Plumbing'' (canonicalizeName ''Acme Plumbing'') r0]"
    unfolding createFromRaw_def
    by (simp add: upsert_def rawToPartial_sel g [unfolded i0_def] updateWhere_def ri [unfolded i0_def] rn)
  have f: "map_option (\<lambda>l. (status l, score l)) (getById (leads st') i0)
      = Some (Val Collected, Val 45)"
    unfolding l l2 rows
    by (simp add: updateStatus_def updateWhere_def getById_def updatedColumns_def r0_def
        insertedRow_sel onlyId_def rowToLead_def rawToPartial_def insertedRow_def rawLeadId_def i0_def)
  have "map_option (\<lambda>s. map_option (\<lambda>l. (status l, score l)) (getById (leads s) i0))
        (runStage clock rid ''collect'' (collectExecute B DEFAULT_CONFIG clock None None) st0)
       = Some (Some (Val Collected, Val 45))"
    unfolding runStage_def Let_def e [unfolded st2_def]
    by (simp add: f)
  with a b show ?thesis
    unfolding st0_def d0_def r0_def i0_def raw0_def by (intro conjI)
qed

section \<open>Contact fields under \<^verbatim>\<open>upsert\<close>\<close>

lemma upsert_existing_contact:
  assumes "getById rows (p_leadId p) = Some existing"
    and "upsert now p rows = Inr rows'"
  shows "\<exists>l. getById rows' (p_leadId p) = Some l
          \<and> email l = column (sanitize (spread (email existing) (p_email p)))
          \<and> phone l = column (sanitize (spread (phone existing) (p_phone p)))
          \<and> website l = column (sanitize (spread (website existing) (p_website p)))"
proof -
  from assms(1) obtain r0 where r0: "find (\<lambda>r. col_lead_id r = p_leadId p) rows = Some r0"
    "existing = rowToLead r0" "col_lead_id r0 = p_leadId p"
    using getById_Some by blast
  from assms obtain bn cn where
    rows': "rows' = updateWhere (p_leadId p) (updatedColumns now existing p bn cn) rows"
    by (auto simp: upsert_def split: js.splits)
  have "find (\<lambda>r. col_lead_id r = p_leadId p) rows'
      = Some (updatedColumns now existing p bn cn r0)"
    unfolding rows' by (simp add: find_updateWhere updatedColumns_keeps r0)
  then have "getById rows' (p_leadId p) = Some (rowToLead (updatedColumns now existing p bn cn r0))"
    by (simp add: getById_def)
  moreover have "col_email (updatedColumns now existing p bn cn r0)
        = sanitize (spread (email existing) (p_email p))"
    "col_phone (updatedColumns now existing p bn cn r0)
        = sanitize (spread (phone existing) (p_phone p))"
    "col_website (updatedColumns now existing p bn cn r0)
        = sanitize (spread (website existing) (p_website p))"
    by (simp_all add: updatedColumns_def)
  ultimately show ?thesis
    by (simp add: rowToLead_sel)
qed

text \<open>
  C10. \<^verbatim>\<open>upsert\<close> on an existing lead stores NULL in the columns \<^verbatim>\<open>email\<close>, \<^verbatim>\<open>phone\<close>
  and \<^verbatim>\<open>website\<close> whose key is present in the argument and holds \<^verbatim>\<open>undefined\<close>: the spread
  takes the key from the argument, and the statement wrapper binds \<^verbatim>\<open>undefined\<close> as NULL.
  \<^verbatim>\<open>createFromRaw\<close> always passes the three keys, so collecting once more a business whose
  raw record lacks them erases what the lead held, also an email or a phone the enrich
  stage promoted onto the lead.
\<close>

theorem upsert_undefined_erases:
  "(getById rows (p_leadId p) = Some existing \<longrightarrow> upsert now p rows = Inr rows' \<longrightarrow>
      (\<exists>l. getById rows' (p_leadId p) = Some l
         \<and> (p_email p = Undef \<longrightarrow> email l = Null)
         \<and> (p_phone p = Undef \<longrightarrow> phone l = Null)
         \<and> (p_website p = Undef \<longrightarrow> website l = Null)))
   \<and> (getById rows (rawLeadId H raw) = Some existing \<longrightarrow>
       (\<exists>rows'' l. createFromRaw H now raw src rn rows = Inr rows''
          \<and> getById rows'' (rawLeadId H raw) = Some l
          \<and> (raw_email raw = None \<longrightarrow> email l = Null)
          \<and> (raw_phone raw = None \<longrightarrow> phone l = Null)
          \<and> (raw_website raw = None \<longrightarrow> website l = Null)))"
proof (intro conjI impI)
  assume "getById rows (p_leadId p) = Some existing" and "upsert now p rows = Inr rows'"
  from upsert_existing_contact [OF this] obtain l where
    l: "getById rows' (p_leadId p) = Some l"
    "email l = column (sanitize (spread (email existing) (p_email p)))"
    "phone l = column (sanitize (spread (phone existing) (p_phone p)))"
    "website l = column (sanitize (spread (website existing) (p_website p)))"
    by blast
  have "(p_email p = Undef \<longrightarrow> email l = Null) \<and> (p_phone p = Undef \<longrightarrow> phone l = Null)
      \<and> (p_website p = Undef \<longrightarrow> website l = Null)"
    by (simp add: l)
  with l(1) show "\<exists>l. getById rows' (p_leadId p) = Some l
         \<and> (p_email p = Undef \<longrightarrow> email l = Null)
         \<and> (p_phone p = Undef \<longrightarrow> phone l = Null)
         \<and> (p_website p = Undef \<longrightarrow> website l = Null)"
    by blast
next
  assume e: "getById rows (rawLeadId H raw) = Some existing"
  define q where "q = rawToPartial H raw src rn"
  have q: "p_leadId q = rawLeadId H raw" "p_email q = passKey (raw_email raw)"
    "p_phone q = passKey (raw_phone raw)" "p_website q = passKey (raw_website raw)"
    by (simp_all add: q_def rawToPartial_sel)
  obtain rows'' where c: "createFromRaw H now raw src rn rows = Inr rows''"
    using createFromRaw_total by blast
  then have u: "upsert now q rows = Inr rows''"
    by (simp add: createFromRaw_def q_def)
  from e have e': "getById rows (p_leadId q) = Some existing" by (simp add: q)
  from upsert_existing_contact [OF e' u] obtain l where
    l: "getById rows'' (rawLeadId H raw) = Some l"
    "email l = column (sanitize (spread (email existing) (p_email q)))"
    "phone l = column (sanitize (spread (phone existing) (p_phone q)))"
    "website l = column (sanitize (spread (website existing) (p_website q)))"
    unfolding q(1) by blast
  have h: "raw_email raw = None \<longrightarrow> email l = Null" "raw_phone raw = None \<longrightarrow> phone l = Null"
    "raw_website raw = None \<longrightarrow> website l = Null"
    by (simp_all add: l q)
  show "\<exists>rows'' l. createFromRaw H now raw src rn rows = Inr rows''
          \<and> getById rows'' (rawLeadId H raw) = Some l
          \<and> (raw_email raw = None \<longrightarrow> email l = Null)
          \<and> (raw_phone raw = None \<longrightarrow> phone l = Null)
          \<and> (raw_website raw = None \<longrightarrow> website l = Null)"
    apply (rule exI [of _ rows''], rule exI [of _ l])
    using c l(1) h by (intro conjI)
qed

lemma enrich_fixture:
  fixes i :: string
  defines "r0 \<equiv> (insertedRow 1000 (onlyId i))
      \<lparr>col_business_name := ''Acme Plumbing'', col_canonical_name := ''acme plumbing'',
       col_website := Some ''acme.test'', col_status := Some Filtered\<rparr>"
  shows "\<exists>r. leads (enrichOne
            (\<lambda>u j. Data \<lparr>w_emails = [''info@acme.test''], w_phones = [''555-0100''],
               w_hasOnlineBooking = False, w_pageTitle = None, w_socialLinks = None\<rparr>)
            (\<lambda>n. 2000 + int n) (rowToLead r0) (newStage [r0] [] [] 0)) = [r]
          \<and> col_lead_id r = i \<and> col_email r = Some ''info@acme.test''
          \<and> col_phone r = Some ''555-0100'' \<and> col_website r = Some ''acme.test''
          \<and> col_status r = Some Enriched"
proof -
  let ?scrape = "\<lambda>(u::string) (j::string). Data \<lparr>w_emails = [''info@acme.test''], w_phones = [''555-0100''],
               w_hasOnlineBooking = False, w_pageTitle = None, w_socialLinks = None\<rparr>"
  have f: "leadId (rowToLead r0) = i" "website (rowToLead r0) = Val ''acme.test''"
    "email (rowToLead r0) = Null" "phone (rowToLead r0) = Null"
    "enrichmentData (rowToLead r0) = Undefined" "col_lead_id r0 = i"
    by (simp_all add: r0_def rowToLead_def insertedRow_def onlyId_def)
  define e1 where "e1 = mergeWebsiteData emptyEnrichment
      \<lparr>w_emails = [''info@acme.test''], w_phones = [''555-0100''],
               w_hasOnlineBooking = False, w_pageTitle = None, w_socialLinks = None\<rparr>"
  have e1: "emails e1 = [''info@acme.test'']" "phones e1 = [''555-0100'']"
    by (simp_all add: e1_def mergeWebsiteData_def emptyEnrichment_def)
  define ra where "ra = r0\<lparr>col_enrichment_data := Some e1, col_updated_at := 2000\<rparr>"
  have s1: "updateEnrichment 2000 i e1 [r0] = [ra]"
    by (simp add: updateEnrichment_def updateWhere_def f ra_def)
  have ga: "getById [ra] i = Some (rowToLead ra)"
    by (simp add: getById_def ra_def f)
  define rb where "rb = updatedColumns 2001 (rowToLead ra)
      ((onlyId i)\<lparr>p_email := Given ''info@acme.test''\<rparr>) ''Acme Plumbing'' ''acme plumbing'' ra"
  have s2: "upsert 2001 ((onlyId i)\<lparr>p_email := Given ''info@acme.test''\<rparr>) [ra] = Inr [rb]"
    by (simp add: upsert_def onlyId_def ga [unfolded onlyId_def] updateWhere_def rb_def)
       (simp add: ra_def r0_def rowToLead_def insertedRow_def onlyId_def)
  have col_rb: "col_lead_id rb = i" by (simp add: rb_def updatedColumns_keeps ra_def f)
  have gb: "getById [rb] i = Some (rowToLead rb)"
    by (simp add: getById_def col_rb)
  have nb: "businessName (rowToLead rb) = ''Acme Plumbing''"
    "canonicalName (rowToLead rb) = ''acme plumbing''"
    by (simp_all add: rowToLead_sel rb_def updatedColumns_def)
  define rc where "rc = updatedColumns 2002 (rowToLead rb)
      ((onlyId i)\<lparr>p_phone := Given ''555-0100''\<rparr>) ''Acme Plumbing'' ''acme plumbing'' rb"
  have s3: "upsert 2002 ((onlyId i)\<lparr>p_phone := Given ''555-0100''\<rparr>) [rb] = Inr [rc]"
    by (simp add: upsert_def onlyId_def gb [unfolded onlyId_def] updateWhere_def rc_def col_rb nb)
  have col_rc: "col_lead_id rc = i" by (simp add: rc_def updatedColumns_keeps col_rb)
  define rd where "rd = rc\<lparr>col_status := Some Enriched, col_updated_at := 2003\<rparr>"
  have s4: "updateStatus 2003 i Enriched [rc] = [rd]"
    by (simp add: updateStatus_def updateWhere_def col_rc rd_def)
  have l: "enrichLead ?scrape (\<lambda>n. 2000 + int n) (rowToLead r0)
        ((newStage [r0] [] [] 0)\<lparr>processed := 1\<rparr>)
      = (None, (newStage [rd] [] [] 4)\<lparr>processed := 1\<rparr>)"
    by (simp add: enrichLead_def f e1_def [symmetric] Let_def onLeads_def tick_def dateNow_def
        newStage_def s1 e1 promote_def s2 s3 s4 normalizeUrl_def)
  have "leads (enrichOne ?scrape (\<lambda>n. 2000 + int n) (rowToLead r0) (newStage [r0] [] [] 0)) = [rd]"
    by (simp add: enrichOne_def Let_def l [unfolded newStage_def, simplified] newStage_def updateProgress_def)
  moreover have "col_lead_id rd = i" "col_email rd = Some ''info@acme.test''"
    "col_phone rd = Some ''555-0100''" "col_website rd = Some ''acme.test''"
    "col_status rd = Some Enriched"
    by (simp_all add: rd_def rc_def rb_def ra_def updatedColumns_def rowToLead_def r0_def
        insertedRow_def onlyId_def)
  ultimately show ?thesis by blast
qed

text \<open>
  An instance: the enrich stage promotes the email and the phone it scraped onto a lead,
  and a second collection of the business from a raw record without contact data erases
  them, and the website with them.
\<close>

theorem upsert_undefined_erases_witness:
  "\<forall>H. \<exists>i rows1.
     i = rawLeadId H
           \<lparr>raw_name = ''Acme Plumbing'', raw_address = None, raw_city = Some ''Austin'',
            raw_state = Some ''TX'', raw_postalCode = None, raw_country = None, raw_phone = None,
            raw_email = None, raw_website = None, raw_rating = None, raw_reviewCount = None,
            raw_categories = None, raw_sourceUrl = None\<rparr>
     \<and> rows1 = leads (enrichOne
            (\<lambda>u j. Data \<lparr>w_emails = [''info@acme.test''], w_phones = [''555-0100''],
               w_hasOnlineBooking = False, w_pageTitle = None, w_socialLinks = None\<rparr>)
            (\<lambda>n. 2000 + int n)
            (rowToLead ((insertedRow 1000 (onlyId i))
               \<lparr>col_business_name := ''Acme Plumbing'', col_canonical_name := ''acme plumbing'',
                col_website := Some ''acme.test'', col_status := Some Filtered\<rparr>))
            (newStage [(insertedRow 1000 (onlyId i))
               \<lparr>col_business_name := ''Acme Plumbing'', col_canonical_name := ''acme plumbing'',
                col_website := Some ''acme.test'', col_status := Some Filtered\<rparr>] [] [] 0))
     \<and> map_option (\<lambda>l. (email l, phone l, website l)) (getById rows1 i)
         = Some (Val ''info@acme.test'', Val ''555-0100'', Val ''acme.test'')
     \<and> (\<exists>rows2 l. createFromRaw H 5000
            \<lparr>raw_name = ''Acme Plumbing'', raw_address = None, raw_city = Some ''Austin'',
             raw_state = Some ''TX'', raw_postalCode = None, raw_country = None, raw_phone = None,
             raw_email = None, raw_website = None, raw_rating = None, raw_reviewCount = None,
             raw_categories = None, raw_sourceUrl = None\<rparr> ''yelp'' ''run2'' rows1 = Inr rows2
          \<and> getById rows2 i = Some l
          \<and> email l = Null \<and> phone l = Null \<and> website l = Null)
     \<and> (\<exists>rows2 l. upsert 5000 ((onlyId i)\<lparr>p_email := Undef\<rparr>) rows1 = Inr rows2
          \<and> getById rows2 i = Some l \<and> email l = Null)"
proof
  fix H
  define raw0 where "raw0 = \<lparr>raw_name = ''Acme Plumbing'', raw_address = None, raw_city = Some ''Austin'',
            raw_state = Some ''TX'', raw_postalCode = None, raw_country = None, raw_phone = None,
            raw_email = None, raw_website = None, raw_rating = None, raw_reviewCount = None,
            raw_categories = None, raw_sourceUrl = None\<rparr>"
  define i where "i = rawLeadId H raw0"
  define r0 where "r0 = (insertedRow 1000 (onlyId i))
               \<lparr>col_business_name := ''Acme Plumbing'', col_canonical_name := ''acme plumbing'',
                col_website := Some ''acme.test'', col_status := Some Filtered\<rparr>"
  define rows1 where "rows1 = leads (enrichOne
            (\<lambda>u j. Data \<lparr>w_emails = [''info@acme.test''], w_phones = [''555-0100''],
               w_hasOnlineBooking = False, w_pageTitle = None, w_socialLinks = None\<rparr>)
            (\<lambda>n. 2000 + int n) (rowToLead r0) (newStage [r0] [] [] 0))"
  from enrich_fixture [of i] obtain r where r: "rows1 = [r]" "col_lead_id r = i"
    "col_email r = Some ''info@acme.test''" "col_phone r = Some ''555-0100''"
    "col_website r = Some ''acme.test''"
    unfolding rows1_def r0_def by blast
  have g: "getById rows1 i = Some (rowToLead r)"
    by (simp add: r getById_def)
  have 1: "map_option (\<lambda>l. (email l, phone l, website l)) (getById rows1 i)
         = Some (Val ''info@acme.test'', Val ''555-0100'', Val ''acme.test'')"
    unfolding g by (simp add: rowToLead_sel r(2-5))
  have n: "raw_email raw0 = None" "raw_phone raw0 = None" "raw_website raw0 = None"
    by (simp_all add: raw0_def)
  from upsert_undefined_erases [of rows1 "(onlyId i)\<lparr>p_email := Undef\<rparr>" "rowToLead r" 5000 rows1
      H raw0 "''yelp''" "''run2''", THEN conjunct2, rule_format, OF g [unfolded i_def]]
  obtain rows2 l where c: "createFromRaw H 5000 raw0 ''yelp'' ''run2'' rows1 = Inr rows2"
    "getById rows2 (rawLeadId H raw0) = Some l" "raw_email raw0 = None \<longrightarrow> email l = Null"
    "raw_phone raw0 = None \<longrightarrow> phone l = Null" "raw_website raw0 = None \<longrightarrow> website l = Null"
    by (elim exE conjE) (rule that; assumption)
  from c(3-5) n have c': "email l = Null" "phone l = Null" "website l = Null"
    by simp_all
  have 2: "\<exists>rows2 l. createFromRaw H 5000 raw0 ''yelp'' ''run2'' rows1 = Inr rows2
          \<and> getById rows2 i = Some l \<and> email l = Null \<and> phone l = Null \<and> website l = Null"
    apply (rule exI [of _ rows2], rule exI [of _ l])
    using c(1) c(2) [folded i_def] c' by (intro conjI)
  define p where "p = (onlyId i)\<lparr>p_email := Undef\<rparr>"
  have p: "p_leadId p = i" "p_email p = Undef" "p_businessName p \<noteq> Undef"
    "p_canonicalName p \<noteq> Undef"
    by (simp_all add: p_def onlyId_def)
  have g': "getById rows1 (p_leadId p) = Some (rowToLead r)"
    using g by (simp only: p(1))
  from upsert_existing_total [OF g', of 5000] p(3,4) obtain rows3 where
    u: "upsert 5000 p rows1 = Inr rows3"
    by blast
  from upsert_undefined_erases [of rows1 p "rowToLead r" 5000 rows3 H raw0 "''yelp''" "''run2''",
      THEN conjunct1, rule_format, OF g' u]
  obtain l3 where l3: "getById rows3 (p_leadId p) = Some l3"
    "p_email p = Undef \<longrightarrow> email l3 = Null"
    by (elim exE conjE) (rule that; assumption)
  from l3(2) p(2) have "email l3 = Null" by simp
  with u l3(1) [unfolded p(1)] have 3: "\<exists>rows2 l. upsert 5000 p rows1 = Inr rows2
          \<and> getById rows2 i = Some l \<and> email l = Null"
    by blast
  show "\<exists>i rows1.
     i = rawLeadId H
           \<lparr>raw_name = ''Acme Plumbing'', raw_address = None, raw_city = Some ''Austin'',
            raw_state = Some ''TX'', raw_postalCode = None, raw_country = None, raw_phone = None,
            raw_email = None, raw_website = None, raw_rating = None, raw_reviewCount = None,
            raw_categories = None, raw_sourceUrl = None\<rparr>
     \<and> rows1 = leads (enrichOne
            (\<lambda>u j. Data \<lparr>w_emails = [''info@acme.test''], w_phones = [''555-0100''],
               w_hasOnlineBooking = False, w_pageTitle = None, w_socialLinks = None\<rparr>)
            (\<lambda>n. 2000 + int n)
            (rowToLead ((insertedRow 1000 (onlyId i))
               \<lparr>col_business_name := ''Acme Plumbing'', col_canonical_name := ''acme plumbing'',
                col_website := Some ''acme.test'', col_status := Some Filtered\<rparr>))
            (newStage [(insertedRow 1000 (onlyId i))
               \<lparr>col_business_name := ''Acme Plumbing'', col_canonical_name := ''acme plumbing'',
                col_website := Some ''acme.test'', col_status := Some Filtered\<rparr>] [] [] 0))
     \<and> map_option (\<lambda>l. (email l, phone l, website l)) (getById rows1 i)
         = Some (Val ''info@acme.test'', Val ''555-0100'', Val ''acme.test'')
     \<and> (\<exists>rows2 l. createFromRaw H 5000
            \<lparr>raw_name = ''Acme Plumbing'', raw_address = None, raw_city = Some ''Austin'',
             raw_state = Some ''TX'', raw_postalCode = None, raw_country = None, raw_phone = None,
             raw_email = None, raw_website = None, raw_rating = None, raw_reviewCount = None,
             raw_categories = None, raw_sourceUrl = None\<rparr> ''yelp'' ''run2'' rows1 = Inr rows2
          \<and> getById rows2 i = Some l
          \<and> email l = Null \<and> phone l = Null \<and> website l = Null)
     \<and> (\<exists>rows2 l. upsert 5000 ((onlyId i)\<lparr>p_email := Undef\<rparr>) rows1 = Inr rows2
          \<and> getById rows2 i = Some l \<and> email l = Null)"
    apply (rule exI [of _ i], rule exI [of _ rows1])
    using i_def [unfolded raw0_def] rows1_def [unfolded r0_def] 1 2 [unfolded raw0_def]
      3 [unfolded p_def]
    by (intro conjI)
qed

section \<open>Selection order and progress\<close>

lemma filter_changed:
  assumes "list_all2 (\<lambda>r r'. if r \<in> B then \<not> P' r' else r' = r \<and> P' r = P r) rows rows'"
  shows "filter P' rows' = filter (\<lambda>r. P r \<and> r \<notin> B) rows"
  using assms by (induction rule: list_all2_induct) (auto split: if_splits)

lemma filter_not_prefix:
  assumes "distinct (map f (ys @ zs))"
  shows "filter (\<lambda>x. f x \<notin> f ` set ys) (ys @ zs) = zs"
proof -
  from assms have "f ` set ys \<inter> f ` set zs = {}" by simp
  then show ?thesis by (auto simp: filter_empty_conv filter_id_conv)
qed

lemma filter_not_taken:
  assumes "distinct (map f xs)"
  shows "filter (\<lambda>x. f x \<notin> f ` set (take k xs)) xs = drop k xs"
  using filter_not_prefix [of f "take k xs" "drop k xs"] assms by simp

lemma applyLimit_take: "\<exists>k. applyLimit limit xs = take k xs \<and> k \<le> length xs"
proof (cases limit)
  case None
  then show ?thesis by (intro exI [of _ "length xs"]) simp
next
  case (Some n)
  show ?thesis
  proof (cases "n \<le> 0")
    case True
    with Some show ?thesis by (intro exI [of _ "length xs"]) auto
  next
    case False
    with Some have "applyLimit limit xs = take (min (nat n) (length xs)) xs"
      by (cases "nat n \<le> length xs") (simp_all add: min_def)
    then show ?thesis by (intro exI [of _ "min (nat n) (length xs)"]) simp
  qed
qed

lemma distinct_filter_ids:
  "distinct (map col_lead_id rows) \<Longrightarrow> distinct (map col_lead_id (filter P rows))"
  by (simp add: distinct_map_filter)

lemma next_batch:
  assumes m: "map_of statusMap stg = Some statuses"
    and d: "distinct (map col_lead_id rows)"
    and b: "getLeadsForStage now stg limit rows = Inr batch"
    and c: "list_all2 (\<lambda>r r'. if col_lead_id r \<in> leadId ` set batch
                then \<not> eligible now' statuses r'
                else r' = r \<and> eligible now' statuses r = eligible now statuses r) rows rows'"
  shows "getLeadsForStage now' stg limit rows'
      = Inr (map rowToLead (applyLimit limit
               (drop (length batch) (filter (eligible now statuses) rows))))"
proof -
  let ?E = "filter (eligible now statuses) rows"
  from b m have batch: "batch = map rowToLead (applyLimit limit ?E)"
    by (simp add: getLeadsForStage_def)
  obtain k where k: "applyLimit limit ?E = take k ?E" "k \<le> length ?E"
    using applyLimit_take by blast
  have ids: "leadId ` set batch = col_lead_id ` set (take k ?E)"
    by (simp add: batch k image_image rowToLead_sel)
  have len: "length batch = k" by (simp add: batch k)
  let ?B = "{r. col_lead_id r \<in> leadId ` set batch}"
  from c have "list_all2 (\<lambda>r r'. if r \<in> ?B then \<not> eligible now' statuses r'
      else r' = r \<and> eligible now' statuses r = eligible now statuses r) rows rows'"
    by simp
  then have "filter (eligible now' statuses) rows'
      = filter (\<lambda>r. eligible now statuses r \<and> r \<notin> ?B) rows"
    by (rule filter_changed)
  also have "\<dots> = filter (\<lambda>r. col_lead_id r \<notin> col_lead_id ` set (take k ?E)) ?E"
    by (simp add: ids conj_commute)
  also have "\<dots> = drop k ?E"
    by (rule filter_not_taken) (rule distinct_filter_ids [OF d])
  finally show ?thesis
    by (simp add: getLeadsForStage_def m len)
qed

lemma selection_subseq:
  assumes "map_of statusMap stg = Some statuses"
    and "getLeadsForStage now stg limit rows = Inr batch"
  shows "subseq batch (map rowToLead rows)"
proof -
  let ?E = "filter (eligible now statuses) rows"
  from assms have batch: "batch = map rowToLead (applyLimit limit ?E)"
    by (simp add: getLeadsForStage_def)
  obtain k where k: "applyLimit limit ?E = take k ?E"
    using applyLimit_take by blast
  have "subseq (take k ?E) ?E" by (simp add: prefix_imp_subseq take_is_prefix)
  then have "subseq (take k ?E) rows" using subseq_filter_left subseq_order.trans by blast
  then show ?thesis unfolding batch k by (rule subseq_map)
qed

lemma outputOne_other:
  "j \<noteq> leadId lead \<Longrightarrow>
     find (\<lambda>r. col_lead_id r = j) (leads (outputOne B cfg clock lead st))
       = find (\<lambda>r. col_lead_id r = j) (leads st)"
  by (simp add: outputOne_def Let_def)

lemma outputLoop_other:
  "j \<notin> leadId ` set ls \<Longrightarrow>
     find (\<lambda>r. col_lead_id r = j) (leads (outputLoop B cfg clock ls st))
       = find (\<lambda>r. col_lead_id r = j) (leads st)"
  by (induction ls arbitrary: st) (auto simp: outputOne_other)

lemma outputExecute_leads:
  assumes "getLeadsForStage (clock (ticks st)) ''output'' (Some (stageLimit cfg cap)) (leads st)
      = Inr sel"
  shows "\<exists>e st'. outputExecute B fs cfg clock cap formatArg minScoreArg st = Some (e, st')
      \<and> (leads st' = leads st
          \<or> (\<exists>sx. leads sx = leads st
                \<and> leads st' = leads (outputLoop B cfg clock
                     (filter (\<lambda>lead. of_int (scoreOrZero (score lead))
                                  \<ge> outputMinScore cfg minScoreArg) sel) sx)))"
proof -
  let ?ls = "filter (\<lambda>lead. of_int (scoreOrZero (score lead)) \<ge> outputMinScore cfg minScoreArg) sel"
  define st2 where "st2 = tick (tick st)"
  define st3 where "st3 = tick st2"
  define st4 where "st4 = tick st3"
  have l: "leads st2 = leads st" "leads st3 = leads st" "leads st4 = leads st"
    "leads (tick st) = leads st"
    by (simp_all add: st2_def st3_def st4_def)
  have "\<exists>e st'. outputExecute B fs cfg clock cap formatArg minScoreArg st = Some (e, st')
      \<and> (leads st' = leads st
          \<or> st' = outputLoop B cfg clock ?ls st3 \<or> st' = outputLoop B cfg clock ?ls st4)"
    using assms
    by (simp add: outputExecute_def dateNow_def Let_def st2_def [symmetric] st3_def [symmetric]
        st4_def [symmetric] l split: option.splits)
  then obtain e st' where x: "outputExecute B fs cfg clock cap formatArg minScoreArg st = Some (e, st')"
    and y: "leads st' = leads st
          \<or> st' = outputLoop B cfg clock ?ls st3 \<or> st' = outputLoop B cfg clock ?ls st4"
    by blast
  from y l(2,3) have "leads st' = leads st
      \<or> (\<exists>sx. leads sx = leads st \<and> leads st' = leads (outputLoop B cfg clock ?ls sx))"
    by blast
  with x show ?thesis by blast
qed

lemma outputExecute_empty:
  assumes "getLeadsForStage (clock (ticks st)) ''output'' (Some (stageLimit cfg cap)) (leads st)
      = Inr sel"
    and "\<forall>l \<in> set sel. of_int (scoreOrZero (score l)) < outputMinScore cfg minScoreArg"
  shows "outputExecute B fs cfg clock cap formatArg minScoreArg st = Some (None, tick st)"
proof -
  from assms(2) have "filter (\<lambda>lead. of_int (scoreOrZero (score lead))
      \<ge> outputMinScore cfg minScoreArg) sel = []"
    by (auto simp: filter_empty_conv)
  with assms(1) show ?thesis
    by (simp add: outputExecute_def dateNow_def)
qed

lemma selected_eligible:
  assumes "map_of statusMap stg = Some statuses"
    and "getLeadsForStage now stg limit rows = Inr ls" and "lead \<in> set ls"
  shows "\<exists>r. r \<in> set rows \<and> lead = rowToLead r \<and> eligible now statuses r"
proof -
  from assms(1,2) have "ls = map rowToLead (applyLimit limit (filter (eligible now statuses) rows))"
    by (simp add: getLeadsForStage_def)
  with assms(3) show ?thesis
    using applyLimit_subset by fastforce
qed

lemma eligible_later:
  "eligible t statuses r \<Longrightarrow> t \<le> t' \<Longrightarrow> eligible t' statuses r"
  by (auto simp: eligible_def split: option.splits)

lemma distinct_same:
  "distinct (map f xs) \<Longrightarrow> x \<in> set xs \<Longrightarrow> y \<in> set xs \<Longrightarrow> f x = f y \<Longrightarrow> x = y"
  by (meson distinct_map inj_onD)

lemma output_keeps_below:
  assumes d: "distinct (map col_lead_id (leads st))"
    and s: "getLeadsForStage (clock (ticks st)) ''output'' (Some (stageLimit cfg cap)) (leads st)
      = Inr sel"
    and x: "outputExecute B fs cfg clock cap formatArg minScoreArg st = Some (e, st')"
    and l: "l \<in> set sel"
    and b: "of_int (scoreOrZero (score l)) < outputMinScore cfg minScoreArg"
  shows "getById (leads st') (leadId l) = Some l"
    and "\<forall>t \<ge> clock (ticks st). \<exists>ls. getLeadsForStage t ''output'' None (leads st') = Inr ls
           \<and> l \<in> set ls"
proof -
  let ?ls = "filter (\<lambda>lead. of_int (scoreOrZero (score lead)) \<ge> outputMinScore cfg minScoreArg) sel"
  have m: "map_of statusMap ''output'' = Some [Scored]" by (simp add: statusMap_def)
  from selected_eligible [OF m s l] obtain r where
    r: "r \<in> set (leads st)" "l = rowToLead r" "eligible (clock (ticks st)) [Scored] r"
    by blast
  have i: "leadId l = col_lead_id r" by (simp add: r(2) rowToLead_sel)
  from find_distinct [OF d r(1)]
  have f: "find (\<lambda>x. col_lead_id x = leadId l) (leads st) = Some r" by (simp add: i)
  have ds: "distinct (map leadId sel)" using selected_distinct [OF s d] .
  have n: "leadId l \<notin> leadId ` set ?ls"
  proof
    assume "leadId l \<in> leadId ` set ?ls"
    then obtain l' where l': "l' \<in> set ?ls" "leadId l = leadId l'" by auto
    then have "l' \<in> set sel" by simp
    from distinct_same [OF ds l this l'(2)] l'(1) b show False by simp
  qed
  from outputExecute_leads [where clock = clock and st = st and cfg = cfg and cap = cap
      and sel = sel and B = B and fs = fs and formatArg = formatArg
      and minScoreArg = minScoreArg, OF s] x
  have "leads st' = leads st
      \<or> (\<exists>sx. leads sx = leads st \<and> leads st' = leads (outputLoop B cfg clock ?ls sx))"
    by simp
  then have f': "find (\<lambda>x. col_lead_id x = leadId l) (leads st') = Some r"
    using f outputLoop_other [OF n] by auto
  then show "getById (leads st') (leadId l) = Some l"
    by (simp add: getById_def r(2))
  from f' have in': "r \<in> set (leads st')" by (auto simp: find_Some_iff in_set_conv_nth)
  show "\<forall>t \<ge> clock (ticks st). \<exists>ls. getLeadsForStage t ''output'' None (leads st') = Inr ls
           \<and> l \<in> set ls"
  proof (intro allI impI)
    fix t assume "clock (ticks st) \<le> t"
    with r(3) have "eligible t [Scored] r" by (rule eligible_later)
    with in' have "l \<in> set (map rowToLead (filter (eligible t [Scored]) (leads st')))"
      by (auto simp: r(2))
    then show "\<exists>ls. getLeadsForStage t ''output'' None (leads st') = Inr ls \<and> l \<in> set ls"
      by (simp add: getLeadsForStage_def m)
  qed
qed

text \<open>
  C9 (amended). For a stage of the status map, \<^verbatim>\<open>getLeadsForStage\<close> returns the rows
  eligible for the stage in the order of the table, cut at the limit, and keeps no cursor.
  When every lead of one selection has been made ineligible and no other row has changed,
  at a time that leaves the eligibility of the other rows as it was, the next selection
  is the next stretch of the eligible rows, in the same order. A run of the output stage
  on a table with unique keys returns, and it leaves every selected lead whose score is
  below its minimum score as it was, eligible for output at every later time; when every
  selected lead is below the minimum, it leaves the whole table as it was, and the same
  selection on the table after the run returns the same leads.
\<close>

theorem getLeadsForStage_progress:
  "(map_of statusMap stg = Some statuses \<longrightarrow> getLeadsForStage now stg limit rows = Inr batch \<longrightarrow>
      batch = map rowToLead (applyLimit limit (filter (eligible now statuses) rows))
      \<and> subseq batch (map rowToLead rows)
      \<and> (distinct (map col_lead_id rows) \<longrightarrow>
          list_all2 (\<lambda>r r'. if col_lead_id r \<in> leadId ` set batch
                then \<not> eligible now' statuses r'
                else r' = r \<and> eligible now' statuses r = eligible now statuses r) rows rows' \<longrightarrow>
          getLeadsForStage now' stg limit rows'
            = Inr (map rowToLead (applyLimit limit
                     (drop (length batch) (filter (eligible now statuses) rows))))))
   \<and> (distinct (map col_lead_id (leads st)) \<longrightarrow>
       getLeadsForStage (clock (ticks st)) ''output'' (Some (stageLimit cfg cap)) (leads st)
         = Inr sel \<longrightarrow>
       (\<exists>e st'. outputExecute B fs cfg clock cap formatArg minScoreArg st = Some (e, st')
          \<and> (\<forall>l \<in> set sel. of_int (scoreOrZero (score l)) < outputMinScore cfg minScoreArg \<longrightarrow>
                getById (leads st') (leadId l) = Some l
                \<and> (\<forall>t \<ge> clock (ticks st).
                      \<exists>ls. getLeadsForStage t ''output'' None (leads st') = Inr ls \<and> l \<in> set ls))
          \<and> ((\<forall>l \<in> set sel. of_int (scoreOrZero (score l)) < outputMinScore cfg minScoreArg) \<longrightarrow>
                leads st' = leads st
                \<and> getLeadsForStage (clock (ticks st)) ''output'' (Some (stageLimit cfg cap))
                     (leads st') = Inr sel)))"
proof (intro conjI impI)
  assume m: "map_of statusMap stg = Some statuses"
    and g: "getLeadsForStage now stg limit rows = Inr batch"
  from g m show "batch = map rowToLead (applyLimit limit (filter (eligible now statuses) rows))"
    by (simp add: getLeadsForStage_def)
  from m g show "subseq batch (map rowToLead rows)"
    by (rule selection_subseq)
  assume "distinct (map col_lead_id rows)"
    and "list_all2 (\<lambda>r r'. if col_lead_id r \<in> leadId ` set batch
                then \<not> eligible now' statuses r'
                else r' = r \<and> eligible now' statuses r = eligible now statuses r) rows rows'"
  with m show "getLeadsForStage now' stg limit rows'
      = Inr (map rowToLead (applyLimit limit
               (drop (length batch) (filter (eligible now statuses) rows))))"
    using g by (intro next_batch)
next
  assume d: "distinct (map col_lead_id (leads st))"
    and s: "getLeadsForStage (clock (ticks st)) ''output'' (Some (stageLimit cfg cap)) (leads st)
         = Inr sel"
  from outputExecute_leads [where clock = clock and st = st and cfg = cfg and cap = cap
      and sel = sel and B = B and fs = fs and formatArg = formatArg
      and minScoreArg = minScoreArg, OF s]
  obtain e st' where x: "outputExecute B fs cfg clock cap formatArg minScoreArg st = Some (e, st')"
    by blast
  have 1: "\<forall>l \<in> set sel. of_int (scoreOrZero (score l)) < outputMinScore cfg minScoreArg \<longrightarrow>
      getById (leads st') (leadId l) = Some l
      \<and> (\<forall>t \<ge> clock (ticks st).
            \<exists>ls. getLeadsForStage t ''output'' None (leads st') = Inr ls \<and> l \<in> set ls)"
    using output_keeps_below [OF d s x] by blast
  have 2: "(\<forall>l \<in> set sel. of_int (scoreOrZero (score l)) < outputMinScore cfg minScoreArg) \<longrightarrow>
      leads st' = leads st
      \<and> getLeadsForStage (clock (ticks st)) ''output'' (Some (stageLimit cfg cap)) (leads st')
           = Inr sel"
  proof
    assume "\<forall>l \<in> set sel. of_int (scoreOrZero (score l)) < outputMinScore cfg minScoreArg"
    from outputExecute_empty [where clock = clock and st = st and cfg = cfg and cap = cap
      and sel = sel and B = B and fs = fs and formatArg = formatArg
      and minScoreArg = minScoreArg, OF s this] x
    have "st' = tick st" by simp
    then have "leads st' = leads st" by simp
    with s show "leads st' = leads st
      \<and> getLeadsForStage (clock (ticks st)) ''output'' (Some (stageLimit cfg cap)) (leads st')
           = Inr sel"
      by simp
  qed
  show "\<exists>e st'. outputExecute B fs cfg clock cap formatArg minScoreArg st = Some (e, st')
          \<and> (\<forall>l \<in> set sel. of_int (scoreOrZero (score l)) < outputMinScore cfg minScoreArg \<longrightarrow>
                getById (leads st') (leadId l) = Some l
                \<and> (\<forall>t \<ge> clock (ticks st).
                      \<exists>ls. getLeadsForStage t ''output'' None (leads st') = Inr ls \<and> l \<in> set ls))
          \<and> ((\<forall>l \<in> set sel. of_int (scoreOrZero (score l)) < outputMinScore cfg minScoreArg) \<longrightarrow>
                leads st' = leads st
                \<and> getLeadsForStage (clock (ticks st)) ''output'' (Some (stageLimit cfg cap))
                     (leads st') = Inr sel)"
    apply (rule exI [of _ e], rule exI [of _ st'])
    using x 1 2 by (intro conjI)
qed

text \<open>
  C9 as stated fails: progress is not a property of the query. The output stage leaves
  a lead whose score is below its minimum score in \<^verbatim>\<open>scored\<close>. With the limit 1 and the
  minimum score 50, the lead \<^verbatim>\<open>a\<close> of score 40 is selected, nothing is exported and
  nothing is written to the table, and the next selection is \<^verbatim>\<open>a\<close> again: the lead \<^verbatim>\<open>b\<close>
  of score 90 behind it is never selected.
\<close>

theorem output_below_minimum_counterexample:
  "\<forall>B fs clock.
     getLeadsForStage (clock 0) ''output'' (Some 1)
        [(insertedRow 1000 (onlyId ''a''))\<lparr>col_status := Some Scored, col_score := Some 40\<rparr>,
         (insertedRow 1001 (onlyId ''b''))\<lparr>col_status := Some Scored, col_score := Some 90\<rparr>]
       = Inr [rowToLead ((insertedRow 1000 (onlyId ''a''))
                \<lparr>col_status := Some Scored, col_score := Some 40\<rparr>)]
     \<and> map_option (\<lambda>(e, s). (e, leads s, passed s))
         (outputExecute B fs DEFAULT_CONFIG clock (Some 1) None (Some 50)
           (newStage
              [(insertedRow 1000 (onlyId ''a''))\<lparr>col_status := Some Scored, col_score := Some 40\<rparr>,
               (insertedRow 1001 (onlyId ''b''))\<lparr>col_status := Some Scored, col_score := Some 90\<rparr>]
              [] [] 0))
       = Some (None,
           [(insertedRow 1000 (onlyId ''a''))\<lparr>col_status := Some Scored, col_score := Some 40\<rparr>,
            (insertedRow 1001 (onlyId ''b''))\<lparr>col_status := Some Scored, col_score := Some 90\<rparr>],
           0)
     \<and> getLeadsForStage (clock 1) ''output'' (Some 1)
        [(insertedRow 1000 (onlyId ''a''))\<lparr>col_status := Some Scored, col_score := Some 40\<rparr>,
         (insertedRow 1001 (onlyId ''b''))\<lparr>col_status := Some Scored, col_score := Some 90\<rparr>]
       = Inr [rowToLead ((insertedRow 1000 (onlyId ''a''))
                \<lparr>col_status := Some Scored, col_score := Some 40\<rparr>)]"
proof (intro allI)
  fix B :: builtins and fs :: filesystem and clock :: "nat \<Rightarrow> int"
  define ra where "ra = (insertedRow 1000 (onlyId ''a''))\<lparr>col_status := Some Scored, col_score := Some 40\<rparr>"
  define rb where "rb = (insertedRow 1001 (onlyId ''b''))\<lparr>col_status := Some Scored, col_score := Some 90\<rparr>"
  have e: "eligible t [Scored] ra" "eligible t [Scored] rb" for t
    by (simp_all add: eligible_def ra_def rb_def insertedRow_def onlyId_def)
  have g: "getLeadsForStage t ''output'' (Some 1) [ra, rb] = Inr [rowToLead ra]" for t
    by (simp add: getLeadsForStage_def statusMap_def e)
  have sc: "score (rowToLead ra) = Val 40"
    by (simp add: rowToLead_sel ra_def)
  have l: "stageLimit DEFAULT_CONFIG (Some 1) = 1" "outputMinScore DEFAULT_CONFIG (Some 50) = 50"
    by simp_all
  have o: "outputExecute B fs DEFAULT_CONFIG clock (Some 1) None (Some 50) (newStage [ra, rb] [] [] 0)
      = Some (None, tick (newStage [ra, rb] [] [] 0))"
    unfolding outputExecute_def l
    by (simp add: newStage_def dateNow_def g sc Let_def)
  have "map_option (\<lambda>(e, s). (e, leads s, passed s))
         (outputExecute B fs DEFAULT_CONFIG clock (Some 1) None (Some 50) (newStage [ra, rb] [] [] 0))
       = Some (None, [ra, rb], 0)"
    unfolding o by (simp add: newStage_def)
  with g [of "clock 0"] g [of "clock 1"]
  show "getLeadsForStage (clock 0) ''output'' (Some 1)
        [(insertedRow 1000 (onlyId ''a''))\<lparr>col_status := Some Scored, col_score := Some 40\<rparr>,
         (insertedRow 1001 (onlyId ''b''))\<lparr>col_status := Some Scored, col_score := Some 90\<rparr>]
       = Inr [rowToLead ((insertedRow 1000 (onlyId ''a''))
                \<lparr>col_status := Some Scored, col_score := Some 40\<rparr>)]
     \<and> map_option (\<lambda>(e, s). (e, leads s, passed s))
         (outputExecute B fs DEFAULT_CONFIG clock (Some 1) None (Some 50)
           (newStage
              [(insertedRow 1000 (onlyId ''a''))\<lparr>col_status := Some Scored, col_score := Some 40\<rparr>,
               (insertedRow 1001 (onlyId ''b''))\<lparr>col_status := Some Scored, col_score := Some 90\<rparr>]
              [] [] 0))
       = Some (None,
           [(insertedRow 1000 (onlyId ''a''))\<lparr>col_status := Some Scored, col_score := Some 40\<rparr>,
            (insertedRow 1001 (onlyId ''b''))\<lparr>col_status := Some Scored, col_score := Some 90\<rparr>],
           0)
     \<and> getLeadsForStage (clock 1) ''output'' (Some 1)
        [(insertedRow 1000 (onlyId ''a''))\<lparr>col_status := Some Scored, col_score := Some 40\<rparr>,
         (insertedRow 1001 (onlyId ''b''))\<lparr>col_status := Some Scored, col_score := Some 90\<rparr>]
       = Inr [rowToLead ((insertedRow 1000 (onlyId ''a''))
                \<lparr>col_status := Some Scored, col_score := Some 40\<rparr>)]"
    unfolding ra_def rb_def by (intro conjI)
qed

text \<open>
  Two instances. A run of the filter stage with the limit 1 moves \<^verbatim>\<open>a\<close> to \<^verbatim>\<open>filtered\<close>,
  and the next selection is \<^verbatim>\<open>b\<close>. A run of the output stage with the limit 2 and the
  minimum score 50 selects \<^verbatim>\<open>p\<close> and \<^verbatim>\<open>q\<close>, of scores 40 and 30, and leaves the table as it
  was: the next selection is \<^verbatim>\<open>p\<close> and \<^verbatim>\<open>q\<close> again, and \<^verbatim>\<open>r\<close>, of score 90, is not reached.
\<close>

theorem getLeadsForStage_progress_witness:
  "\<forall>B fs clock fmt.
    (\<exists>rows'.
       rows' = leads (snd (filterExecute B DEFAULT_CONFIG clock (Some 1)
          (newStage
             [(insertedRow 1000 (onlyId ''a''))\<lparr>col_status := Some Collected\<rparr>,
              (insertedRow 1001 (onlyId ''b''))\<lparr>col_status := Some Collected\<rparr>] [] [] 0)))
       \<and> map_of statusMap ''filter'' = Some [Collected]
       \<and> distinct (map col_lead_id
            [(insertedRow 1000 (onlyId ''a''))\<lparr>col_status := Some Collected\<rparr>,
             (insertedRow 1001 (onlyId ''b''))\<lparr>col_status := Some Collected\<rparr>])
       \<and> getLeadsForStage (clock 0) ''filter'' (Some 1)
            [(insertedRow 1000 (onlyId ''a''))\<lparr>col_status := Some Collected\<rparr>,
             (insertedRow 1001 (onlyId ''b''))\<lparr>col_status := Some Collected\<rparr>]
          = Inr [rowToLead ((insertedRow 1000 (onlyId ''a''))\<lparr>col_status := Some Collected\<rparr>)]
       \<and> map (\<lambda>r. (col_lead_id r, col_status r)) rows'
          = [(''a'', Some Filtered), (''b'', Some Collected)]
       \<and> subseq [rowToLead ((insertedRow 1000 (onlyId ''a''))\<lparr>col_status := Some Collected\<rparr>)]
            (map rowToLead
              [(insertedRow 1000 (onlyId ''a''))\<lparr>col_status := Some Collected\<rparr>,
               (insertedRow 1001 (onlyId ''b''))\<lparr>col_status := Some Collected\<rparr>])
       \<and> getLeadsForStage (clock 2) ''filter'' (Some 1) rows'
          = Inr [rowToLead ((insertedRow 1001 (onlyId ''b''))\<lparr>col_status := Some Collected\<rparr>)])
    \<and> distinct (map col_lead_id
          [(insertedRow 1000 (onlyId ''p''))\<lparr>col_status := Some Scored, col_score := Some 40\<rparr>,
           (insertedRow 1001 (onlyId ''q''))\<lparr>col_status := Some Scored, col_score := Some 30\<rparr>,
           (insertedRow 1002 (onlyId ''r''))\<lparr>col_status := Some Scored, col_score := Some 90\<rparr>])
    \<and> getLeadsForStage (clock 0) ''output'' (Some (stageLimit DEFAULT_CONFIG (Some 2)))
          [(insertedRow 1000 (onlyId ''p''))\<lparr>col_status := Some Scored, col_score := Some 40\<rparr>,
           (insertedRow 1001 (onlyId ''q''))\<lparr>col_status := Some Scored, col_score := Some 30\<rparr>,
           (insertedRow 1002 (onlyId ''r''))\<lparr>col_status := Some Scored, col_score := Some 90\<rparr>]
        = Inr [rowToLead ((insertedRow 1000 (onlyId ''p''))
                  \<lparr>col_status := Some Scored, col_score := Some 40\<rparr>),
               rowToLead ((insertedRow 1001 (onlyId ''q''))
                  \<lparr>col_status := Some Scored, col_score := Some 30\<rparr>)]
    \<and> (\<exists>e st'.
          outputExecute B fs DEFAULT_CONFIG clock (Some 2) fmt (Some 50)
            (newStage
              [(insertedRow 1000 (onlyId ''p''))\<lparr>col_status := Some Scored, col_score := Some 40\<rparr>,
               (insertedRow 1001 (onlyId ''q''))\<lparr>col_status := Some Scored, col_score := Some 30\<rparr>,
               (insertedRow 1002 (onlyId ''r''))\<lparr>col_status := Some Scored, col_score := Some 90\<rparr>]
              [] [] 0)
            = Some (e, st')
          \<and> getById (leads st') ''p''
              = Some (rowToLead ((insertedRow 1000 (onlyId ''p''))
                  \<lparr>col_status := Some Scored, col_score := Some 40\<rparr>))
          \<and> (\<exists>ls. getLeadsForStage (clock 0 + 86400000) ''output'' None (leads st') = Inr ls
                \<and> rowToLead ((insertedRow 1000 (onlyId ''p''))
                     \<lparr>col_status := Some Scored, col_score := Some 40\<rparr>) \<in> set ls)
          \<and> leads st'
              = [(insertedRow 1000 (onlyId ''p''))\<lparr>col_status := Some Scored, col_score := Some 40\<rparr>,
                 (insertedRow 1001 (onlyId ''q''))\<lparr>col_status := Some Scored, col_score := Some 30\<rparr>,
                 (insertedRow 1002 (onlyId ''r''))\<lparr>col_status := Some Scored, col_score := Some 90\<rparr>]
          \<and> getLeadsForStage (clock 0) ''output'' (Some (stageLimit DEFAULT_CONFIG (Some 2)))
                (leads st')
              = Inr [rowToLead ((insertedRow 1000 (onlyId ''p''))
                        \<lparr>col_status := Some Scored, col_score := Some 40\<rparr>),
                     rowToLead ((insertedRow 1001 (onlyId ''q''))
                        \<lparr>col_status := Some Scored, col_score := Some 30\<rparr>)])"
proof (intro allI)
  fix B :: builtins and fs :: filesystem and clock :: "nat \<Rightarrow> int" and fmt :: "Format option"
  define ra where "ra = (insertedRow 1000 (onlyId ''a''))\<lparr>col_status := Some Collected\<rparr>"
  define rb where "rb = (insertedRow 1001 (onlyId ''b''))\<lparr>col_status := Some Collected\<rparr>"
  define ra' where "ra' = ra\<lparr>col_status := Some Filtered, col_updated_at := clock 1\<rparr>"
  define rows' where "rows' = leads (snd (filterExecute B DEFAULT_CONFIG clock (Some 1)
        (newStage [ra, rb] [] [] 0)))"
  have ids: "col_lead_id ra = ''a''" "col_lead_id rb = ''b''"
    by (simp_all add: ra_def rb_def insertedRow_def onlyId_def)
  have e: "eligible t [Collected] ra" "eligible t [Collected] rb" "\<not> eligible t [Collected] ra'" for t
    by (simp_all add: eligible_def ra_def rb_def ra'_def insertedRow_def onlyId_def)
  have m: "map_of statusMap ''filter'' = Some [Collected]"
    by (simp add: statusMap_def)
  have d: "distinct (map col_lead_id [ra, rb])"
    by (simp add: ids)
  have g: "getLeadsForStage (clock 0) ''filter'' (Some 1) [ra, rb] = Inr [rowToLead ra]"
    by (simp add: getLeadsForStage_def m e)
  have f: "leadId (rowToLead ra) = ''a''" "cooldownUntil (rowToLead ra) = Null"
    "evaluateLead B (rowToLead ra) [] [] [] = None"
    by (simp_all add: rowToLead_def ra_def insertedRow_def onlyId_def evaluateLead_def
        emptyObject_def)
  have c: "rules DEFAULT_CONFIG = []" "excludeCategories DEFAULT_CONFIG = []"
    "excludeKeywords DEFAULT_CONFIG = []" "stageLimit DEFAULT_CONFIG (Some 1) = 1"
    by (simp_all add: DEFAULT_CONFIG_def)
  have u: "updateStatus (clock 1) ''a'' Filtered [ra, rb] = [ra', rb]"
    by (simp add: updateStatus_def updateWhere_def ids ra'_def)
  have r: "rows' = [ra', rb]"
    unfolding rows'_def filterExecute_def c
    by (simp add: newStage_def dateNow_def g filterOne_def c f Let_def onLeads_def tick_def
        u [unfolded One_nat_def] updateProgress_def)
  have rel: "list_all2 (\<lambda>r r'. if col_lead_id r \<in> leadId ` set [rowToLead ra]
                then \<not> eligible (clock 2) [Collected] r'
                else r' = r \<and> eligible (clock 2) [Collected] r = eligible (clock 0) [Collected] r)
        [ra, rb] rows'"
    by (simp add: r f ids e)
  note a = getLeadsForStage_progress [where stg = "''filter''" and statuses = "[Collected]"
      and now = "clock 0" and limit = "Some 1" and rows = "[ra, rb]" and batch = "[rowToLead ra]"
      and now' = "clock 2" and rows' = rows', THEN conjunct1, THEN mp, OF m, THEN mp, OF g]
  from a have s: "subseq [rowToLead ra] (map rowToLead [ra, rb])"
    by (rule conjunct2 [THEN conjunct1])
  from a [THEN conjunct2, THEN conjunct2, THEN mp, OF d, THEN mp, OF rel]
  have n: "getLeadsForStage (clock 2) ''filter'' (Some 1) rows'
        = Inr (map rowToLead (applyLimit (Some 1)
                 (drop (length [rowToLead ra]) (filter (eligible (clock 0) [Collected]) [ra, rb]))))" .
  have n': "getLeadsForStage (clock 2) ''filter'' (Some 1) rows' = Inr [rowToLead rb]"
    unfolding n by (simp add: e)
  have st: "map (\<lambda>r. (col_lead_id r, col_status r)) rows'
        = [(''a'', Some Filtered), (''b'', Some Collected)]"
    by (simp add: r ra'_def rb_def insertedRow_def onlyId_def ra_def)
  have 1: "\<exists>rows'.
       rows' = leads (snd (filterExecute B DEFAULT_CONFIG clock (Some 1)
          (newStage
             [(insertedRow 1000 (onlyId ''a''))\<lparr>col_status := Some Collected\<rparr>,
              (insertedRow 1001 (onlyId ''b''))\<lparr>col_status := Some Collected\<rparr>] [] [] 0)))
       \<and> map_of statusMap ''filter'' = Some [Collected]
       \<and> distinct (map col_lead_id
            [(insertedRow 1000 (onlyId ''a''))\<lparr>col_status := Some Collected\<rparr>,
             (insertedRow 1001 (onlyId ''b''))\<lparr>col_status := Some Collected\<rparr>])
       \<and> getLeadsForStage (clock 0) ''filter'' (Some 1)
            [(insertedRow 1000 (onlyId ''a''))\<lparr>col_status := Some Collected\<rparr>,
             (insertedRow 1001 (onlyId ''b''))\<lparr>col_status := Some Collected\<rparr>]
          = Inr [rowToLead ((insertedRow 1000 (onlyId ''a''))\<lparr>col_status := Some Collected\<rparr>)]
       \<and> map (\<lambda>r. (col_lead_id r, col_status r)) rows'
          = [(''a'', Some Filtered), (''b'', Some Collected)]
       \<and> subseq [rowToLead ((insertedRow 1000 (onlyId ''a''))\<lparr>col_status := Some Collected\<rparr>)]
            (map rowToLead
              [(insertedRow 1000 (onlyId ''a''))\<lparr>col_status := Some Collected\<rparr>,
               (insertedRow 1001 (onlyId ''b''))\<lparr>col_status := Some Collected\<rparr>])
       \<and> getLeadsForStage (clock 2) ''filter'' (Some 1) rows'
          = Inr [rowToLead ((insertedRow 1001 (onlyId ''b''))\<lparr>col_status := Some Collected\<rparr>)]"
    apply (rule exI [of _ rows'])
    using rows'_def [unfolded ra_def rb_def] m d [unfolded ra_def rb_def] g [unfolded ra_def rb_def]
      st s [unfolded ra_def rb_def] n' [unfolded rb_def]
    by (intro conjI)
  define rp where "rp = (insertedRow 1000 (onlyId ''p''))\<lparr>col_status := Some Scored, col_score := Some 40\<rparr>"
  define rq where "rq = (insertedRow 1001 (onlyId ''q''))\<lparr>col_status := Some Scored, col_score := Some 30\<rparr>"
  define rr where "rr = (insertedRow 1002 (onlyId ''r''))\<lparr>col_status := Some Scored, col_score := Some 90\<rparr>"
  define st0 where "st0 = newStage [rp, rq, rr] [] [] 0"
  have st0: "leads st0 = [rp, rq, rr]" "ticks st0 = 0"
    by (simp_all add: st0_def newStage_def)
  have pid: "col_lead_id rp = ''p''" "col_lead_id rq = ''q''" "col_lead_id rr = ''r''"
    by (simp_all add: rp_def rq_def rr_def insertedRow_def onlyId_def)
  have pe: "eligible t [Scored] rp" "eligible t [Scored] rq" "eligible t [Scored] rr" for t
    by (simp_all add: eligible_def rp_def rq_def rr_def insertedRow_def onlyId_def)
  have dp: "distinct (map col_lead_id [rp, rq, rr])"
    by (simp add: pid)
  have gp: "getLeadsForStage (clock 0) ''output'' (Some (stageLimit DEFAULT_CONFIG (Some 2)))
      [rp, rq, rr] = Inr [rowToLead rp, rowToLead rq]"
    by (simp add: getLeadsForStage_def statusMap_def pe)
  have sc: "score (rowToLead rp) = Val 40" "score (rowToLead rq) = Val 30"
    "leadId (rowToLead rp) = ''p''"
    by (simp_all add: rowToLead_sel rp_def rq_def insertedRow_def onlyId_def)
  have below: "\<forall>l \<in> set [rowToLead rp, rowToLead rq].
      of_int (scoreOrZero (score l)) < outputMinScore DEFAULT_CONFIG (Some 50)"
    by (simp add: sc)
  have inp: "rowToLead rp \<in> set [rowToLead rp, rowToLead rq]" by simp
  have later: "clock (ticks st0) \<le> clock 0 + 86400000" by (simp add: st0)
  from getLeadsForStage_progress [where st = st0 and clock = clock and cfg = DEFAULT_CONFIG
      and cap = "Some 2" and sel = "[rowToLead rp, rowToLead rq]" and B = B and fs = fs
      and formatArg = fmt and minScoreArg = "Some 50", THEN conjunct2, THEN mp,
      OF dp [folded st0(1)], THEN mp, OF gp [folded st0(1), folded st0(2)]]
  obtain e st' where
    x: "outputExecute B fs DEFAULT_CONFIG clock (Some 2) fmt (Some 50) st0 = Some (e, st')"
    and p1: "\<forall>l \<in> set [rowToLead rp, rowToLead rq].
        of_int (scoreOrZero (score l)) < outputMinScore DEFAULT_CONFIG (Some 50) \<longrightarrow>
          getById (leads st') (leadId l) = Some l
          \<and> (\<forall>t \<ge> clock (ticks st0).
                \<exists>ls. getLeadsForStage t ''output'' None (leads st') = Inr ls \<and> l \<in> set ls)"
    and p2: "(\<forall>l \<in> set [rowToLead rp, rowToLead rq].
        of_int (scoreOrZero (score l)) < outputMinScore DEFAULT_CONFIG (Some 50)) \<longrightarrow>
          leads st' = leads st0
          \<and> getLeadsForStage (clock (ticks st0)) ''output''
               (Some (stageLimit DEFAULT_CONFIG (Some 2))) (leads st')
             = Inr [rowToLead rp, rowToLead rq]"
    by (elim exE conjE) (rule that; assumption)
  from p1 [THEN bspec, OF inp, THEN mp, OF below [THEN bspec, OF inp]]
  have q1: "getById (leads st') ''p'' = Some (rowToLead rp)"
    and q2: "\<forall>t \<ge> clock (ticks st0).
        \<exists>ls. getLeadsForStage t ''output'' None (leads st') = Inr ls \<and> rowToLead rp \<in> set ls"
    unfolding sc(3) by (rule conjunct1, rule conjunct2)
  from q2 [THEN spec, THEN mp, OF later]
  have q3: "\<exists>ls. getLeadsForStage (clock 0 + 86400000) ''output'' None (leads st') = Inr ls
      \<and> rowToLead rp \<in> set ls" .
  from p2 [THEN mp, OF below]
  have q4: "leads st' = [rp, rq, rr]"
    and q5: "getLeadsForStage (clock 0) ''output'' (Some (stageLimit DEFAULT_CONFIG (Some 2)))
        (leads st') = Inr [rowToLead rp, rowToLead rq]"
    unfolding st0 by (rule conjunct1, rule conjunct2)
  have 2: "\<exists>e st'.
          outputExecute B fs DEFAULT_CONFIG clock (Some 2) fmt (Some 50) (newStage [rp, rq, rr] [] [] 0)
            = Some (e, st')
          \<and> getById (leads st') ''p'' = Some (rowToLead rp)
          \<and> (\<exists>ls. getLeadsForStage (clock 0 + 86400000) ''output'' None (leads st') = Inr ls
                \<and> rowToLead rp \<in> set ls)
          \<and> leads st' = [rp, rq, rr]
          \<and> getLeadsForStage (clock 0) ''output'' (Some (stageLimit DEFAULT_CONFIG (Some 2)))
                (leads st')
              = Inr [rowToLead rp, rowToLead rq]"
    apply (rule exI [of _ e], rule exI [of _ st'])
    using x [unfolded st0_def] q1 q3 q4 q5 by (intro conjI)
  from 1 dp [unfolded rp_def rq_def rr_def] gp [unfolded rp_def rq_def rr_def]
    2 [unfolded rp_def rq_def rr_def]
  show "(\<exists>rows'.
       rows' = leads (snd (filterExecute B DEFAULT_CONFIG clock (Some 1)
          (newStage
             [(insertedRow 1000 (onlyId ''a''))\<lparr>col_status := Some Collected\<rparr>,
              (insertedRow 1001 (onlyId ''b''))\<lparr>col_status := Some Collected\<rparr>] [] [] 0)))
       \<and> map_of statusMap ''filter'' = Some [Collected]
       \<and> distinct (map col_lead_id
            [(insertedRow 1000 (onlyId ''a''))\<lparr>col_status := Some Collected\<rparr>,
             (insertedRow 1001 (onlyId ''b''))\<lparr>col_status := Some Collected\<rparr>])
       \<and> getLeadsForStage (clock 0) ''filter'' (Some 1)
            [(insertedRow 1000 (onlyId ''a''))\<lparr>col_status := Some Collected\<rparr>,
             (insertedRow 1001 (onlyId ''b''))\<lparr>col_status := Some Collected\<rparr>]
          = Inr [rowToLead ((insertedRow 1000 (onlyId ''a''))\<lparr>col_status := Some Collected\<rparr>)]
       \<and> map (\<lambda>r. (col_lead_id r, col_status r)) rows'
          = [(''a'', Some Filtered), (''b'', Some Collected)]
       \<and> subseq [rowToLead ((insertedRow 1000 (onlyId ''a''))\<lparr>col_status := Some Collected\<rparr>)]
            (map rowToLead
              [(insertedRow 1000 (onlyId ''a''))\<lparr>col_status := Some Collected\<rparr>,
               (insertedRow 1001 (onlyId ''b''))\<lparr>col_status := Some Collected\<rparr>])
       \<and> getLeadsForStage (clock 2) ''filter'' (Some 1) rows'
          = Inr [rowToLead ((insertedRow 1001 (onlyId ''b''))\<lparr>col_status := Some Collected\<rparr>)])
    \<and> distinct (map col_lead_id
          [(insertedRow 1000 (onlyId ''p''))\<lparr>col_status := Some Scored, col_score := Some 40\<rparr>,
           (insertedRow 1001 (onlyId ''q''))\<lparr>col_status := Some Scored, col_score := Some 30\<rparr>,
           (insertedRow 1002 (onlyId ''r''))\<lparr>col_status := Some Scored, col_score := Some 90\<rparr>])
    \<and> getLeadsForStage (clock 0) ''output'' (Some (stageLimit DEFAULT_CONFIG (Some 2)))
          [(insertedRow 1000 (onlyId ''p''))\<lparr>col_status := Some Scored, col_score := Some 40\<rparr>,
           (insertedRow 1001 (onlyId ''q''))\<lparr>col_status := Some Scored, col_score := Some 30\<rparr>,
           (insertedRow 1002 (onlyId ''r''))\<lparr>col_status := Some Scored, col_score := Some 90\<rparr>]
        = Inr [rowToLead ((insertedRow 1000 (onlyId ''p''))
                  \<lparr>col_status := Some Scored, col_score := Some 40\<rparr>),
               rowToLead ((insertedRow 1001 (onlyId ''q''))
                  \<lparr>col_status := Some Scored, col_score := Some 30\<rparr>)]
    \<and> (\<exists>e st'.
          outputExecute B fs DEFAULT_CONFIG clock (Some 2) fmt (Some 50)
            (newStage
              [(insertedRow 1000 (onlyId ''p''))\<lparr>col_status := Some Scored, col_score := Some 40\<rparr>,
               (insertedRow 1001 (onlyId ''q''))\<lparr>col_status := Some Scored, col_score := Some 30\<rparr>,
               (insertedRow 1002 (onlyId ''r''))\<lparr>col_status := Some Scored, col_score := Some 90\<rparr>]
              [] [] 0)
            = Some (e, st')
          \<and> getById (leads st') ''p''
              = Some (rowToLead ((insertedRow 1000 (onlyId ''p''))
                  \<lparr>col_status := Some Scored, col_score := Some 40\<rparr>))
          \<and> (\<exists>ls. getLeadsForStage (clock 0 + 86400000) ''output'' None (leads st') = Inr ls
                \<and> rowToLead ((insertedRow 1000 (onlyId ''p''))
                     \<lparr>col_status := Some Scored, col_score := Some 40\<rparr>) \<in> set ls)
          \<and> leads st'
              = [(insertedRow 1000 (onlyId ''p''))\<lparr>col_status := Some Scored, col_score := Some 40\<rparr>,
                 (insertedRow 1001 (onlyId ''q''))\<lparr>col_status := Some Scored, col_score := Some 30\<rparr>,
                 (insertedRow 1002 (onlyId ''r''))\<lparr>col_status := Some Scored, col_score := Some 90\<rparr>]
          \<and> getLeadsForStage (clock 0) ''output'' (Some (stageLimit DEFAULT_CONFIG (Some 2)))
                (leads st')
              = Inr [rowToLead ((insertedRow 1000 (onlyId ''p''))
                        \<lparr>col_status := Some Scored, col_score := Some 40\<rparr>),
                     rowToLead ((insertedRow 1001 (onlyId ''q''))
                        \<lparr>col_status := Some Scored, col_score := Some 30\<rparr>)])"
    by (intro conjI)
qed

section \<open>Run counters of the discover stage\<close>

text \<open>
  C8 does not hold of the code. In the discover stage an error of a source handler is
  caught by the loop over the sources and passed to \<^verbatim>\<open>recordError\<close>, which increments
  \<^verbatim>\<open>failed\<close> and writes the counters to the run; \<^verbatim>\<open>processed\<close> is incremented only per
  record the handler yields. A handler that fails before it yields a record leaves the
  run with 0 processed, 0 passed and 1 failed, at the checkpoint \<^verbatim>\<open>recordError\<close> writes and
  in the completed run.
\<close>

theorem discover_error_counts_failed_only:
  "map_option (\<lambda>(e, s). map (\<lambda>r. (leads_processed r, leads_passed r, leads_failed r)) (runs s))
     (discoverExecute
        (DEFAULT_CONFIG\<lparr>sources :=
           [\<lparr>source_name = ''yelp-austin'', source_type = ''directory'', source_enabled = True\<rparr>]\<rparr>)
        clock
        (\<lambda>t. if t = ''directory'' then Some (\<lambda>source limit. ([], Some ''fetch failed'')) else None)
        None None
        ((newStage [] [] [] 2)
           \<lparr>runs := runStart 1001 ''run-1'' ''discover'' [], run := Some ''run-1''\<rparr>))
     = Some [(0, 0, 1)]
   \<and> map_option
       (\<lambda>s. (map (\<lambda>r. (run_stage r, run_status r, leads_processed r, leads_passed r, leads_failed r))
               (runs s),
             processed s, passed s, failed s, errors s))
       (runStage clock rid ''discover''
          (discoverExecute
             (DEFAULT_CONFIG\<lparr>sources :=
                [\<lparr>source_name = ''yelp-austin'', source_type = ''directory'',
                  source_enabled = True\<rparr>]\<rparr>)
             clock
             (\<lambda>t. if t = ''directory'' then Some (\<lambda>source limit. ([], Some ''fetch failed''))
                  else None)
             None None)
          (newStage [] [] [] 0))
     = Some ([(''discover'', Completed, 0, 0, 1)], 0, 0, 1, [''fetch failed''])"
proof -
  define cfg where "cfg = DEFAULT_CONFIG\<lparr>sources :=
      [\<lparr>source_name = ''yelp-austin'', source_type = ''directory'', source_enabled = True\<rparr>]\<rparr>"
  define handlers :: "string \<Rightarrow> (SourceConfig \<Rightarrow> int option \<Rightarrow> produced) option" where
    "handlers = (\<lambda>t. if t = ''directory'' then Some (\<lambda>source limit. ([], Some ''fetch failed''))
                  else None)"
  have c: "sources cfg = [\<lparr>source_name = ''yelp-austin'', source_type = ''directory'',
      source_enabled = True\<rparr>]" "maxLeadsPerRun cfg = 500"
    by (simp_all add: cfg_def DEFAULT_CONFIG_def)
  have x: "discoverExecute cfg clock handlers None None st
      = Some (None, recordError ''fetch failed'' st)" for st
    by (simp add: discoverExecute_def c discoverSource_def handlers_def)
  have 1: "map_option (\<lambda>(e, s). map (\<lambda>r. (leads_processed r, leads_passed r, leads_failed r)) (runs s))
     (discoverExecute cfg clock handlers None None
        ((newStage [] [] [] 2)
           \<lparr>runs := runStart 1001 ''run-1'' ''discover'' [], run := Some ''run-1''\<rparr>))
     = Some [(0, 0, 1)]"
    unfolding x
    by (simp add: recordError_def updateProgress_def newStage_def runStart_def
        runUpdateProgress_def updateRun_def)
  have 2: "map_option
       (\<lambda>s. (map (\<lambda>r. (run_stage r, run_status r, leads_processed r, leads_passed r, leads_failed r))
               (runs s),
             processed s, passed s, failed s, errors s))
       (runStage clock rid ''discover'' (discoverExecute cfg clock handlers None None)
          (newStage [] [] [] 0))
     = Some ([(''discover'', Completed, 0, 0, 1)], 0, 0, 1, [''fetch failed''])"
    unfolding runStage_def Let_def x
    by (simp add: recordError_def updateProgress_def newStage_def runStart_def tick_def
        runUpdateProgress_def updateRun_def runComplete_def dateNow_def)
  from 1 2 show ?thesis
    unfolding cfg_def handlers_def by (intro conjI)
qed

end
